theory Spec2Isabelle
  imports Main
begin

section \<open>JSON values and the JavaScript operations the client applies to them\<close>

text \<open>
  The client (\<^verbatim>\<open>client.ts\<close>) handles whatever \<^verbatim>\<open>JSON.parse\<close> returns for an upstream
  body. A parsed body is a \<open>json\<close> value; a JavaScript value that may also be
  \<^verbatim>\<open>undefined\<close> is a \<open>json option\<close>, with \<open>None\<close> for \<^verbatim>\<open>undefined\<close>.
  Numbers are those with an integer value (the statuses, limits, counts and lengths
  of this client), an integer standing for the double nearest to it;
  an object is the list of its own properties, in order, keys distinct as
  \<^verbatim>\<open>JSON.parse\<close> produces them. Strings are lists of 8-bit characters.
\<close>

datatype json =
    JNull
  | JBool bool
  | JNum int
  | JStr string
  | JArr "json list"
  | JObj "(string \<times> json) list"

type_synonym jsval = "json option"

text \<open>\<^verbatim>\<open>!!v\<close>: the falsy values are undefined, null, false, 0 and the empty string.\<close>

fun truthy_json :: "json \<Rightarrow> bool" where
  "truthy_json JNull = False"
| "truthy_json (JBool b) = b"
| "truthy_json (JNum n) = (n \<noteq> 0)"
| "truthy_json (JStr s) = (s \<noteq> [])"
| "truthy_json (JArr xs) = True"
| "truthy_json (JObj kvs) = True"

fun truthy :: "jsval \<Rightarrow> bool" where
  "truthy None = False"
| "truthy (Some v) = truthy_json v"

text \<open>\<^verbatim>\<open>v == null\<close>: undefined or null, the values whose property access throws.\<close>

fun nullish :: "jsval \<Rightarrow> bool" where
  "nullish None = True"
| "nullish (Some JNull) = True"
| "nullish (Some v) = False"

text \<open>
  \<^verbatim>\<open>v?.k\<close> for the property names this client reads (\<^verbatim>\<open>errors\<close>, \<^verbatim>\<open>message\<close>,
  \<^verbatim>\<open>result\<close>, \<^verbatim>\<open>results\<close>, \<^verbatim>\<open>_metadata\<close>, \<^verbatim>\<open>next\<close>, \<^verbatim>\<open>length\<close>, \<^verbatim>\<open>contact_count\<close>,
  \<^verbatim>\<open>job_id\<close>, an email address): an object yields its own property, an array and a
  string yield their \<^verbatim>\<open>length\<close>, everything else yields undefined. None of the fixed
  names is inherited from a prototype; an email address, which the tool's schema checks,
  contains \<^verbatim>\<open>@\<close> and is no inherited name either.
\<close>

fun get_json :: "json \<Rightarrow> string \<Rightarrow> jsval" where
  "get_json (JObj kvs) k = map_of kvs k"
| "get_json (JArr xs) k = (if k = ''length'' then Some (JNum (int (length xs))) else None)"
| "get_json (JStr s) k = (if k = ''length'' then Some (JNum (int (length s))) else None)"
| "get_json v k = None"

fun opt_get :: "jsval \<Rightarrow> string \<Rightarrow> jsval" where
  "opt_get None k = None"
| "opt_get (Some v) k = get_json v k"

text \<open>\<^verbatim>\<open>a || d\<close> with a defined right operand.\<close>

fun or_else :: "jsval \<Rightarrow> json \<Rightarrow> json" where
  "or_else None d = d"
| "or_else (Some v) d = (if truthy_json v then v else d)"

text \<open>\<^verbatim>\<open>a || null\<close> and \<^verbatim>\<open>a || undefined\<close> keep a JavaScript value.\<close>

definition or_val :: "jsval \<Rightarrow> jsval \<Rightarrow> jsval" where
  "or_val a d = (if truthy a then a else d)"

text \<open>\<^verbatim>\<open>a === n\<close> for a number \<open>n\<close>: strict equality holds for that number only.\<close>

definition strict_eq_num :: "jsval \<Rightarrow> int \<Rightarrow> bool" where
  "strict_eq_num a n = (a = Some (JNum n))"

subsection \<open>Numbers as text, text as numbers\<close>

text \<open>
  A JavaScript number is a double; it may be \<^verbatim>\<open>NaN\<close> or infinite. An integer of the
  model stands for the double nearest to it: \<open>round_double\<close> rounds a non-negative
  integer to 53 significant bits, halves to the even neighbour, and from \<open>2^1024\<close> on the
  result stands for infinity. Integers up to \<open>2^53\<close> in magnitude are exact.
\<close>

datatype number = NaN | Finite int | PlusInfinity | MinusInfinity

function bit_count :: "int \<Rightarrow> nat" where
  "bit_count n = (if n \<le> 0 then 0 else Suc (bit_count (n div 2)))"
  by pat_completeness auto
termination
  by (relation "measure nat") auto

declare bit_count.simps [simp del]

definition round_double :: "int \<Rightarrow> int" where
  "round_double a =
     (let k = bit_count a - 53;
          q = a div 2 ^ k;
          r = a mod 2 ^ k;
          q' = (if 2 ^ k < 2 * r \<or> (2 * r = 2 ^ k \<and> odd q) then q + 1 else q)
      in q' * 2 ^ k)"

definition to_double :: "int \<Rightarrow> number" where
  "to_double i =
     (let v = round_double \<bar>i\<bar> in
      if 2 ^ 1024 \<le> v then (if i < 0 then MinusInfinity else PlusInfinity)
      else Finite (if i < 0 then - v else v))"

definition digit_char :: "nat \<Rightarrow> char" where
  "digit_char d = ''0123456789'' ! d"

fun show_nat :: "nat \<Rightarrow> string" where
  "show_nat n = (if n < 10 then [digit_char n] else show_nat (n div 10) @ [digit_char (n mod 10)])"

declare show_nat.simps [simp del]

text \<open>
  \<^verbatim>\<open>String(n)\<close> and \<^verbatim>\<open>`${n}`\<close> for a number with an integer value. The digits are those
  of the decimal number with the fewest significant digits that rounds to the double
  (the nearest one, if several do), padded with zeros; from 22 digits on the text is in
  exponent form, as in \<^verbatim>\<open>1e+21\<close> and \<^verbatim>\<open>1.1805916207174113e+21\<close>. \<open>shortest_dec m j\<close>
  looks for that decimal number among the multiples of \<open>10^j\<close>, then of \<open>10^(j-1)\<close>, and
  so on.
\<close>

fun shortest_dec :: "int \<Rightarrow> nat \<Rightarrow> int" where
  "shortest_dec m 0 = m"
| "shortest_dec m (Suc j) =
     (let lo = (m div 10 ^ Suc j) * 10 ^ Suc j;
          hi = lo + 10 ^ Suc j
      in if round_double lo = m \<and> round_double hi = m then
           (if m - lo < hi - m then lo
            else if hi - m < m - lo then hi
            else if even (m div 10 ^ Suc j) then lo else hi)
         else if round_double lo = m then lo
         else if round_double hi = m then hi
         else shortest_dec m j)"

definition exponent_form :: "string \<Rightarrow> string" where
  "exponent_form ds =
     (case rev (dropWhile (\<lambda>ch. ch = CHR ''0'') (rev ds)) of
        [] \<Rightarrow> []
      | d # rest \<Rightarrow>
          (if rest = [] then [d] else d # CHR ''.'' # rest) @ ''e+'' @ show_nat (length ds - 1))"

definition double_text :: "int \<Rightarrow> string" where
  "double_text m =
     (if m = 0 then ''0''
      else (let ds = show_nat (nat (shortest_dec m (length (show_nat (nat m)) - 1)))
            in if length ds \<le> 21 then ds else exponent_form ds))"

definition show_int :: "int \<Rightarrow> string" where
  "show_int i =
     (case to_double i of
        NaN \<Rightarrow> ''NaN''
      | Finite v \<Rightarrow> if v < 0 then CHR ''-'' # double_text (- v) else double_text v
      | PlusInfinity \<Rightarrow> ''Infinity''
      | MinusInfinity \<Rightarrow> ''-Infinity'')"

fun intercalate :: "string \<Rightarrow> string list \<Rightarrow> string" where
  "intercalate sep [] = []"
| "intercalate sep [x] = x"
| "intercalate sep (x # y # ys) = x @ sep @ intercalate sep (y # ys)"

text \<open>
  \<^verbatim>\<open>parseInt(s, 10)\<close> skips leading white space, reads an optional sign and the longest
  run of decimal digits, and is NaN when there is no digit; else it is the double
  nearest to the integer the digits denote (the zero of \<^verbatim>\<open>-0\<close> is not told from 0).
  The characters of a header value are bytes; the white space among them is listed.
\<close>

definition is_js_space :: "char \<Rightarrow> bool" where
  "is_js_space c = (c \<in> set [CHR 0x09, CHR 0x0A, CHR 0x0B, CHR 0x0C, CHR 0x0D, CHR 0x20, CHR 0xA0])"

definition is_digit :: "char \<Rightarrow> bool" where
  "is_digit c = (c \<in> set ''0123456789'')"

text \<open>The value of a decimal digit is its position among the ten digits.\<close>

definition digit_val :: "char \<Rightarrow> int" where
  "digit_val c = int (length (takeWhile (\<lambda>d. d \<noteq> c) ''0123456789''))"

definition digits_value :: "string \<Rightarrow> int" where
  "digits_value ds = foldl (\<lambda>acc c. 10 * acc + digit_val c) 0 ds"

definition parseInt :: "string \<Rightarrow> number" where
  "parseInt s =
     (let s1 = dropWhile is_js_space s;
          neg = (case s1 of c # r \<Rightarrow> c = CHR ''-'' | [] \<Rightarrow> False);
          s2 = (case s1 of c # r \<Rightarrow> if c = CHR ''-'' \<or> c = CHR ''+'' then r else s1 | [] \<Rightarrow> s1);
          ds = takeWhile is_digit s2
      in if ds = [] then NaN
         else to_double (if neg then - digits_value ds else digits_value ds))"

section \<open>Error taxonomy\<close>

text \<open>
  The three classified errors of \<^verbatim>\<open>utils/errors.ts\<close>, with the arguments the client
  passes to their constructors, and the native exceptions a call can end in: a
  \<^verbatim>\<open>TypeError\<close> from reading a property of undefined or null, a \<^verbatim>\<open>SyntaxError\<close>
  from \<^verbatim>\<open>JSON.parse\<close>, a rejected \<^verbatim>\<open>fetch\<close>.
\<close>

datatype error =
    AuthenticationError string
  | RateLimitError string number
  | SendGridApiError json int
  | TypeError
  | SyntaxError
  | FetchFailed

fun classified :: "error \<Rightarrow> bool" where
  "classified (AuthenticationError m) = True"
| "classified (RateLimitError m r) = True"
| "classified (SendGridApiError m s) = True"
| "classified e = False"

text \<open>
  \<^verbatim>\<open>String(v)\<close> for a parsed value. An array is its elements joined with a comma, null
  elements giving the empty string. An object is \<^verbatim>\<open>[object Object]\<close> by the inherited
  \<^verbatim>\<open>toString\<close>; an object with a property \<^verbatim>\<open>toString\<close> of its own, which no parsed value
  makes callable, has no primitive value and the conversion throws a \<^verbatim>\<open>TypeError\<close>.
\<close>

fun join_results :: "string \<Rightarrow> (error + string) list \<Rightarrow> error + string" where
  "join_results sep [] = Inr []"
| "join_results sep (x # xs) =
     (case x of
        Inl e \<Rightarrow> Inl e
      | Inr s \<Rightarrow>
          (case join_results sep xs of
             Inl e \<Rightarrow> Inl e
           | Inr t \<Rightarrow> Inr (if xs = [] then s else s @ sep @ t)))"

fun js_to_string :: "json \<Rightarrow> error + string" where
  "js_to_string JNull = Inr ''null''"
| "js_to_string (JBool b) = Inr (if b then ''true'' else ''false'')"
| "js_to_string (JNum n) = Inr (show_int n)"
| "js_to_string (JStr s) = Inr s"
| "js_to_string (JArr xs) =
     join_results '','' (map (\<lambda>x. if x = JNull then Inr [] else js_to_string x) xs)"
| "js_to_string (JObj kvs) =
     (if map_of kvs ''toString'' = None then Inr ''[object Object]'' else Inl TypeError)"

text \<open>An element of \<^verbatim>\<open>Array.prototype.join\<close>: undefined and null give the empty string.\<close>

fun join_elem :: "jsval \<Rightarrow> error + string" where
  "join_elem None = Inr []"
| "join_elem (Some JNull) = Inr []"
| "join_elem (Some v) = js_to_string v"

section \<open>HTTP request executor\<close>

record http_request =
  http_method :: string
  path :: string
  query :: "(string \<times> string) list"
  headers :: "(string \<times> string) list"
  body :: "json option"

text \<open>
  What the executor reads of a response: the status, the value of
  \<^verbatim>\<open>headers.get('Retry-After')\<close> (\<open>None\<close> for null, the header being absent) and the
  body text.
\<close>

record http_response =
  status :: int
  retry_after :: "string option"
  text_of :: string

text \<open>
  A client holds the tenant's credentials. The network and \<^verbatim>\<open>JSON.parse\<close> are its
  environment: \<open>fetch\<close> answers a request with a response or rejects (\<open>None\<close>),
  \<open>json_parse\<close> returns the parsed value or throws (\<open>None\<close>).
\<close>

record client =
  apiKey :: "string option"
  fetch :: "http_request \<Rightarrow> http_response option"
  json_parse :: "string \<Rightarrow> json option"

definition getAuthHeaders :: "client \<Rightarrow> error + (string \<times> string) list" where
  "getAuthHeaders c =
     (case apiKey c of
        None \<Rightarrow> Inl (AuthenticationError ''No API key provided. Include X-SendGrid-API-Key header.'')
      | Some k \<Rightarrow>
          if k = [] then Inl (AuthenticationError ''No API key provided. Include X-SendGrid-API-Key header.'')
          else Inr [(''Authorization'', ''Bearer '' @ k), (''Content-Type'', ''application/json'')])"

definition response_ok :: "http_response \<Rightarrow> bool" where
  "response_ok r = (200 \<le> status r \<and> status r \<le> 299)"

text \<open>
  The message of a non-2xx response. The property reads and the join sit inside a
  \<^verbatim>\<open>try\<close>: a body that is the JSON \<^verbatim>\<open>null\<close>, a null entry in \<^verbatim>\<open>errors\<close>, or a
  \<^verbatim>\<open>message\<close> that has no string form, throws before the assignment and leaves the
  default message.
\<close>

definition error_message :: "(string \<Rightarrow> json option) \<Rightarrow> http_response \<Rightarrow> json" where
  "error_message parse r =
     (let dflt = JStr (''API error: '' @ show_int (status r)) in
      case parse (text_of r) of
        None \<Rightarrow> dflt
      | Some errorJson \<Rightarrow>
          if errorJson = JNull then dflt
          else (case get_json errorJson ''errors'' of
                  Some (JArr es) \<Rightarrow>
                    if JNull \<in> set es then dflt
                    else (case join_results '', '' (map (\<lambda>e. join_elem (get_json e ''message'')) es) of
                            Inl x \<Rightarrow> dflt
                          | Inr joined \<Rightarrow> JStr joined)
                | _ \<Rightarrow>
                    (case get_json errorJson ''message'' of
                       None \<Rightarrow> dflt
                     | Some m \<Rightarrow> if truthy_json m then m else dflt)))"

definition handle_response :: "(string \<Rightarrow> json option) \<Rightarrow> http_response \<Rightarrow> error + jsval" where
  "handle_response parse r =
     (if status r = 429 then
        Inl (RateLimitError ''Rate limit exceeded''
               (case retry_after r of
                  None \<Rightarrow> Finite 60
                | Some h \<Rightarrow> if h = [] then Finite 60 else parseInt h))
      else if status r = 401 \<or> status r = 403 then
        Inl (AuthenticationError ''Authentication failed. Check your API key.'')
      else if \<not> response_ok r then
        Inl (SendGridApiError (error_message parse r) (status r))
      else if status r = 204 \<or> status r = 202 then Inr None
      else if text_of r = [] then Inr None
      else (case parse (text_of r) of None \<Rightarrow> Inl SyntaxError | Some v \<Rightarrow> Inr (Some v)))"

text \<open>
  \<^verbatim>\<open>request(endpoint, options)\<close>. The endpoint is the path and the query parameters
  set on it, as given to \<^verbatim>\<open>URLSearchParams\<close> and before its encoding; the options are
  the method (GET when none is given) and the value whose \<^verbatim>\<open>JSON.stringify\<close> is the
  body. The result is the list of requests handed to
  \<^verbatim>\<open>fetch\<close> and the value returned or the error thrown. The authentication headers are
  built before \<^verbatim>\<open>fetch\<close> is called: without an API key nothing is sent.
\<close>

definition request ::
  "client \<Rightarrow> string \<Rightarrow> (string \<times> string) list \<Rightarrow> string \<Rightarrow> json option
     \<Rightarrow> http_request list \<times> (error + jsval)" where
  "request c p q m b =
     (case getAuthHeaders c of
        Inl e \<Rightarrow> ([], Inl e)
      | Inr hs \<Rightarrow>
          (let req = \<lparr>http_method = m, path = p, query = q, headers = hs, body = b\<rparr> in
           case fetch c req of
             None \<Rightarrow> ([req], Inl FetchFailed)
           | Some r \<Rightarrow> ([req], handle_response (json_parse c) r)))"

section \<open>Domain operations\<close>

text \<open>
  An operation awaits the executor and maps the value it returns; a rejection passes
  through (\<open>and_then\<close>). Four operations wrap the call in \<^verbatim>\<open>try { ... } catch { ... }\<close>
  and return a fixed value for every exception (\<open>or_catch\<close>).
\<close>

definition and_then ::
  "http_request list \<times> (error + 'a) \<Rightarrow> ('a \<Rightarrow> error + 'b) \<Rightarrow> http_request list \<times> (error + 'b)" where
  "and_then r f = (fst r, case snd r of Inl e \<Rightarrow> Inl e | Inr v \<Rightarrow> f v)"

definition or_catch ::
  "http_request list \<times> (error + 'a) \<Rightarrow> (error \<Rightarrow> 'a) \<Rightarrow> http_request list \<times> (error + 'a)" where
  "or_catch r h = (fst r, case snd r of Inl e \<Rightarrow> Inr (h e) | Inr v \<Rightarrow> Inr v)"

text \<open>\<^verbatim>\<open>if (v) queryParams.set(k, v)\<close> for an optional string and an optional number.\<close>

definition param :: "string \<Rightarrow> string option \<Rightarrow> (string \<times> string) list" where
  "param k v = (case v of None \<Rightarrow> [] | Some s \<Rightarrow> if s = [] then [] else [(k, s)])"

definition param_num :: "string \<Rightarrow> int option \<Rightarrow> (string \<times> string) list" where
  "param_num k v = (case v of None \<Rightarrow> [] | Some n \<Rightarrow> if n = 0 then [] else [(k, show_int n)])"

text \<open>\<^verbatim>\<open>if (v) body.k = v\<close> for an optional string: the value kept, when it is truthy.\<close>

definition truthy_str :: "string option \<Rightarrow> jsval" where
  "truthy_str v = (case v of None \<Rightarrow> None | Some s \<Rightarrow> if s = [] then None else Some (JStr s))"

text \<open>A parameter with a default value: the default replaces undefined only.\<close>

definition dflt_arg :: "'a option \<Rightarrow> 'a \<Rightarrow> 'a" where
  "dflt_arg v d = (case v of None \<Rightarrow> d | Some x \<Rightarrow> x)"

text \<open>
  \<^verbatim>\<open>JSON.stringify\<close> of an object literal leaves out the properties whose value is
  undefined; the others keep their order.
\<close>

definition json_object :: "(string \<times> jsval) list \<Rightarrow> json" where
  "json_object kvs = JObj (concat (map (\<lambda>(k, v). case v of None \<Rightarrow> [] | Some j \<Rightarrow> [(k, j)]) kvs))"

definition str_array :: "string list \<Rightarrow> json" where
  "str_array xs = JArr (map JStr xs)"

record paginated =
  items :: json
  count :: json
  total :: jsval
  hasMore :: bool
  nextPageToken :: jsval

subsection \<open>Contacts\<close>

definition listContacts :: "client \<Rightarrow> string option \<Rightarrow> http_request list \<times> (error + paginated)" where
  "listContacts c pageToken =
     and_then (request c ''/marketing/contacts'' (param ''page_token'' pageToken) ''GET'' None)
       (\<lambda>result.
          if nullish result then Inl TypeError
          else Inr \<lparr>items = or_else (opt_get result ''result'') (JArr []),
                    count = or_else (opt_get (opt_get result ''result'') ''length'') (JNum 0),
                    total = opt_get result ''contact_count'',
                    hasMore = truthy (opt_get (opt_get result ''_metadata'') ''next''),
                    nextPageToken = opt_get (opt_get result ''_metadata'') ''next''\<rparr>)"

definition deleteContacts ::
  "client \<Rightarrow> string list \<Rightarrow> bool \<Rightarrow> http_request list \<times> (error + jsval)" where
  "deleteContacts c ids deleteAllContacts =
     and_then (request c ''/marketing/contacts''
                 (if deleteAllContacts then [(''delete_all_contacts'', ''true'')]
                  else [(''ids'', intercalate '','' ids)])
                 ''DELETE'' None)
       (\<lambda>result. if nullish result then Inl TypeError else Inr (opt_get result ''job_id''))"

definition searchContacts :: "client \<Rightarrow> string \<Rightarrow> http_request list \<times> (error + paginated)" where
  "searchContacts c q =
     and_then (request c ''/marketing/contacts/search'' [] ''POST''
                 (Some (json_object [(''query'', Some (JStr q))])))
       (\<lambda>result.
          if nullish result then Inl TypeError
          else Inr \<lparr>items = or_else (opt_get result ''result'') (JArr []),
                    count = or_else (opt_get (opt_get result ''result'') ''length'') (JNum 0),
                    total = opt_get result ''contact_count'',
                    hasMore = False,
                    nextPageToken = None\<rparr>)"

definition getContactByEmail :: "client \<Rightarrow> string \<Rightarrow> http_request list \<times> (error + jsval)" where
  "getContactByEmail c email =
     or_catch
       (and_then (request c ''/marketing/contacts/search/emails'' [] ''POST''
                    (Some (json_object [(''emails'', Some (str_array [email]))])))
          (\<lambda>result.
             if nullish result then Inl TypeError
             else Inr (or_val (opt_get (opt_get result ''result'') email) (Some JNull))))
       (\<lambda>e. Some JNull)"

subsection \<open>Contact lists, segments, templates, single sends, senders\<close>

definition listContactLists :: "client \<Rightarrow> http_request list \<times> (error + paginated)" where
  "listContactLists c =
     and_then (request c ''/marketing/lists'' [] ''GET'' None)
       (\<lambda>result.
          if nullish result then Inl TypeError
          else Inr \<lparr>items = or_else (opt_get result ''result'') (JArr []),
                    count = or_else (opt_get (opt_get result ''result'') ''length'') (JNum 0),
                    total = None,
                    hasMore = False,
                    nextPageToken = None\<rparr>)"

definition listSegments ::
  "client \<Rightarrow> string list option \<Rightarrow> http_request list \<times> (error + paginated)" where
  "listSegments c parentListIds =
     and_then (request c ''/marketing/segments/2.0''
                 (case parentListIds of
                    None \<Rightarrow> []
                  | Some ids \<Rightarrow> [(''parent_list_ids'', intercalate '','' ids)])
                 ''GET'' None)
       (\<lambda>result.
          if nullish result then Inl TypeError
          else Inr \<lparr>items = or_else (opt_get result ''results'') (JArr []),
                    count = or_else (opt_get (opt_get result ''results'') ''length'') (JNum 0),
                    total = None,
                    hasMore = False,
                    nextPageToken = None\<rparr>)"

record SegmentInput =
  name :: string
  queryDsl :: string
  parentListIds :: "string list option"

definition createSegment :: "client \<Rightarrow> SegmentInput \<Rightarrow> http_request list \<times> (error + jsval)" where
  "createSegment c input =
     request c ''/marketing/segments/2.0'' [] ''POST''
       (Some (json_object
          [(''name'', Some (JStr (name input))),
           (''query_dsl'', Some (JStr (queryDsl input))),
           (''parent_list_ids'', map_option str_array (parentListIds input))]))"

definition listTemplates ::
  "client \<Rightarrow> string option \<Rightarrow> int option \<Rightarrow> string option
     \<Rightarrow> http_request list \<times> (error + paginated)" where
  "listTemplates c generations pageSize pageToken =
     and_then (request c ''/templates''
                 (param ''generations'' generations
                  @ [(''page_size'', show_int (dflt_arg pageSize 50))]
                  @ param ''page_token'' pageToken)
                 ''GET'' None)
       (\<lambda>result.
          if nullish result then Inl TypeError
          else Inr \<lparr>items = or_else (opt_get result ''result'') (JArr []),
                    count = or_else (opt_get (opt_get result ''result'') ''length'') (JNum 0),
                    total = None,
                    hasMore = truthy (opt_get (opt_get result ''_metadata'') ''next''),
                    nextPageToken = opt_get (opt_get result ''_metadata'') ''next''\<rparr>)"

definition listSingleSends ::
  "client \<Rightarrow> string option \<Rightarrow> http_request list \<times> (error + paginated)" where
  "listSingleSends c status_filter =
     and_then (request c ''/marketing/singlesends'' (param ''status'' status_filter) ''GET'' None)
       (\<lambda>result.
          if nullish result then Inl TypeError
          else Inr \<lparr>items = or_else (opt_get result ''result'') (JArr []),
                    count = or_else (opt_get (opt_get result ''result'') ''length'') (JNum 0),
                    total = None,
                    hasMore = False,
                    nextPageToken = None\<rparr>)"

definition listSenderIdentities :: "client \<Rightarrow> http_request list \<times> (error + paginated)" where
  "listSenderIdentities c =
     and_then (request c ''/senders'' [] ''GET'' None)
       (\<lambda>result.
          Inr \<lparr>items = or_else result (JArr []),
               count = or_else (opt_get result ''length'') (JNum 0),
               total = None,
               hasMore = False,
               nextPageToken = None\<rparr>)"

subsection \<open>Suppressions\<close>

text \<open>
  The five suppression lists take \<^verbatim>\<open>limit = 500\<close> and \<^verbatim>\<open>offset = 0\<close> as defaults and
  report a further page when the array has exactly \<^verbatim>\<open>limit\<close> entries.
\<close>

definition listBounces ::
  "client \<Rightarrow> int option \<Rightarrow> int option \<Rightarrow> int option \<Rightarrow> int option
     \<Rightarrow> http_request list \<times> (error + paginated)" where
  "listBounces c startTime endTime lim off =
     and_then (request c ''/suppression/bounces''
                 (param_num ''start_time'' startTime @ param_num ''end_time'' endTime
                  @ [(''limit'', show_int (dflt_arg lim 500)), (''offset'', show_int (dflt_arg off 0))])
                 ''GET'' None)
       (\<lambda>result.
          Inr \<lparr>items = or_else result (JArr []),
               count = or_else (opt_get result ''length'') (JNum 0),
               total = None,
               hasMore = strict_eq_num (opt_get result ''length'') (dflt_arg lim 500),
               nextPageToken = None\<rparr>)"

definition deleteBounces :: "client \<Rightarrow> string list \<Rightarrow> bool \<Rightarrow> http_request list \<times> (error + unit)" where
  "deleteBounces c emails deleteAll =
     and_then
       (if deleteAll then
          request c ''/suppression/bounces'' [] ''DELETE'' (Some (json_object [(''delete_all'', Some (JBool True))]))
        else
          request c ''/suppression/bounces'' [] ''DELETE'' (Some (json_object [(''emails'', Some (str_array emails))])))
       (\<lambda>result. Inr ())"

definition listBlocks ::
  "client \<Rightarrow> int option \<Rightarrow> int option \<Rightarrow> int option \<Rightarrow> int option
     \<Rightarrow> http_request list \<times> (error + paginated)" where
  "listBlocks c startTime endTime lim off =
     and_then (request c ''/suppression/blocks''
                 (param_num ''start_time'' startTime @ param_num ''end_time'' endTime
                  @ [(''limit'', show_int (dflt_arg lim 500)), (''offset'', show_int (dflt_arg off 0))])
                 ''GET'' None)
       (\<lambda>result.
          Inr \<lparr>items = or_else result (JArr []),
               count = or_else (opt_get result ''length'') (JNum 0),
               total = None,
               hasMore = strict_eq_num (opt_get result ''length'') (dflt_arg lim 500),
               nextPageToken = None\<rparr>)"

definition deleteBlocks :: "client \<Rightarrow> string list \<Rightarrow> bool \<Rightarrow> http_request list \<times> (error + unit)" where
  "deleteBlocks c emails deleteAll =
     and_then
       (if deleteAll then
          request c ''/suppression/blocks'' [] ''DELETE'' (Some (json_object [(''delete_all'', Some (JBool True))]))
        else
          request c ''/suppression/blocks'' [] ''DELETE'' (Some (json_object [(''emails'', Some (str_array emails))])))
       (\<lambda>result. Inr ())"

definition listSpamReports ::
  "client \<Rightarrow> int option \<Rightarrow> int option \<Rightarrow> int option \<Rightarrow> int option
     \<Rightarrow> http_request list \<times> (error + paginated)" where
  "listSpamReports c startTime endTime lim off =
     and_then (request c ''/suppression/spam_reports''
                 (param_num ''start_time'' startTime @ param_num ''end_time'' endTime
                  @ [(''limit'', show_int (dflt_arg lim 500)), (''offset'', show_int (dflt_arg off 0))])
                 ''GET'' None)
       (\<lambda>result.
          Inr \<lparr>items = or_else result (JArr []),
               count = or_else (opt_get result ''length'') (JNum 0),
               total = None,
               hasMore = strict_eq_num (opt_get result ''length'') (dflt_arg lim 500),
               nextPageToken = None\<rparr>)"

definition deleteSpamReports :: "client \<Rightarrow> string list \<Rightarrow> bool \<Rightarrow> http_request list \<times> (error + unit)" where
  "deleteSpamReports c emails deleteAll =
     and_then
       (if deleteAll then
          request c ''/suppression/spam_reports'' [] ''DELETE'' (Some (json_object [(''delete_all'', Some (JBool True))]))
        else
          request c ''/suppression/spam_reports'' [] ''DELETE'' (Some (json_object [(''emails'', Some (str_array emails))])))
       (\<lambda>result. Inr ())"

definition listInvalidEmails ::
  "client \<Rightarrow> int option \<Rightarrow> int option \<Rightarrow> int option \<Rightarrow> int option
     \<Rightarrow> http_request list \<times> (error + paginated)" where
  "listInvalidEmails c startTime endTime lim off =
     and_then (request c ''/suppression/invalid_emails''
                 (param_num ''start_time'' startTime @ param_num ''end_time'' endTime
                  @ [(''limit'', show_int (dflt_arg lim 500)), (''offset'', show_int (dflt_arg off 0))])
                 ''GET'' None)
       (\<lambda>result.
          Inr \<lparr>items = or_else result (JArr []),
               count = or_else (opt_get result ''length'') (JNum 0),
               total = None,
               hasMore = strict_eq_num (opt_get result ''length'') (dflt_arg lim 500),
               nextPageToken = None\<rparr>)"

definition deleteInvalidEmails :: "client \<Rightarrow> string list \<Rightarrow> bool \<Rightarrow> http_request list \<times> (error + unit)" where
  "deleteInvalidEmails c emails deleteAll =
     and_then
       (if deleteAll then
          request c ''/suppression/invalid_emails'' [] ''DELETE'' (Some (json_object [(''delete_all'', Some (JBool True))]))
        else
          request c ''/suppression/invalid_emails'' [] ''DELETE'' (Some (json_object [(''emails'', Some (str_array emails))])))
       (\<lambda>result. Inr ())"

definition listGlobalSuppressions ::
  "client \<Rightarrow> int option \<Rightarrow> int option \<Rightarrow> int option \<Rightarrow> int option
     \<Rightarrow> http_request list \<times> (error + paginated)" where
  "listGlobalSuppressions c startTime endTime lim off =
     and_then (request c ''/suppression/unsubscribes''
                 (param_num ''start_time'' startTime @ param_num ''end_time'' endTime
                  @ [(''limit'', show_int (dflt_arg lim 500)), (''offset'', show_int (dflt_arg off 0))])
                 ''GET'' None)
       (\<lambda>result.
          Inr \<lparr>items = or_else result (JArr []),
               count = or_else (opt_get result ''length'') (JNum 0),
               total = None,
               hasMore = strict_eq_num (opt_get result ''length'') (dflt_arg lim 500),
               nextPageToken = None\<rparr>)"

text \<open>\<^verbatim>\<open>result?.[0]\<close>: the first element of an array, the first character of a string.\<close>

fun index0 :: "jsval \<Rightarrow> jsval" where
  "index0 (Some (JArr (x # xs))) = Some x"
| "index0 (Some (JStr (ch # s))) = Some (JStr [ch])"
| "index0 (Some (JObj kvs)) = map_of kvs ''0''"
| "index0 v = None"

definition getGlobalSuppression :: "client \<Rightarrow> string \<Rightarrow> http_request list \<times> (error + jsval)" where
  "getGlobalSuppression c email =
     or_catch
       (and_then (request c (''/suppression/unsubscribes/'' @ email) [] ''GET'' None)
          (\<lambda>result. Inr (or_val (index0 result) (Some JNull))))
       (\<lambda>e. Some JNull)"

subsection \<open>API keys, designs\<close>

definition listApiKeys :: "client \<Rightarrow> http_request list \<times> (error + paginated)" where
  "listApiKeys c =
     and_then (request c ''/api_keys'' [] ''GET'' None)
       (\<lambda>result.
          if nullish result then Inl TypeError
          else Inr \<lparr>items = or_else (opt_get result ''result'') (JArr []),
                    count = or_else (opt_get (opt_get result ''result'') ''length'') (JNum 0),
                    total = None,
                    hasMore = False,
                    nextPageToken = None\<rparr>)"

definition listDesigns ::
  "client \<Rightarrow> int option \<Rightarrow> string option \<Rightarrow> http_request list \<times> (error + paginated)" where
  "listDesigns c pageSize pageToken =
     and_then (request c ''/designs''
                 ([(''page_size'', show_int (dflt_arg pageSize 50))] @ param ''page_token'' pageToken)
                 ''GET'' None)
       (\<lambda>result.
          if nullish result then Inl TypeError
          else Inr \<lparr>items = or_else (opt_get result ''result'') (JArr []),
                    count = or_else (opt_get (opt_get result ''result'') ''length'') (JNum 0),
                    total = None,
                    hasMore = truthy (opt_get (opt_get result ''_metadata'') ''next''),
                    nextPageToken = opt_get (opt_get result ''_metadata'') ''next''\<rparr>)"

subsection \<open>Mail send, teammates, validation, scheduled sends, connection\<close>

text \<open>
  \<^verbatim>\<open>sendEmail\<close> serialises its input as it is and returns \<^verbatim>\<open>{ messageId: undefined }\<close>,
  here the value of \<^verbatim>\<open>messageId\<close>.
\<close>

definition sendEmail :: "client \<Rightarrow> json \<Rightarrow> http_request list \<times> (error + jsval)" where
  "sendEmail c input =
     and_then (request c ''/mail/send'' [] ''POST'' (Some input)) (\<lambda>result. Inr None)"

record TeammateInput =
  email :: string
  scopes :: "string list"
  isAdmin :: "bool option"

text \<open>The object a \<^verbatim>\<open>TeammateInput\<close> is, under its own property names.\<close>

definition TeammateInput_json :: "TeammateInput \<Rightarrow> json" where
  "TeammateInput_json input =
     json_object [(''email'', Some (JStr (email input))),
                  (''scopes'', Some (str_array (scopes input))),
                  (''isAdmin'', map_option JBool (isAdmin input))]"

definition inviteTeammate :: "client \<Rightarrow> TeammateInput \<Rightarrow> http_request list \<times> (error + jsval)" where
  "inviteTeammate c input =
     request c ''/teammates'' [] ''POST'' (Some (TeammateInput_json input))"

definition updateTeammatePermissions ::
  "client \<Rightarrow> string \<Rightarrow> string list \<Rightarrow> bool option \<Rightarrow> http_request list \<times> (error + jsval)" where
  "updateTeammatePermissions c username scs admin =
     request c (''/teammates/'' @ username) [] ''PATCH''
       (Some (json_object [(''scopes'', Some (str_array scs)),
                           (''is_admin'', map_option JBool admin)]))"

definition validateEmail ::
  "client \<Rightarrow> string \<Rightarrow> string option \<Rightarrow> http_request list \<times> (error + jsval)" where
  "validateEmail c addr source =
     request c ''/validations/email'' [] ''POST''
       (Some (json_object
          [(''email'', Some (JStr addr)),
           (''source'', case source of None \<Rightarrow> None
                        | Some s \<Rightarrow> if s = [] then None else Some (JStr s))]))"

definition createBatchId :: "client \<Rightarrow> http_request list \<times> (error + jsval)" where
  "createBatchId c =
     and_then (request c ''/mail/batch'' [] ''POST'' None)
       (\<lambda>result. if nullish result then Inl TypeError else Inr (opt_get result ''batch_id''))"

text \<open>\<^verbatim>\<open>validateBatchId\<close> returns \<^verbatim>\<open>{ valid }\<close>, here the value of \<^verbatim>\<open>valid\<close>.\<close>

definition validateBatchId :: "client \<Rightarrow> string \<Rightarrow> http_request list \<times> (error + bool)" where
  "validateBatchId c batchId =
     or_catch
       (and_then (request c (''/mail/batch/'' @ batchId) [] ''GET'' None) (\<lambda>result. Inr True))
       (\<lambda>e. False)"

text \<open>\<^verbatim>\<open>result[0]\<close>: reading an index of undefined or null throws.\<close>

definition getScheduledSend :: "client \<Rightarrow> string \<Rightarrow> http_request list \<times> (error + jsval)" where
  "getScheduledSend c batchId =
     and_then (request c (''/user/scheduled_sends/'' @ batchId) [] ''GET'' None)
       (\<lambda>result. if nullish result then Inl TypeError else Inr (index0 result))"

text \<open>
  \<^verbatim>\<open>testConnection\<close> returns \<^verbatim>\<open>{ connected, message }\<close>, here the value of
  \<^verbatim>\<open>connected\<close>.
\<close>

definition testConnection :: "client \<Rightarrow> http_request list \<times> (error + bool)" where
  "testConnection c =
     or_catch
       (and_then (request c ''/user/profile'' [] ''GET'' None) (\<lambda>result. Inr True))
       (\<lambda>e. False)"

text \<open>
  The other operations of the client. An argument that the source takes as an input
  object and serialises as it is, is that object; an input whose fields the source
  reads one by one is given by those fields; a flag with the default false is the
  boolean it stands for.
\<close>

subsection \<open>Contacts and contact lists\<close>

definition getContact ::
  "client \<Rightarrow> string \<Rightarrow> http_request list \<times> (error + jsval)" where
  "getContact c ident =
     request c (''/marketing/contacts/'' @ ident) [] ''GET'' None"

definition addOrUpdateContacts ::
  "client \<Rightarrow> json list \<Rightarrow> string list option
     \<Rightarrow> http_request list \<times> (error + jsval)" where
  "addOrUpdateContacts c contacts listIds =
     and_then (request c ''/marketing/contacts'' [] ''PUT''
         (Some (json_object [(''contacts'', Some (JArr contacts)), (''list_ids'', map_option str_array listIds)])))
       (\<lambda>result. if nullish result then Inl TypeError else Inr (opt_get result ''job_id''))"

definition getContactCount ::
  "client \<Rightarrow> http_request list \<times> (error + jsval \<times> jsval)" where
  "getContactCount c =
     and_then (request c ''/marketing/contacts/count'' [] ''GET'' None)
       (\<lambda>result. if nullish result then Inl TypeError
          else Inr (opt_get result ''contact_count'', opt_get result ''billable_count''))"

definition getContactList ::
  "client \<Rightarrow> string \<Rightarrow> http_request list \<times> (error + jsval)" where
  "getContactList c ident =
     request c (''/marketing/lists/'' @ ident) [] ''GET'' None"

definition createContactList ::
  "client \<Rightarrow> json \<Rightarrow> http_request list \<times> (error + jsval)" where
  "createContactList c input =
     request c ''/marketing/lists'' [] ''POST''
       (Some input)"

definition updateContactList ::
  "client \<Rightarrow> string \<Rightarrow> json
     \<Rightarrow> http_request list \<times> (error + jsval)" where
  "updateContactList c ident input =
     request c (''/marketing/lists/'' @ ident) [] ''PATCH''
       (Some input)"

definition deleteContactList ::
  "client \<Rightarrow> string \<Rightarrow> bool
     \<Rightarrow> http_request list \<times> (error + unit)" where
  "deleteContactList c ident withContacts =
     and_then (request c (''/marketing/lists/'' @ ident) (if withContacts then [(''delete_contacts'', ''true'')] else []) ''DELETE'' None)
       (\<lambda>result. Inr ())"

definition getContactListCount ::
  "client \<Rightarrow> string
     \<Rightarrow> http_request list \<times> (error + jsval \<times> jsval)" where
  "getContactListCount c ident =
     and_then (request c (''/marketing/lists/'' @ ident @ ''/contacts/count'') [] ''GET'' None)
       (\<lambda>result. if nullish result then Inl TypeError
          else Inr (opt_get result ''contact_count'', opt_get result ''billable_count''))"

definition addContactsToList ::
  "client \<Rightarrow> string \<Rightarrow> string list
     \<Rightarrow> http_request list \<times> (error + jsval)" where
  "addContactsToList c listId contactIds =
     and_then (request c (''/marketing/lists/'' @ listId @ ''/contacts'') [] ''POST''
         (Some (json_object [(''contact_ids'', Some (str_array contactIds))])))
       (\<lambda>result. if nullish result then Inl TypeError else Inr (opt_get result ''job_id''))"

definition removeContactsFromList ::
  "client \<Rightarrow> string \<Rightarrow> string list
     \<Rightarrow> http_request list \<times> (error + jsval)" where
  "removeContactsFromList c listId contactIds =
     and_then (request c (''/marketing/lists/'' @ listId @ ''/contacts'') [(''contact_ids'', intercalate '','' contactIds)] ''DELETE'' None)
       (\<lambda>result. if nullish result then Inl TypeError else Inr (opt_get result ''job_id''))"

subsection \<open>Segments and custom fields\<close>

definition getSegment ::
  "client \<Rightarrow> string \<Rightarrow> http_request list \<times> (error + jsval)" where
  "getSegment c ident =
     request c (''/marketing/segments/2.0/'' @ ident) [] ''GET'' None"

definition updateSegment ::
  "client \<Rightarrow> string \<Rightarrow> string option \<Rightarrow> string option
     \<Rightarrow> http_request list \<times> (error + jsval)" where
  "updateSegment c ident nm qd =
     request c (''/marketing/segments/2.0/'' @ ident) [] ''PATCH''
       (Some (json_object [(''name'', truthy_str nm), (''query_dsl'', truthy_str qd)]))"

definition deleteSegment ::
  "client \<Rightarrow> string \<Rightarrow> http_request list \<times> (error + unit)" where
  "deleteSegment c ident =
     and_then (request c (''/marketing/segments/2.0/'' @ ident) [] ''DELETE'' None)
       (\<lambda>result. Inr ())"

definition listCustomFields ::
  "client \<Rightarrow> http_request list \<times> (error + json)" where
  "listCustomFields c =
     and_then (request c ''/marketing/field_definitions'' [] ''GET'' None)
       (\<lambda>result. if nullish result then Inl TypeError
          else Inr (or_else (opt_get result ''custom_fields'') (JArr [])))"

definition createCustomField ::
  "client \<Rightarrow> string \<Rightarrow> string
     \<Rightarrow> http_request list \<times> (error + jsval)" where
  "createCustomField c nm fieldType =
     request c ''/marketing/field_definitions'' [] ''POST''
       (Some (json_object [(''name'', Some (JStr nm)), (''field_type'', Some (JStr fieldType))]))"

definition updateCustomField ::
  "client \<Rightarrow> string \<Rightarrow> string
     \<Rightarrow> http_request list \<times> (error + jsval)" where
  "updateCustomField c ident nm =
     request c (''/marketing/field_definitions/'' @ ident) [] ''PATCH''
       (Some (json_object [(''name'', Some (JStr nm))]))"

definition deleteCustomField ::
  "client \<Rightarrow> string \<Rightarrow> http_request list \<times> (error + unit)" where
  "deleteCustomField c ident =
     and_then (request c (''/marketing/field_definitions/'' @ ident) [] ''DELETE'' None)
       (\<lambda>result. Inr ())"

subsection \<open>Templates and template versions\<close>

definition getTemplate ::
  "client \<Rightarrow> string \<Rightarrow> http_request list \<times> (error + jsval)" where
  "getTemplate c ident =
     request c (''/templates/'' @ ident) [] ''GET'' None"

definition createTemplate ::
  "client \<Rightarrow> json \<Rightarrow> http_request list \<times> (error + jsval)" where
  "createTemplate c input =
     request c ''/templates'' [] ''POST''
       (Some input)"

definition updateTemplate ::
  "client \<Rightarrow> string \<Rightarrow> string
     \<Rightarrow> http_request list \<times> (error + jsval)" where
  "updateTemplate c ident nm =
     request c (''/templates/'' @ ident) [] ''PATCH''
       (Some (json_object [(''name'', Some (JStr nm))]))"

definition deleteTemplate ::
  "client \<Rightarrow> string \<Rightarrow> http_request list \<times> (error + unit)" where
  "deleteTemplate c ident =
     and_then (request c (''/templates/'' @ ident) [] ''DELETE'' None)
       (\<lambda>result. Inr ())"

definition duplicateTemplate ::
  "client \<Rightarrow> string \<Rightarrow> string option
     \<Rightarrow> http_request list \<times> (error + jsval)" where
  "duplicateTemplate c ident nm =
     request c (''/templates/'' @ ident) [] ''POST''
       ((case truthy_str nm of None \<Rightarrow> None | Some n \<Rightarrow> Some (json_object [(''name'', Some n)])))"

definition createTemplateVersion ::
  "client \<Rightarrow> string \<Rightarrow> string \<Rightarrow> string option \<Rightarrow> string option \<Rightarrow> string option \<Rightarrow> bool option \<Rightarrow> string option \<Rightarrow> bool option \<Rightarrow> string option
     \<Rightarrow> http_request list \<times> (error + jsval)" where
  "createTemplateVersion c templateId nm subj htmlContent plainContent active editor generatePlainContent testData =
     request c (''/templates/'' @ templateId @ ''/versions'') [] ''POST''
       (Some (json_object [(''name'', Some (JStr nm)), (''subject'', map_option JStr subj), (''html_content'', map_option JStr htmlContent), (''plain_content'', map_option JStr plainContent), (''active'', Some (JNum (if active = Some True then 1 else 0))), (''editor'', map_option JStr editor), (''generate_plain_content'', map_option JBool generatePlainContent), (''test_data'', map_option JStr testData)]))"

definition getTemplateVersion ::
  "client \<Rightarrow> string \<Rightarrow> string
     \<Rightarrow> http_request list \<times> (error + jsval)" where
  "getTemplateVersion c templateId versionId =
     request c (''/templates/'' @ templateId @ ''/versions/'' @ versionId) [] ''GET'' None"

definition updateTemplateVersion ::
  "client \<Rightarrow> string \<Rightarrow> string \<Rightarrow> string option \<Rightarrow> string option \<Rightarrow> string option \<Rightarrow> string option \<Rightarrow> bool option \<Rightarrow> string option \<Rightarrow> bool option
     \<Rightarrow> http_request list \<times> (error + jsval)" where
  "updateTemplateVersion c templateId versionId nm subj htmlContent plainContent active editor generatePlainContent =
     request c (''/templates/'' @ templateId @ ''/versions/'' @ versionId) [] ''PATCH''
       (Some (json_object [(''name'', truthy_str nm), (''subject'', truthy_str subj), (''html_content'', truthy_str htmlContent), (''plain_content'', truthy_str plainContent), (''active'', map_option (\<lambda>a. JNum (if a then 1 else 0)) active), (''editor'', truthy_str editor), (''generate_plain_content'', map_option JBool generatePlainContent)]))"

definition deleteTemplateVersion ::
  "client \<Rightarrow> string \<Rightarrow> string
     \<Rightarrow> http_request list \<times> (error + unit)" where
  "deleteTemplateVersion c templateId versionId =
     and_then (request c (''/templates/'' @ templateId @ ''/versions/'' @ versionId) [] ''DELETE'' None)
       (\<lambda>result. Inr ())"

definition activateTemplateVersion ::
  "client \<Rightarrow> string \<Rightarrow> string
     \<Rightarrow> http_request list \<times> (error + jsval)" where
  "activateTemplateVersion c templateId versionId =
     request c (''/templates/'' @ templateId @ ''/versions/'' @ versionId @ ''/activate'') [] ''POST'' None"

subsection \<open>Single sends and sender identities\<close>

definition getSingleSend ::
  "client \<Rightarrow> string \<Rightarrow> http_request list \<times> (error + jsval)" where
  "getSingleSend c ident =
     request c (''/marketing/singlesends/'' @ ident) [] ''GET'' None"

definition createSingleSend ::
  "client \<Rightarrow> json \<Rightarrow> http_request list \<times> (error + jsval)" where
  "createSingleSend c input =
     request c ''/marketing/singlesends'' [] ''POST''
       (Some input)"

definition updateSingleSend ::
  "client \<Rightarrow> string \<Rightarrow> json
     \<Rightarrow> http_request list \<times> (error + jsval)" where
  "updateSingleSend c ident input =
     request c (''/marketing/singlesends/'' @ ident) [] ''PATCH''
       (Some input)"

definition deleteSingleSend ::
  "client \<Rightarrow> string \<Rightarrow> http_request list \<times> (error + unit)" where
  "deleteSingleSend c ident =
     and_then (request c (''/marketing/singlesends/'' @ ident) [] ''DELETE'' None)
       (\<lambda>result. Inr ())"

definition scheduleSingleSend ::
  "client \<Rightarrow> string \<Rightarrow> string
     \<Rightarrow> http_request list \<times> (error + jsval)" where
  "scheduleSingleSend c ident sendAt =
     request c (''/marketing/singlesends/'' @ ident @ ''/schedule'') [] ''PUT''
       (Some (json_object [(''send_at'', Some (JStr sendAt))]))"

definition cancelScheduledSingleSend ::
  "client \<Rightarrow> string \<Rightarrow> http_request list \<times> (error + unit)" where
  "cancelScheduledSingleSend c ident =
     and_then (request c (''/marketing/singlesends/'' @ ident @ ''/schedule'') [] ''DELETE'' None)
       (\<lambda>result. Inr ())"

definition sendSingleSendNow ::
  "client \<Rightarrow> string \<Rightarrow> http_request list \<times> (error + jsval)" where
  "sendSingleSendNow c ident =
     request c (''/marketing/singlesends/'' @ ident @ ''/schedule'') [] ''PUT''
       (Some (json_object [(''send_at'', Some (JStr ''now''))]))"

definition getSenderIdentity ::
  "client \<Rightarrow> int \<Rightarrow> http_request list \<times> (error + jsval)" where
  "getSenderIdentity c ident =
     request c (''/senders/'' @ show_int ident) [] ''GET'' None"

definition createSenderIdentity ::
  "client \<Rightarrow> json \<Rightarrow> http_request list \<times> (error + jsval)" where
  "createSenderIdentity c input =
     request c ''/senders'' [] ''POST''
       (Some input)"

definition updateSenderIdentity ::
  "client \<Rightarrow> int \<Rightarrow> json
     \<Rightarrow> http_request list \<times> (error + jsval)" where
  "updateSenderIdentity c ident input =
     request c (''/senders/'' @ show_int ident) [] ''PATCH''
       (Some input)"

definition deleteSenderIdentity ::
  "client \<Rightarrow> int \<Rightarrow> http_request list \<times> (error + unit)" where
  "deleteSenderIdentity c ident =
     and_then (request c (''/senders/'' @ show_int ident) [] ''DELETE'' None)
       (\<lambda>result. Inr ())"

definition resendSenderVerification ::
  "client \<Rightarrow> int \<Rightarrow> http_request list \<times> (error + unit)" where
  "resendSenderVerification c ident =
     and_then (request c (''/senders/'' @ show_int ident @ ''/resend_verification'') [] ''POST'' None)
       (\<lambda>result. Inr ())"

subsection \<open>Statistics\<close>

definition getGlobalStats ::
  "client \<Rightarrow> string \<Rightarrow> string option \<Rightarrow> string option
     \<Rightarrow> http_request list \<times> (error + jsval)" where
  "getGlobalStats c startDate endDate aggregatedBy =
     request c ''/stats'' ([(''start_date'', startDate)] @ param ''end_date'' endDate @ param ''aggregated_by'' aggregatedBy) ''GET'' None"

definition getCategoryStats ::
  "client \<Rightarrow> string list \<Rightarrow> string \<Rightarrow> string option \<Rightarrow> string option
     \<Rightarrow> http_request list \<times> (error + jsval)" where
  "getCategoryStats c categories startDate endDate aggregatedBy =
     request c ''/categories/stats'' ([(''start_date'', startDate), (''categories'', intercalate '','' categories)] @ param ''end_date'' endDate @ param ''aggregated_by'' aggregatedBy) ''GET'' None"

definition getMailboxProviderStats ::
  "client \<Rightarrow> string \<Rightarrow> string option \<Rightarrow> string list option
     \<Rightarrow> http_request list \<times> (error + jsval)" where
  "getMailboxProviderStats c startDate endDate mailboxProviders =
     request c ''/mailbox_providers/stats'' ([(''start_date'', startDate)] @ param ''end_date'' endDate @ (case mailboxProviders of None \<Rightarrow> [] | Some ps \<Rightarrow> [(''mailbox_providers'', intercalate '','' ps)])) ''GET'' None"

definition getBrowserStats ::
  "client \<Rightarrow> string \<Rightarrow> string option
     \<Rightarrow> http_request list \<times> (error + jsval)" where
  "getBrowserStats c startDate endDate =
     request c ''/browsers/stats'' ([(''start_date'', startDate)] @ param ''end_date'' endDate) ''GET'' None"

definition getDeviceStats ::
  "client \<Rightarrow> string \<Rightarrow> string option
     \<Rightarrow> http_request list \<times> (error + jsval)" where
  "getDeviceStats c startDate endDate =
     request c ''/devices/stats'' ([(''start_date'', startDate)] @ param ''end_date'' endDate) ''GET'' None"

definition getGeographyStats ::
  "client \<Rightarrow> string \<Rightarrow> string option \<Rightarrow> string option
     \<Rightarrow> http_request list \<times> (error + jsval)" where
  "getGeographyStats c startDate endDate country =
     request c ''/geo/stats'' ([(''start_date'', startDate)] @ param ''end_date'' endDate @ param ''country'' country) ''GET'' None"

subsection \<open>Single suppressions, unsubscribe groups, group suppressions\<close>

definition getBounce ::
  "client \<Rightarrow> string \<Rightarrow> http_request list \<times> (error + jsval)" where
  "getBounce c addr =
     request c (''/suppression/bounces/'' @ addr) [] ''GET'' None"

definition deleteBounce ::
  "client \<Rightarrow> string \<Rightarrow> http_request list \<times> (error + unit)" where
  "deleteBounce c addr =
     and_then (request c (''/suppression/bounces/'' @ addr) [] ''DELETE'' None)
       (\<lambda>result. Inr ())"

definition getBlock ::
  "client \<Rightarrow> string \<Rightarrow> http_request list \<times> (error + jsval)" where
  "getBlock c addr =
     request c (''/suppression/blocks/'' @ addr) [] ''GET'' None"

definition deleteBlock ::
  "client \<Rightarrow> string \<Rightarrow> http_request list \<times> (error + unit)" where
  "deleteBlock c addr =
     and_then (request c (''/suppression/blocks/'' @ addr) [] ''DELETE'' None)
       (\<lambda>result. Inr ())"

definition getSpamReport ::
  "client \<Rightarrow> string \<Rightarrow> http_request list \<times> (error + jsval)" where
  "getSpamReport c addr =
     request c (''/suppression/spam_reports/'' @ addr) [] ''GET'' None"

definition deleteSpamReport ::
  "client \<Rightarrow> string \<Rightarrow> http_request list \<times> (error + unit)" where
  "deleteSpamReport c addr =
     and_then (request c (''/suppression/spam_reports/'' @ addr) [] ''DELETE'' None)
       (\<lambda>result. Inr ())"

definition getInvalidEmail ::
  "client \<Rightarrow> string \<Rightarrow> http_request list \<times> (error + jsval)" where
  "getInvalidEmail c addr =
     request c (''/suppression/invalid_emails/'' @ addr) [] ''GET'' None"

definition deleteInvalidEmail ::
  "client \<Rightarrow> string \<Rightarrow> http_request list \<times> (error + unit)" where
  "deleteInvalidEmail c addr =
     and_then (request c (''/suppression/invalid_emails/'' @ addr) [] ''DELETE'' None)
       (\<lambda>result. Inr ())"

definition addGlobalSuppression ::
  "client \<Rightarrow> string list \<Rightarrow> http_request list \<times> (error + unit)" where
  "addGlobalSuppression c emails =
     and_then (request c ''/asm/suppressions/global'' [] ''POST''
         (Some (json_object [(''recipient_emails'', Some (str_array emails))])))
       (\<lambda>result. Inr ())"

definition deleteGlobalSuppression ::
  "client \<Rightarrow> string \<Rightarrow> http_request list \<times> (error + unit)" where
  "deleteGlobalSuppression c addr =
     and_then (request c (''/asm/suppressions/global/'' @ addr) [] ''DELETE'' None)
       (\<lambda>result. Inr ())"

definition listUnsubscribeGroups ::
  "client \<Rightarrow> http_request list \<times> (error + jsval)" where
  "listUnsubscribeGroups c =
     request c ''/asm/groups'' [] ''GET'' None"

definition getUnsubscribeGroup ::
  "client \<Rightarrow> int \<Rightarrow> http_request list \<times> (error + jsval)" where
  "getUnsubscribeGroup c ident =
     request c (''/asm/groups/'' @ show_int ident) [] ''GET'' None"

definition createUnsubscribeGroup ::
  "client \<Rightarrow> json \<Rightarrow> http_request list \<times> (error + jsval)" where
  "createUnsubscribeGroup c input =
     request c ''/asm/groups'' [] ''POST''
       (Some input)"

definition updateUnsubscribeGroup ::
  "client \<Rightarrow> int \<Rightarrow> json
     \<Rightarrow> http_request list \<times> (error + jsval)" where
  "updateUnsubscribeGroup c ident input =
     request c (''/asm/groups/'' @ show_int ident) [] ''PATCH''
       (Some input)"

definition deleteUnsubscribeGroup ::
  "client \<Rightarrow> int \<Rightarrow> http_request list \<times> (error + unit)" where
  "deleteUnsubscribeGroup c ident =
     and_then (request c (''/asm/groups/'' @ show_int ident) [] ''DELETE'' None)
       (\<lambda>result. Inr ())"

definition listGroupSuppressions ::
  "client \<Rightarrow> int \<Rightarrow> http_request list \<times> (error + json)" where
  "listGroupSuppressions c groupId =
     and_then (request c (''/asm/groups/'' @ show_int groupId @ ''/suppressions'') [] ''GET'' None)
       (\<lambda>result. Inr (or_else result (JArr [])))"

definition addGroupSuppressions ::
  "client \<Rightarrow> int \<Rightarrow> string list
     \<Rightarrow> http_request list \<times> (error + unit)" where
  "addGroupSuppressions c groupId emails =
     and_then (request c (''/asm/groups/'' @ show_int groupId @ ''/suppressions'') [] ''POST''
         (Some (json_object [(''recipient_emails'', Some (str_array emails))])))
       (\<lambda>result. Inr ())"

definition deleteGroupSuppression ::
  "client \<Rightarrow> int \<Rightarrow> string
     \<Rightarrow> http_request list \<times> (error + unit)" where
  "deleteGroupSuppression c groupId addr =
     and_then (request c (''/asm/groups/'' @ show_int groupId @ ''/suppressions/'' @ addr) [] ''DELETE'' None)
       (\<lambda>result. Inr ())"

definition searchGroupSuppressions ::
  "client \<Rightarrow> string \<Rightarrow> http_request list \<times> (error + json)" where
  "searchGroupSuppressions c addr =
     and_then (request c (''/asm/suppressions/'' @ addr) [] ''GET'' None)
       (\<lambda>result. if nullish result then Inl TypeError
          else Inr (or_else (opt_get result ''suppressions'') (JArr [])))"

subsection \<open>API keys, event webhooks, domain authentication, link branding\<close>

definition getApiKey ::
  "client \<Rightarrow> string \<Rightarrow> http_request list \<times> (error + jsval)" where
  "getApiKey c ident =
     request c (''/api_keys/'' @ ident) [] ''GET'' None"

definition createApiKey ::
  "client \<Rightarrow> json \<Rightarrow> http_request list \<times> (error + jsval)" where
  "createApiKey c input =
     request c ''/api_keys'' [] ''POST''
       (Some input)"

definition updateApiKey ::
  "client \<Rightarrow> string \<Rightarrow> string \<Rightarrow> string list option
     \<Rightarrow> http_request list \<times> (error + jsval)" where
  "updateApiKey c ident nm scs =
     request c (''/api_keys/'' @ ident) [] (if scs = None then ''PATCH'' else ''PUT'')
       (Some (json_object [(''name'', Some (JStr nm)), (''scopes'', map_option str_array scs)]))"

definition deleteApiKey ::
  "client \<Rightarrow> string \<Rightarrow> http_request list \<times> (error + unit)" where
  "deleteApiKey c ident =
     and_then (request c (''/api_keys/'' @ ident) [] ''DELETE'' None)
       (\<lambda>result. Inr ())"

definition getEventWebhook ::
  "client \<Rightarrow> http_request list \<times> (error + jsval)" where
  "getEventWebhook c =
     request c ''/user/webhooks/event/settings'' [] ''GET'' None"

definition updateEventWebhook ::
  "client \<Rightarrow> json \<Rightarrow> http_request list \<times> (error + jsval)" where
  "updateEventWebhook c input =
     request c ''/user/webhooks/event/settings'' [] ''PATCH''
       (Some input)"

definition testEventWebhook ::
  "client \<Rightarrow> string \<Rightarrow> http_request list \<times> (error + unit)" where
  "testEventWebhook c url =
     and_then (request c ''/user/webhooks/event/test'' [] ''POST''
         (Some (json_object [(''url'', Some (JStr url))])))
       (\<lambda>result. Inr ())"

definition listAuthenticatedDomains ::
  "client \<Rightarrow> http_request list \<times> (error + jsval)" where
  "listAuthenticatedDomains c =
     request c ''/whitelabel/domains'' [] ''GET'' None"

definition getAuthenticatedDomain ::
  "client \<Rightarrow> int \<Rightarrow> http_request list \<times> (error + jsval)" where
  "getAuthenticatedDomain c ident =
     request c (''/whitelabel/domains/'' @ show_int ident) [] ''GET'' None"

definition authenticateDomain ::
  "client \<Rightarrow> json \<Rightarrow> http_request list \<times> (error + jsval)" where
  "authenticateDomain c input =
     request c ''/whitelabel/domains'' [] ''POST''
       (Some input)"

definition deleteAuthenticatedDomain ::
  "client \<Rightarrow> int \<Rightarrow> http_request list \<times> (error + unit)" where
  "deleteAuthenticatedDomain c ident =
     and_then (request c (''/whitelabel/domains/'' @ show_int ident) [] ''DELETE'' None)
       (\<lambda>result. Inr ())"

definition validateDomain ::
  "client \<Rightarrow> int \<Rightarrow> http_request list \<times> (error + jsval \<times> jsval)" where
  "validateDomain c ident =
     and_then (request c (''/whitelabel/domains/'' @ show_int ident @ ''/validate'') [] ''POST'' None)
       (\<lambda>result. if nullish result then Inl TypeError
          else Inr (opt_get result ''valid'', opt_get result ''validation_results''))"

definition listBrandedLinks ::
  "client \<Rightarrow> http_request list \<times> (error + jsval)" where
  "listBrandedLinks c =
     request c ''/whitelabel/links'' [] ''GET'' None"

definition getBrandedLink ::
  "client \<Rightarrow> int \<Rightarrow> http_request list \<times> (error + jsval)" where
  "getBrandedLink c ident =
     request c (''/whitelabel/links/'' @ show_int ident) [] ''GET'' None"

definition createBrandedLink ::
  "client \<Rightarrow> json \<Rightarrow> http_request list \<times> (error + jsval)" where
  "createBrandedLink c input =
     request c ''/whitelabel/links'' [] ''POST''
       (Some input)"

definition deleteBrandedLink ::
  "client \<Rightarrow> int \<Rightarrow> http_request list \<times> (error + unit)" where
  "deleteBrandedLink c ident =
     and_then (request c (''/whitelabel/links/'' @ show_int ident) [] ''DELETE'' None)
       (\<lambda>result. Inr ())"

definition validateBrandedLink ::
  "client \<Rightarrow> int \<Rightarrow> http_request list \<times> (error + jsval \<times> jsval)" where
  "validateBrandedLink c ident =
     and_then (request c (''/whitelabel/links/'' @ show_int ident @ ''/validate'') [] ''POST'' None)
       (\<lambda>result. if nullish result then Inl TypeError
          else Inr (opt_get result ''valid'', opt_get result ''validation_results''))"

subsection \<open>IP addresses, pools and warmup\<close>

definition listIpAddresses ::
  "client \<Rightarrow> http_request list \<times> (error + jsval)" where
  "listIpAddresses c =
     request c ''/ips'' [] ''GET'' None"

definition getIpAddress ::
  "client \<Rightarrow> string \<Rightarrow> http_request list \<times> (error + jsval)" where
  "getIpAddress c ip =
     request c (''/ips/'' @ ip) [] ''GET'' None"

definition listIpPools ::
  "client \<Rightarrow> http_request list \<times> (error + jsval)" where
  "listIpPools c =
     request c ''/ips/pools'' [] ''GET'' None"

definition getIpPool ::
  "client \<Rightarrow> string \<Rightarrow> http_request list \<times> (error + jsval)" where
  "getIpPool c nm =
     request c (''/ips/pools/'' @ nm) [] ''GET'' None"

definition createIpPool ::
  "client \<Rightarrow> json \<Rightarrow> http_request list \<times> (error + jsval)" where
  "createIpPool c input =
     request c ''/ips/pools'' [] ''POST''
       (Some input)"

definition updateIpPool ::
  "client \<Rightarrow> string \<Rightarrow> string
     \<Rightarrow> http_request list \<times> (error + jsval)" where
  "updateIpPool c nm newName =
     request c (''/ips/pools/'' @ nm) [] ''PUT''
       (Some (json_object [(''name'', Some (JStr newName))]))"

definition deleteIpPool ::
  "client \<Rightarrow> string \<Rightarrow> http_request list \<times> (error + unit)" where
  "deleteIpPool c nm =
     and_then (request c (''/ips/pools/'' @ nm) [] ''DELETE'' None)
       (\<lambda>result. Inr ())"

definition addIpToPool ::
  "client \<Rightarrow> string \<Rightarrow> string
     \<Rightarrow> http_request list \<times> (error + unit)" where
  "addIpToPool c poolName ip =
     and_then (request c (''/ips/pools/'' @ poolName @ ''/ips'') [] ''POST''
         (Some (json_object [(''ip'', Some (JStr ip))])))
       (\<lambda>result. Inr ())"

definition removeIpFromPool ::
  "client \<Rightarrow> string \<Rightarrow> string
     \<Rightarrow> http_request list \<times> (error + unit)" where
  "removeIpFromPool c poolName ip =
     and_then (request c (''/ips/pools/'' @ poolName @ ''/ips/'' @ ip) [] ''DELETE'' None)
       (\<lambda>result. Inr ())"

definition listIpWarmup ::
  "client \<Rightarrow> http_request list \<times> (error + jsval)" where
  "listIpWarmup c =
     request c ''/ips/warmup'' [] ''GET'' None"

definition startIpWarmup ::
  "client \<Rightarrow> string \<Rightarrow> http_request list \<times> (error + jsval)" where
  "startIpWarmup c ip =
     request c ''/ips/warmup'' [] ''POST''
       (Some (json_object [(''ip'', Some (JStr ip))]))"

definition stopIpWarmup ::
  "client \<Rightarrow> string \<Rightarrow> http_request list \<times> (error + unit)" where
  "stopIpWarmup c ip =
     and_then (request c (''/ips/warmup/'' @ ip) [] ''DELETE'' None)
       (\<lambda>result. Inr ())"

subsection \<open>Subusers, teammates, inbound parse\<close>

definition listSubusers ::
  "client \<Rightarrow> int option \<Rightarrow> int option
     \<Rightarrow> http_request list \<times> (error + jsval)" where
  "listSubusers c lim off =
     request c ''/subusers'' [(''limit'', show_int (dflt_arg lim 500)), (''offset'', show_int (dflt_arg off 0))] ''GET'' None"

definition getSubuser ::
  "client \<Rightarrow> string \<Rightarrow> http_request list \<times> (error + jsval)" where
  "getSubuser c username =
     request c (''/subusers/'' @ username) [] ''GET'' None"

definition createSubuser ::
  "client \<Rightarrow> json \<Rightarrow> http_request list \<times> (error + jsval)" where
  "createSubuser c input =
     request c ''/subusers'' [] ''POST''
       (Some input)"

definition deleteSubuser ::
  "client \<Rightarrow> string \<Rightarrow> http_request list \<times> (error + unit)" where
  "deleteSubuser c username =
     and_then (request c (''/subusers/'' @ username) [] ''DELETE'' None)
       (\<lambda>result. Inr ())"

definition enableSubuser ::
  "client \<Rightarrow> string \<Rightarrow> http_request list \<times> (error + unit)" where
  "enableSubuser c username =
     and_then (request c (''/subusers/'' @ username) [] ''PATCH''
         (Some (json_object [(''disabled'', Some (JBool False))])))
       (\<lambda>result. Inr ())"

definition disableSubuser ::
  "client \<Rightarrow> string \<Rightarrow> http_request list \<times> (error + unit)" where
  "disableSubuser c username =
     and_then (request c (''/subusers/'' @ username) [] ''PATCH''
         (Some (json_object [(''disabled'', Some (JBool True))])))
       (\<lambda>result. Inr ())"

definition listTeammates ::
  "client \<Rightarrow> int option \<Rightarrow> int option
     \<Rightarrow> http_request list \<times> (error + json)" where
  "listTeammates c lim off =
     and_then (request c ''/teammates'' [(''limit'', show_int (dflt_arg lim 500)), (''offset'', show_int (dflt_arg off 0))] ''GET'' None)
       (\<lambda>result. if nullish result then Inl TypeError
          else Inr (or_else (opt_get result ''result'') (JArr [])))"

definition getTeammate ::
  "client \<Rightarrow> string \<Rightarrow> http_request list \<times> (error + jsval)" where
  "getTeammate c username =
     request c (''/teammates/'' @ username) [] ''GET'' None"

definition deleteTeammate ::
  "client \<Rightarrow> string \<Rightarrow> http_request list \<times> (error + unit)" where
  "deleteTeammate c username =
     and_then (request c (''/teammates/'' @ username) [] ''DELETE'' None)
       (\<lambda>result. Inr ())"

definition listInboundParseWebhooks ::
  "client \<Rightarrow> http_request list \<times> (error + json)" where
  "listInboundParseWebhooks c =
     and_then (request c ''/user/webhooks/parse/settings'' [] ''GET'' None)
       (\<lambda>result. if nullish result then Inl TypeError
          else Inr (or_else (opt_get result ''result'') (JArr [])))"

definition getInboundParseWebhook ::
  "client \<Rightarrow> string \<Rightarrow> http_request list \<times> (error + jsval)" where
  "getInboundParseWebhook c hostname =
     request c (''/user/webhooks/parse/settings/'' @ hostname) [] ''GET'' None"

definition createInboundParseWebhook ::
  "client \<Rightarrow> json \<Rightarrow> http_request list \<times> (error + jsval)" where
  "createInboundParseWebhook c input =
     request c ''/user/webhooks/parse/settings'' [] ''POST''
       (Some input)"

definition updateInboundParseWebhook ::
  "client \<Rightarrow> string \<Rightarrow> json
     \<Rightarrow> http_request list \<times> (error + jsval)" where
  "updateInboundParseWebhook c hostname input =
     request c (''/user/webhooks/parse/settings/'' @ hostname) [] ''PATCH''
       (Some input)"

definition deleteInboundParseWebhook ::
  "client \<Rightarrow> string \<Rightarrow> http_request list \<times> (error + unit)" where
  "deleteInboundParseWebhook c hostname =
     and_then (request c (''/user/webhooks/parse/settings/'' @ hostname) [] ''DELETE'' None)
       (\<lambda>result. Inr ())"

subsection \<open>Scheduled sends, alerts, designs\<close>

definition listScheduledSends ::
  "client \<Rightarrow> http_request list \<times> (error + jsval)" where
  "listScheduledSends c =
     request c ''/user/scheduled_sends'' [] ''GET'' None"

definition cancelScheduledSend ::
  "client \<Rightarrow> string \<Rightarrow> http_request list \<times> (error + unit)" where
  "cancelScheduledSend c batchId =
     and_then (request c (''/user/scheduled_sends/'' @ batchId) [] ''POST''
         (Some (json_object [(''batch_id'', Some (JStr batchId)), (''status'', Some (JStr ''cancel''))])))
       (\<lambda>result. Inr ())"

definition pauseScheduledSend ::
  "client \<Rightarrow> string \<Rightarrow> http_request list \<times> (error + unit)" where
  "pauseScheduledSend c batchId =
     and_then (request c (''/user/scheduled_sends/'' @ batchId) [] ''POST''
         (Some (json_object [(''batch_id'', Some (JStr batchId)), (''status'', Some (JStr ''pause''))])))
       (\<lambda>result. Inr ())"

definition listAlerts ::
  "client \<Rightarrow> http_request list \<times> (error + jsval)" where
  "listAlerts c =
     request c ''/alerts'' [] ''GET'' None"

definition getAlert ::
  "client \<Rightarrow> int \<Rightarrow> http_request list \<times> (error + jsval)" where
  "getAlert c ident =
     request c (''/alerts/'' @ show_int ident) [] ''GET'' None"

definition createAlert ::
  "client \<Rightarrow> json \<Rightarrow> http_request list \<times> (error + jsval)" where
  "createAlert c input =
     request c ''/alerts'' [] ''POST''
       (Some input)"

definition updateAlert ::
  "client \<Rightarrow> int \<Rightarrow> json
     \<Rightarrow> http_request list \<times> (error + jsval)" where
  "updateAlert c ident input =
     request c (''/alerts/'' @ show_int ident) [] ''PATCH''
       (Some input)"

definition deleteAlert ::
  "client \<Rightarrow> int \<Rightarrow> http_request list \<times> (error + unit)" where
  "deleteAlert c ident =
     and_then (request c (''/alerts/'' @ show_int ident) [] ''DELETE'' None)
       (\<lambda>result. Inr ())"

definition getDesign ::
  "client \<Rightarrow> string \<Rightarrow> http_request list \<times> (error + jsval)" where
  "getDesign c ident =
     request c (''/designs/'' @ ident) [] ''GET'' None"

definition createDesign ::
  "client \<Rightarrow> json \<Rightarrow> http_request list \<times> (error + jsval)" where
  "createDesign c input =
     request c ''/designs'' [] ''POST''
       (Some input)"

definition updateDesign ::
  "client \<Rightarrow> string \<Rightarrow> json
     \<Rightarrow> http_request list \<times> (error + jsval)" where
  "updateDesign c ident input =
     request c (''/designs/'' @ ident) [] ''PATCH''
       (Some input)"

definition deleteDesign ::
  "client \<Rightarrow> string \<Rightarrow> http_request list \<times> (error + unit)" where
  "deleteDesign c ident =
     and_then (request c (''/designs/'' @ ident) [] ''DELETE'' None)
       (\<lambda>result. Inr ())"

definition duplicateDesign ::
  "client \<Rightarrow> string \<Rightarrow> string option
     \<Rightarrow> http_request list \<times> (error + jsval)" where
  "duplicateDesign c ident nm =
     request c (''/designs/'' @ ident) [] ''POST''
       ((case truthy_str nm of None \<Rightarrow> None | Some n \<Rightarrow> Some (json_object [(''name'', Some n)])))"

section \<open>Tool handlers\<close>

text \<open>
  A tool returns one text block and an optional error flag. The text is
  \<^verbatim>\<open>JSON.stringify(payload, null, 2)\<close>; the response is kept as that payload.
  \<^verbatim>\<open>utils/errors.ts\<close> and the engine supply the message of an error, whether it is a
  retryable API error, and \<^verbatim>\<open>formatErrorForLogging\<close>.
\<close>

record tool_response =
  payload :: json
  isError :: "bool option"

record error_support =
  error_text :: "error \<Rightarrow> string"
  retryable :: "error \<Rightarrow> bool"
  formatErrorForLogging :: "error \<Rightarrow> jsval"

definition formatError :: "error_support \<Rightarrow> error \<Rightarrow> tool_response" where
  "formatError es e =
     \<lparr>payload = json_object
        [(''error'', Some (JStr (''Error: '' @ error_text es e
                                  @ (if retryable es e then '' (retryable)'' else [])))),
         (''details'', formatErrorForLogging es e)],
      isError = Some True\<rparr>"

text \<open>
  The bulk delete tools. The guard is \<^verbatim>\<open>!ids && !deleteAll\<close>: an array, also the empty
  one, is truthy. The tools are registered on a client whose credentials have passed
  \<^verbatim>\<open>validateCredentials\<close>.
\<close>

definition sendgrid_delete_contacts ::
  "error_support \<Rightarrow> client \<Rightarrow> string list option \<Rightarrow> bool option
     \<Rightarrow> http_request list \<times> tool_response" where
  "sendgrid_delete_contacts es c ids deleteAll =
     (if ids = None \<and> deleteAll \<noteq> Some True then
        ([], \<lparr>payload = json_object [(''error'', Some (JStr ''Either ids or deleteAll must be provided''))],
              isError = Some True\<rparr>)
      else
        (let r = deleteContacts c (dflt_arg ids []) (dflt_arg deleteAll False) in
         (fst r,
          case snd r of
            Inl e \<Rightarrow> formatError es e
          | Inr jobId \<Rightarrow>
              \<lparr>payload = json_object
                   [(''success'', Some (JBool True)),
                    (''message'', Some (JStr
                       (if deleteAll = Some True then ''All contacts queued for deletion''
                        else (case ids of None \<Rightarrow> ''undefined''
                              | Some xs \<Rightarrow> show_int (int (length xs)))
                             @ '' contact(s) queued for deletion''))),
                    (''jobId'', jobId)],
               isError = None\<rparr>)))"

definition sendgrid_delete_bounces ::
  "error_support \<Rightarrow> client \<Rightarrow> string list option \<Rightarrow> bool option
     \<Rightarrow> http_request list \<times> tool_response" where
  "sendgrid_delete_bounces es c emails deleteAll =
     (if emails = None \<and> deleteAll \<noteq> Some True then
        ([], \<lparr>payload = json_object [(''error'', Some (JStr ''Either emails or deleteAll must be provided''))],
              isError = Some True\<rparr>)
      else
        (let r = deleteBounces c (dflt_arg emails []) (dflt_arg deleteAll False) in
         (fst r,
          case snd r of
            Inl e \<Rightarrow> formatError es e
          | Inr u \<Rightarrow>
              \<lparr>payload = json_object
                   [(''success'', Some (JBool True)),
                    (''message'', Some (JStr (if deleteAll = Some True then ''All bounces deleted''
                        else (case emails of None \<Rightarrow> ''undefined''
                              | Some xs \<Rightarrow> show_int (int (length xs)))
                             @ '' bounce(s) deleted'')))],
               isError = None\<rparr>)))"

definition sendgrid_delete_blocks ::
  "error_support \<Rightarrow> client \<Rightarrow> string list option \<Rightarrow> bool option
     \<Rightarrow> http_request list \<times> tool_response" where
  "sendgrid_delete_blocks es c emails deleteAll =
     (if emails = None \<and> deleteAll \<noteq> Some True then
        ([], \<lparr>payload = json_object [(''error'', Some (JStr ''Either emails or deleteAll required''))],
              isError = Some True\<rparr>)
      else
        (let r = deleteBlocks c (dflt_arg emails []) (dflt_arg deleteAll False) in
         (fst r,
          case snd r of
            Inl e \<Rightarrow> formatError es e
          | Inr u \<Rightarrow>
              \<lparr>payload = json_object
                   [(''success'', Some (JBool True)),
                    (''message'', Some (JStr ''Blocks deleted''))],
               isError = None\<rparr>)))"

definition sendgrid_delete_spam_reports ::
  "error_support \<Rightarrow> client \<Rightarrow> string list option \<Rightarrow> bool option
     \<Rightarrow> http_request list \<times> tool_response" where
  "sendgrid_delete_spam_reports es c emails deleteAll =
     (if emails = None \<and> deleteAll \<noteq> Some True then
        ([], \<lparr>payload = json_object [(''error'', Some (JStr ''Either emails or deleteAll required''))],
              isError = Some True\<rparr>)
      else
        (let r = deleteSpamReports c (dflt_arg emails []) (dflt_arg deleteAll False) in
         (fst r,
          case snd r of
            Inl e \<Rightarrow> formatError es e
          | Inr u \<Rightarrow>
              \<lparr>payload = json_object
                   [(''success'', Some (JBool True)),
                    (''message'', Some (JStr ''Spam reports deleted''))],
               isError = None\<rparr>)))"

definition sendgrid_delete_invalid_emails ::
  "error_support \<Rightarrow> client \<Rightarrow> string list option \<Rightarrow> bool option
     \<Rightarrow> http_request list \<times> tool_response" where
  "sendgrid_delete_invalid_emails es c emails deleteAll =
     (if emails = None \<and> deleteAll \<noteq> Some True then
        ([], \<lparr>payload = json_object [(''error'', Some (JStr ''Either emails or deleteAll required''))],
              isError = Some True\<rparr>)
      else
        (let r = deleteInvalidEmails c (dflt_arg emails []) (dflt_arg deleteAll False) in
         (fst r,
          case snd r of
            Inl e \<Rightarrow> formatError es e
          | Inr u \<Rightarrow>
              \<lparr>payload = json_object
                   [(''success'', Some (JBool True)),
                    (''message'', Some (JStr ''Invalid emails deleted''))],
               isError = None\<rparr>)))"

text \<open>
  \<^verbatim>\<open>validateCredentials\<close> throws when the API key is missing or empty; here it is the
  condition under which it returns.
\<close>

definition validateCredentials :: "client \<Rightarrow> bool" where
  "validateCredentials c = (case apiKey c of None \<Rightarrow> False | Some k \<Rightarrow> k \<noteq> [])"

section \<open>What the specification states, in its own words\<close>

text \<open>
  The specification's account of the message of a generic API error: the entries'
  \<^verbatim>\<open>message\<close> fields joined with a comma and a space when the body parses to JSON
  with an \<^verbatim>\<open>errors\<close> array, else the top-level \<^verbatim>\<open>message\<close> field when there is one,
  else \<^verbatim>\<open>API error: <status>\<close>. Where a \<^verbatim>\<open>message\<close> of an entry has no string form
  the join does not exist; the empty text stands for it, and \<open>message_usable\<close> below
  excludes such a body.
\<close>

definition claimed_error_message :: "(string \<Rightarrow> json option) \<Rightarrow> http_response \<Rightarrow> json" where
  "claimed_error_message parse r =
     (case parse (text_of r) of
        None \<Rightarrow> JStr (''API error: '' @ show_int (status r))
      | Some j \<Rightarrow>
          (case get_json j ''errors'' of
             Some (JArr es) \<Rightarrow>
               (case join_results '', '' (map (\<lambda>e. join_elem (get_json e ''message'')) es) of
                  Inl x \<Rightarrow> JStr []
                | Inr joined \<Rightarrow> JStr joined)
           | _ \<Rightarrow>
               (case get_json j ''message'' of
                  None \<Rightarrow> JStr (''API error: '' @ show_int (status r))
                | Some m \<Rightarrow> m)))"

text \<open>
  The bodies on which the executor follows that account: no null entry in the
  \<^verbatim>\<open>errors\<close> array, every \<^verbatim>\<open>message\<close> of an entry with a string form, and no
  top-level \<^verbatim>\<open>message\<close> that is null, false, 0 or empty.
\<close>

definition message_usable :: "(string \<Rightarrow> json option) \<Rightarrow> http_response \<Rightarrow> bool" where
  "message_usable parse r =
     (case parse (text_of r) of
        None \<Rightarrow> True
      | Some j \<Rightarrow>
          (case get_json j ''errors'' of
             Some (JArr es) \<Rightarrow>
               JNull \<notin> set es
               \<and> (case join_results '', '' (map (\<lambda>e. join_elem (get_json e ''message'')) es) of
                    Inl x \<Rightarrow> False
                  | Inr joined \<Rightarrow> True)
           | _ \<Rightarrow> (case get_json j ''message'' of None \<Rightarrow> True | Some m \<Rightarrow> truthy_json m)))"

text \<open>
  The specification's account of the retry-after value of a rate limit: the integer
  value of the \<^verbatim>\<open>Retry-After\<close> header when it is present, else 60.
\<close>

definition claimed_retry_after :: "http_response \<Rightarrow> number" where
  "claimed_retry_after r = (case retry_after r of None \<Rightarrow> Finite 60 | Some h \<Rightarrow> parseInt h)"

text \<open>
  The two naming conventions: lower-snake-case (lower-case letters, digits and
  underscores) upstream, compact camel-style (letters and digits, a lower-case letter
  first) towards the caller.
\<close>

definition lower_snake_case :: "string \<Rightarrow> bool" where
  "lower_snake_case k =
     (k \<noteq> [] \<and> list_all (\<lambda>ch. ch \<in> set ''abcdefghijklmnopqrstuvwxyz0123456789_'') k)"

definition camel_style :: "string \<Rightarrow> bool" where
  "camel_style k =
     (case k of
        [] \<Rightarrow> False
      | ch # rest \<Rightarrow>
          ch \<in> set ''abcdefghijklmnopqrstuvwxyz''
          \<and> list_all (\<lambda>x. x \<in> set ''abcdefghijklmnopqrstuvwxyzABCDEFGHIJKLMNOPQRSTUVWXYZ0123456789'') rest)"

definition keys_of :: "json \<Rightarrow> string list" where
  "keys_of j = (case j of JObj kvs \<Rightarrow> map fst kvs | _ \<Rightarrow> [])"

section \<open>The executor seen from one call\<close>

text \<open>
  What the executor makes of a request it has sent: the error thrown or the value
  returned. On the requests one call has sent, \<open>raised\<close> says that the executor threw
  the error, before sending (the API key missing) or on a request, and \<open>returned\<close> that
  it returned the value.
\<close>

definition sent_outcome :: "client \<Rightarrow> http_request \<Rightarrow> error + jsval" where
  "sent_outcome c req =
     (case fetch c req of
        None \<Rightarrow> Inl FetchFailed
      | Some r \<Rightarrow> handle_response (json_parse c) r)"

definition raised :: "client \<Rightarrow> http_request list \<Rightarrow> error \<Rightarrow> bool" where
  "raised c reqs e =
     (getAuthHeaders c = Inl e \<or> list_ex (\<lambda>req. sent_outcome c req = Inl e) reqs)"

definition returned :: "client \<Rightarrow> http_request list \<Rightarrow> jsval \<Rightarrow> bool" where
  "returned c reqs v = list_ex (\<lambda>req. sent_outcome c req = Inr v) reqs"

section \<open>A fixed upstream\<close>

text \<open>
  A client whose every request gets the same response, with \<^verbatim>\<open>JSON.parse\<close> given by
  a table of the texts it is applied to.
\<close>

definition always :: "'b \<Rightarrow> 'a \<Rightarrow> 'b" where
  "always x y = x"

definition fixed_upstream :: "string option \<Rightarrow> http_response \<Rightarrow> (string \<times> json) list \<Rightarrow> client" where
  "fixed_upstream k r tbl = \<lparr>apiKey = k, fetch = always (Some r), json_parse = map_of tbl\<rparr>"

text \<open>An upstream that answers a POST with one response and any other request with another.\<close>

definition post_fails :: "http_response \<Rightarrow> http_response \<Rightarrow> http_request \<Rightarrow> http_response option" where
  "post_fails bad good req = Some (if http_method req = ''POST'' then bad else good)"

definition plain_errors :: error_support where
  "plain_errors = \<lparr>error_text = always ''failed'', retryable = always False,
                    formatErrorForLogging = always None\<rparr>"

section \<open>Properties of the executor and of sequencing\<close>

lemma fst_and_then [simp]: "fst (and_then r f) = fst r"
  by (simp add: and_then_def)

lemma fst_or_catch [simp]: "fst (or_catch r h) = fst r"
  by (simp add: or_catch_def)

lemma snd_and_then_Inl: "snd r = Inl e \<Longrightarrow> snd (and_then r f) = Inl e"
  by (simp add: and_then_def)

lemma snd_and_then_Inr: "snd r = Inr v \<Longrightarrow> snd (and_then r f) = f v"
  by (simp add: and_then_def)

lemma snd_and_then_eq_Inr:
  "snd (and_then r f) = Inr p \<longleftrightarrow> (\<exists>v. snd r = Inr v \<and> f v = Inr p)"
  by (cases "snd r") (simp_all add: and_then_def)

lemma snd_or_catch_Inl: "snd r = Inl e \<Longrightarrow> snd (or_catch r h) = Inr (h e)"
  by (simp add: or_catch_def)

lemma fst_request:
  "fst (request c p q m b) =
     (if validateCredentials c
      then [\<lparr>http_method = m, path = p, query = q,
              headers = [(''Authorization'', ''Bearer '' @ the (apiKey c)),
                         (''Content-Type'', ''application/json'')],
              body = b\<rparr>]
      else [])"
  by (simp add: request_def getAuthHeaders_def validateCredentials_def Let_def
           split: option.splits)

lemma snd_request_fixed:
  "validateCredentials c \<Longrightarrow> fetch c = always (Some r)
     \<Longrightarrow> snd (request c p q m b) = handle_response (json_parse c) r"
  by (simp add: request_def getAuthHeaders_def validateCredentials_def Let_def always_def
           split: option.splits)

lemma fixed_upstream_simps [simp]:
  "validateCredentials (fixed_upstream (Some k) r tbl) = (k \<noteq> [])"
  "fetch (fixed_upstream key r tbl) = always (Some r)"
  "json_parse (fixed_upstream key r tbl) = map_of tbl"
  "apiKey (fixed_upstream key r tbl) = key"
  by (simp_all add: fixed_upstream_def validateCredentials_def)

text \<open>
  On the requests of one call to the executor, \<open>raised\<close> and \<open>returned\<close> are the call's
  own outcome.
\<close>

lemma request_outcome:
  "request c p q m b =
     (case getAuthHeaders c of
        Inl e \<Rightarrow> ([], Inl e)
      | Inr hs \<Rightarrow>
          ([\<lparr>http_method = m, path = p, query = q, headers = hs, body = b\<rparr>],
           sent_outcome c \<lparr>http_method = m, path = p, query = q, headers = hs, body = b\<rparr>))"
  by (simp add: request_def sent_outcome_def Let_def split: sum.splits option.splits)

lemma raised_request:
  "raised c (fst (request c p q m b)) e \<longleftrightarrow> snd (request c p q m b) = Inl e"
  by (cases "getAuthHeaders c") (auto simp: request_outcome raised_def)

lemma returned_request:
  "returned c (fst (request c p q m b)) v \<longleftrightarrow> snd (request c p q m b) = Inr v"
  by (cases "getAuthHeaders c") (auto simp: request_outcome returned_def)

lemma raised_branch:
  "raised c (fst (if t then request c p q m b else request c p' q' m' b')) e
     \<longleftrightarrow> snd (if t then request c p q m b else request c p' q' m' b') = Inl e"
  by (simp add: raised_request)

text \<open>Integers up to \<open>2^53\<close> in magnitude are doubles.\<close>

lemma bit_count_le: "a < 2 ^ k \<Longrightarrow> bit_count a \<le> k"
proof (induction k arbitrary: a)
  case 0
  then show ?case by (subst bit_count.simps) simp
next
  case (Suc k)
  show ?case
  proof (cases "a \<le> 0")
    case True
    then show ?thesis by (subst bit_count.simps) simp
  next
    case False
    from Suc.prems have "a div 2 < 2 ^ k" by simp
    then have "bit_count (a div 2) \<le> k" by (rule Suc.IH)
    with False show ?thesis by (subst bit_count.simps) simp
  qed
qed

lemma bit_count_power: "bit_count (2 ^ n) = Suc n"
proof (induction n)
  case 0
  show ?case by (simp add: bit_count.simps)
next
  case (Suc n)
  have "bit_count (2 ^ Suc n) = Suc (bit_count (2 ^ Suc n div 2))"
    by (subst bit_count.simps) simp
  with Suc show ?case by simp
qed

lemma round_double_exact:
  assumes "0 \<le> a" and "a \<le> 2 ^ 53"
  shows "round_double a = a"
proof (cases "a = 2 ^ 53")
  case True
  have "bit_count (2 ^ 53) = Suc 53" by (rule bit_count_power)
  then have "bit_count (2 ^ 53) - 53 = 1" by simp
  with True show ?thesis by (simp add: round_double_def)
next
  case False
  with assms have "a < 2 ^ 53" by simp
  then have "bit_count a \<le> 53" by (rule bit_count_le)
  then have "bit_count a - 53 = 0" by simp
  then show ?thesis by (simp add: round_double_def)
qed

lemma to_double_exact:
  assumes "\<bar>i\<bar> \<le> 2 ^ 53"
  shows "to_double i = Finite i"
proof -
  have "round_double \<bar>i\<bar> = \<bar>i\<bar>"
    using assms by (intro round_double_exact) simp_all
  moreover from assms have "\<not> (2 :: int) ^ 1024 \<le> \<bar>i\<bar>" by simp
  ultimately show ?thesis by (simp add: to_double_def Let_def)
qed

section \<open>Pagination without a cursor\<close>

lemma strict_eq_num_count:
  "strict_eq_num a n \<Longrightarrow> or_else a (JNum 0) = JNum n"
  by (simp add: strict_eq_num_def)

lemma count_strict_eq_num:
  "n \<noteq> 0 \<Longrightarrow> or_else a (JNum 0) = JNum n \<Longrightarrow> strict_eq_num a n"
  by (cases a) (auto simp: strict_eq_num_def split: if_splits)

lemma listBounces_page:
  "snd (listBounces c st et lim off) = Inr p
     \<Longrightarrow> nextPageToken p = None \<and> (hasMore p \<longrightarrow> count p = JNum (dflt_arg lim 500))
         \<and> (dflt_arg lim 500 \<noteq> 0 \<longrightarrow> count p = JNum (dflt_arg lim 500) \<longrightarrow> hasMore p)"
  by (auto simp: listBounces_def snd_and_then_eq_Inr dest: strict_eq_num_count intro: count_strict_eq_num)

lemma listBlocks_page:
  "snd (listBlocks c st et lim off) = Inr p
     \<Longrightarrow> nextPageToken p = None \<and> (hasMore p \<longrightarrow> count p = JNum (dflt_arg lim 500))
         \<and> (dflt_arg lim 500 \<noteq> 0 \<longrightarrow> count p = JNum (dflt_arg lim 500) \<longrightarrow> hasMore p)"
  by (auto simp: listBlocks_def snd_and_then_eq_Inr dest: strict_eq_num_count intro: count_strict_eq_num)

lemma listSpamReports_page:
  "snd (listSpamReports c st et lim off) = Inr p
     \<Longrightarrow> nextPageToken p = None \<and> (hasMore p \<longrightarrow> count p = JNum (dflt_arg lim 500))
         \<and> (dflt_arg lim 500 \<noteq> 0 \<longrightarrow> count p = JNum (dflt_arg lim 500) \<longrightarrow> hasMore p)"
  by (auto simp: listSpamReports_def snd_and_then_eq_Inr dest: strict_eq_num_count intro: count_strict_eq_num)

lemma listInvalidEmails_page:
  "snd (listInvalidEmails c st et lim off) = Inr p
     \<Longrightarrow> nextPageToken p = None \<and> (hasMore p \<longrightarrow> count p = JNum (dflt_arg lim 500))
         \<and> (dflt_arg lim 500 \<noteq> 0 \<longrightarrow> count p = JNum (dflt_arg lim 500) \<longrightarrow> hasMore p)"
  by (auto simp: listInvalidEmails_def snd_and_then_eq_Inr dest: strict_eq_num_count intro: count_strict_eq_num)

lemma listGlobalSuppressions_page:
  "snd (listGlobalSuppressions c st et lim off) = Inr p
     \<Longrightarrow> nextPageToken p = None \<and> (hasMore p \<longrightarrow> count p = JNum (dflt_arg lim 500))
         \<and> (dflt_arg lim 500 \<noteq> 0 \<longrightarrow> count p = JNum (dflt_arg lim 500) \<longrightarrow> hasMore p)"
  by (auto simp: listGlobalSuppressions_def snd_and_then_eq_Inr dest: strict_eq_num_count intro: count_strict_eq_num)

lemma listContactLists_no_more:
  "snd (listContactLists c) = Inr p \<Longrightarrow> \<not> hasMore p \<and> nextPageToken p = None"
  by (auto simp: listContactLists_def snd_and_then_eq_Inr split: if_splits)

lemma listSegments_no_more:
  "snd (listSegments c ids) = Inr p \<Longrightarrow> \<not> hasMore p \<and> nextPageToken p = None"
  by (auto simp: listSegments_def snd_and_then_eq_Inr split: if_splits)

lemma listSingleSends_no_more:
  "snd (listSingleSends c sf) = Inr p \<Longrightarrow> \<not> hasMore p \<and> nextPageToken p = None"
  by (auto simp: listSingleSends_def snd_and_then_eq_Inr split: if_splits)

lemma searchContacts_no_more:
  "snd (searchContacts c q) = Inr p \<Longrightarrow> \<not> hasMore p \<and> nextPageToken p = None"
  by (auto simp: searchContacts_def snd_and_then_eq_Inr split: if_splits)

lemma listApiKeys_no_more:
  "snd (listApiKeys c) = Inr p \<Longrightarrow> \<not> hasMore p \<and> nextPageToken p = None"
  by (auto simp: listApiKeys_def snd_and_then_eq_Inr split: if_splits)

lemma listSenderIdentities_no_more:
  "snd (listSenderIdentities c) = Inr p \<Longrightarrow> \<not> hasMore p \<and> nextPageToken p = None"
  by (auto simp: listSenderIdentities_def snd_and_then_eq_Inr split: if_splits)

text \<open>
  Claim C1, as stated, at \<^verbatim>\<open>listBounces\<close> with \<^verbatim>\<open>limit = 2\<close> and an upstream array of
  two entries: the result has \<open>hasMore = True\<close>.
\<close>

theorem listBounces_full_page_has_more:
  "snd (listBounces (fixed_upstream (Some ''SG.key'') \<lparr>status = 200, retry_after = None, text_of = ''[1,2]''\<rparr>
                       [(''[1,2]'', JArr [JNum 1, JNum 2])]) None None (Some 2) None)
     = Inr \<lparr>items = JArr [JNum 1, JNum 2], count = JNum 2, total = None, hasMore = True,
            nextPageToken = None\<rparr>"
  by (simp add: listBounces_def snd_and_then_Inr snd_request_fixed handle_response_def
        response_ok_def strict_eq_num_def dflt_arg_def)

text \<open>
  Claim C1, amended. The operations \<^verbatim>\<open>listContactLists\<close>, \<^verbatim>\<open>listSegments\<close>,
  \<^verbatim>\<open>listSingleSends\<close>, \<^verbatim>\<open>searchContacts\<close>, \<^verbatim>\<open>listApiKeys\<close> and
  \<^verbatim>\<open>listSenderIdentities\<close> return \<open>hasMore = False\<close> and no \<open>nextPageToken\<close> for every
  upstream response. The five suppression lists return no \<open>nextPageToken\<close> either;
  their \<open>hasMore\<close> holds only when the count equals the limit (500 unless given), and
  for a limit other than 0 exactly then.
\<close>

theorem non_cursor_pagination:
  "(snd (listContactLists c) = Inr p \<or> snd (listSegments c ids) = Inr p
      \<or> snd (listSingleSends c sf) = Inr p \<or> snd (searchContacts c q) = Inr p
      \<or> snd (listApiKeys c) = Inr p \<or> snd (listSenderIdentities c) = Inr p
    \<longrightarrow> \<not> hasMore p \<and> nextPageToken p = None)
   \<and> (snd (listBounces c st et lim off) = Inr p \<or> snd (listBlocks c st et lim off) = Inr p
      \<or> snd (listSpamReports c st et lim off) = Inr p
      \<or> snd (listInvalidEmails c st et lim off) = Inr p
      \<or> snd (listGlobalSuppressions c st et lim off) = Inr p
    \<longrightarrow> nextPageToken p = None
        \<and> (hasMore p \<longrightarrow> count p = JNum (dflt_arg lim 500))
        \<and> (dflt_arg lim 500 \<noteq> 0 \<longrightarrow> count p = JNum (dflt_arg lim 500) \<longrightarrow> hasMore p))"
proof -
  have fixed: "\<not> hasMore p \<and> nextPageToken p = None"
    if "snd (listContactLists c) = Inr p \<or> snd (listSegments c ids) = Inr p
      \<or> snd (listSingleSends c sf) = Inr p \<or> snd (searchContacts c q) = Inr p
      \<or> snd (listApiKeys c) = Inr p \<or> snd (listSenderIdentities c) = Inr p"
    using that listContactLists_no_more listSegments_no_more listSingleSends_no_more
      searchContacts_no_more listApiKeys_no_more listSenderIdentities_no_more
    by blast
  have heuristic: "nextPageToken p = None
        \<and> (hasMore p \<longrightarrow> count p = JNum (dflt_arg lim 500))
        \<and> (dflt_arg lim 500 \<noteq> 0 \<longrightarrow> count p = JNum (dflt_arg lim 500) \<longrightarrow> hasMore p)"
    if "snd (listBounces c st et lim off) = Inr p \<or> snd (listBlocks c st et lim off) = Inr p
      \<or> snd (listSpamReports c st et lim off) = Inr p
      \<or> snd (listInvalidEmails c st et lim off) = Inr p
      \<or> snd (listGlobalSuppressions c st et lim off) = Inr p"
    using that listBounces_page [of c st et lim off p] listBlocks_page [of c st et lim off p]
      listSpamReports_page [of c st et lim off p] listInvalidEmails_page [of c st et lim off p]
      listGlobalSuppressions_page [of c st et lim off p]
    by blast
  from fixed heuristic show ?thesis by blast
qed


theorem non_cursor_pagination_witness:
  "snd (listBlocks (fixed_upstream (Some ''SG.key'') \<lparr>status = 200, retry_after = None, text_of = ''[1,2]''\<rparr>
                       [(''[1,2]'', JArr [JNum 1, JNum 2])]) None None (Some 2) None)
     = Inr \<lparr>items = JArr [JNum 1, JNum 2], count = JNum 2, total = None, hasMore = True,
            nextPageToken = None\<rparr>
   \<and> dflt_arg (Some 2) 500 \<noteq> (0::int)
   \<and> count \<lparr>items = JArr [JNum 1, JNum 2], count = JNum 2, total = None, hasMore = True,
            nextPageToken = None\<rparr> = JNum (dflt_arg (Some 2) 500)
   \<and> hasMore \<lparr>items = JArr [JNum 1, JNum 2], count = JNum 2, total = None, hasMore = True,
            nextPageToken = None\<rparr>
   \<and> snd (listApiKeys (fixed_upstream (Some ''SG.key'') \<lparr>status = 200, retry_after = None, text_of = ''{}''\<rparr>
                       [(''{}'', JObj [])]))
     = Inr \<lparr>items = JArr [], count = JNum 0, total = None, hasMore = False, nextPageToken = None\<rparr>
   \<and> \<not> hasMore \<lparr>items = JArr [], count = JNum 0, total = None, hasMore = False, nextPageToken = None\<rparr>"
proof -
  let ?c = "fixed_upstream (Some ''SG.key'') \<lparr>status = 200, retry_after = None, text_of = ''[1,2]''\<rparr>
              [(''[1,2]'', JArr [JNum 1, JNum 2])]"
  let ?p = "\<lparr>items = JArr [JNum 1, JNum 2], count = JNum 2, total = None, hasMore = True,
             nextPageToken = None\<rparr>"
  let ?d = "fixed_upstream (Some ''SG.key'') \<lparr>status = 200, retry_after = None, text_of = ''{}''\<rparr>
              [(''{}'', JObj [])]"
  let ?e = "\<lparr>items = JArr [], count = JNum 0, total = None, hasMore = False, nextPageToken = None\<rparr>"
  have blocks: "snd (listBlocks ?c None None (Some 2) None) = Inr ?p"
    by (simp add: listBlocks_def snd_and_then_Inr snd_request_fixed handle_response_def
          response_ok_def strict_eq_num_def dflt_arg_def)
  have keys: "snd (listApiKeys ?d) = Inr ?e"
    by (simp add: listApiKeys_def snd_and_then_Inr snd_request_fixed handle_response_def
          response_ok_def)
  have lim: "dflt_arg (Some 2) 500 \<noteq> (0::int)" and cnt: "count ?p = JNum (dflt_arg (Some 2) 500)"
    by (simp_all add: dflt_arg_def)
  note thm1 = non_cursor_pagination [of ?c ?p None None "[]" None None "Some 2" None]
  from thm1 blocks lim cnt have more: "hasMore ?p"
    by (elim conjE) (simp only: simp_thms)
  note thm2 = non_cursor_pagination [of ?d ?e None None "[]" None None None None]
  from thm2 keys have nomore: "\<not> hasMore ?e"
    by (elim conjE) (simp only: simp_thms)
  from blocks keys lim cnt more nomore show ?thesis
    by (intro conjI)
qed

section \<open>Requests sent by single operations\<close>

text \<open>
  Claim C8. \<^verbatim>\<open>validateEmail\<close> called without a source sends one request, and its
  body is the object with the single key \<^verbatim>\<open>email\<close>: no \<^verbatim>\<open>source\<close> key, null or
  otherwise. (Without an API key the executor sends nothing.)
\<close>

theorem validateEmail_without_source:
  "map body (fst (validateEmail c addr None))
     = (if validateCredentials c then [Some (JObj [(''email'', JStr addr)])] else [])"
  by (simp add: validateEmail_def fst_request json_object_def)

theorem validateEmail_without_source_witness:
  "validateCredentials (fixed_upstream (Some ''SG.key'') \<lparr>status = 200, retry_after = None, text_of = ''{}''\<rparr>
                          [(''{}'', JObj [])])
   \<and> map body (fst (validateEmail
          (fixed_upstream (Some ''SG.key'') \<lparr>status = 200, retry_after = None, text_of = ''{}''\<rparr>
             [(''{}'', JObj [])]) ''a@example.com'' None))
     = [Some (JObj [(''email'', JStr ''a@example.com'')])]"
  using validateEmail_without_source
          [of "fixed_upstream (Some ''SG.key'') \<lparr>status = 200, retry_after = None, text_of = ''{}''\<rparr>
                 [(''{}'', JObj [])]" "''a@example.com''"]
  by simp

text \<open>
  Claim C10. \<^verbatim>\<open>sendgrid_delete_contacts\<close> called with the empty array of ids and
  \<^verbatim>\<open>deleteAll\<close> absent or false passes the guard and sends one DELETE request whose
  query carries \<^verbatim>\<open>ids\<close> with the empty value.
\<close>

theorem delete_contacts_empty_ids_sends_request:
  assumes "validateCredentials c" and "deleteAll \<noteq> Some True"
  shows "fst (sendgrid_delete_contacts es c (Some []) deleteAll)
           = [\<lparr>http_method = ''DELETE'', path = ''/marketing/contacts'', query = [(''ids'', [])],
               headers = [(''Authorization'', ''Bearer '' @ the (apiKey c)),
                          (''Content-Type'', ''application/json'')],
               body = None\<rparr>]"
proof -
  from assms(2) have "dflt_arg deleteAll False = False"
    by (cases deleteAll) (simp_all add: dflt_arg_def)
  with assms(1) show ?thesis
    by (simp add: sendgrid_delete_contacts_def deleteContacts_def fst_request Let_def dflt_arg_def)
qed

theorem delete_contacts_empty_ids_sends_request_witness:
  "validateCredentials (fixed_upstream (Some ''SG.key'') \<lparr>status = 202, retry_after = None, text_of = []\<rparr> [])
   \<and> Some False \<noteq> Some True
   \<and> fst (sendgrid_delete_contacts plain_errors
            (fixed_upstream (Some ''SG.key'') \<lparr>status = 202, retry_after = None, text_of = []\<rparr> [])
            (Some []) (Some False))
       = [\<lparr>http_method = ''DELETE'', path = ''/marketing/contacts'', query = [(''ids'', [])],
           headers = [(''Authorization'', ''Bearer SG.key''), (''Content-Type'', ''application/json'')],
           body = None\<rparr>]"
proof -
  let ?c = "fixed_upstream (Some ''SG.key'') \<lparr>status = 202, retry_after = None, text_of = []\<rparr> []"
  have cred: "validateCredentials ?c" and flag: "Some False \<noteq> Some True"
    by simp_all
  from delete_contacts_empty_ids_sends_request [OF cred flag, of plain_errors] cred
  show ?thesis by simp
qed

section \<open>Scheduled sends\<close>

lemma handle_response_parsed:
  assumes "response_ok r" and "status r \<noteq> 204" and "status r \<noteq> 202" and "text_of r \<noteq> []"
    and "parse (text_of r) = Some v"
  shows "handle_response parse r = Inr (Some v)"
  using assms by (auto simp: handle_response_def response_ok_def)

lemma handle_response_no_body:
  assumes "response_ok r" and "status r = 204 \<or> status r = 202 \<or> text_of r = []"
  shows "handle_response parse r = Inr None"
  using assms by (auto simp: handle_response_def response_ok_def)

text \<open>
  Claim C9, as stated, at a 200 response with an empty body: \<^verbatim>\<open>getScheduledSend\<close>
  throws a \<^verbatim>\<open>TypeError\<close>; it does not return undefined.
\<close>

theorem getScheduledSend_empty_body_throws:
  "snd (getScheduledSend
          (fixed_upstream (Some ''SG.key'') \<lparr>status = 200, retry_after = None, text_of = []\<rparr> [])
          ''batch1'')
     = Inl TypeError"
  by (simp add: getScheduledSend_def snd_and_then_Inr snd_request_fixed handle_response_def
        response_ok_def)

text \<open>
  Claim C9, amended. When the upstream answers 2xx with a body that parses to the
  empty array, \<^verbatim>\<open>getScheduledSend\<close> returns undefined: index 0 is read without a
  guard. When the upstream answers 2xx with an empty body, or with 202 or 204, the
  executor returns undefined and reading its index 0 throws a \<^verbatim>\<open>TypeError\<close>.
\<close>

theorem getScheduledSend_unguarded_index:
  assumes "validateCredentials c" and "fetch c = always (Some r)" and "response_ok r"
  shows "(status r \<noteq> 204 \<and> status r \<noteq> 202 \<and> text_of r \<noteq> []
            \<and> json_parse c (text_of r) = Some (JArr [])
          \<longrightarrow> snd (getScheduledSend c batchId) = Inr None)
       \<and> (status r = 204 \<or> status r = 202 \<or> text_of r = []
          \<longrightarrow> snd (getScheduledSend c batchId) = Inl TypeError)"
proof -
  have req: "snd (request c p q m b) = handle_response (json_parse c) r" for p q m b
    using assms(1,2) by (rule snd_request_fixed)
  have "snd (getScheduledSend c batchId) = Inr None"
    if "status r \<noteq> 204 \<and> status r \<noteq> 202 \<and> text_of r \<noteq> []
          \<and> json_parse c (text_of r) = Some (JArr [])"
    using assms(3) that
    by (simp add: getScheduledSend_def and_then_def req handle_response_parsed)
  moreover have "snd (getScheduledSend c batchId) = Inl TypeError"
    if "status r = 204 \<or> status r = 202 \<or> text_of r = []"
    using assms(3) that
    by (simp add: getScheduledSend_def and_then_def req handle_response_no_body)
  ultimately show ?thesis by blast
qed

theorem getScheduledSend_unguarded_index_witness:
  "validateCredentials (fixed_upstream (Some ''SG.key'') \<lparr>status = 200, retry_after = None, text_of = ''[]''\<rparr>
                          [(''[]'', JArr [])])
   \<and> fetch (fixed_upstream (Some ''SG.key'') \<lparr>status = 200, retry_after = None, text_of = ''[]''\<rparr>
               [(''[]'', JArr [])])
       = always (Some \<lparr>status = 200, retry_after = None, text_of = ''[]''\<rparr>)
   \<and> response_ok \<lparr>status = 200, retry_after = None, text_of = ''[]''\<rparr>
   \<and> snd (getScheduledSend
            (fixed_upstream (Some ''SG.key'') \<lparr>status = 200, retry_after = None, text_of = ''[]''\<rparr>
               [(''[]'', JArr [])]) ''batch1'')
       = Inr None
   \<and> validateCredentials (fixed_upstream (Some ''SG.key'') \<lparr>status = 204, retry_after = None, text_of = []\<rparr> [])
   \<and> response_ok \<lparr>status = 204, retry_after = None, text_of = []\<rparr>
   \<and> snd (getScheduledSend
            (fixed_upstream (Some ''SG.key'') \<lparr>status = 204, retry_after = None, text_of = []\<rparr> [])
            ''batch1'')
       = Inl TypeError"
proof -
  let ?r = "\<lparr>status = 200, retry_after = None, text_of = ''[]''\<rparr>"
  let ?c = "fixed_upstream (Some ''SG.key'') ?r [(''[]'', JArr [])]"
  let ?s = "\<lparr>status = 204, retry_after = None, text_of = []\<rparr>"
  let ?d = "fixed_upstream (Some ''SG.key'') ?s []"
  have c1: "validateCredentials ?c" and c2: "fetch ?c = always (Some ?r)" and c3: "response_ok ?r"
    by (simp_all add: response_ok_def)
  have d1: "validateCredentials ?d" and d2: "fetch ?d = always (Some ?s)" and d3: "response_ok ?s"
    by (simp_all add: response_ok_def)
  have "snd (getScheduledSend ?c ''batch1'') = Inr None"
    using getScheduledSend_unguarded_index [OF c1 c2 c3, of "''batch1''"] by simp
  moreover have "snd (getScheduledSend ?d ''batch1'') = Inl TypeError"
    using getScheduledSend_unguarded_index [OF d1 d2 d3, of "''batch1''"] by simp
  ultimately show ?thesis using c1 c2 c3 d1 d3 by (intro conjI)
qed

section \<open>Bulk delete tools\<close>

text \<open>
  Claim C6, as stated, at \<^verbatim>\<open>sendgrid_delete_blocks\<close> called with neither \<^verbatim>\<open>emails\<close> nor
  \<^verbatim>\<open>deleteAll\<close>: nothing is sent and the response is an error, but its message is not
  the one with \<^verbatim>\<open>must be provided\<close>.
\<close>

theorem delete_blocks_guard_message:
  "sendgrid_delete_blocks plain_errors
     (fixed_upstream (Some ''SG.key'') \<lparr>status = 204, retry_after = None, text_of = []\<rparr> [])
     None None
     = ([], \<lparr>payload = JObj [(''error'', JStr ''Either emails or deleteAll required'')],
             isError = Some True\<rparr>)
   \<and> JStr ''Either emails or deleteAll required''
       \<noteq> JStr ''Either emails or deleteAll must be provided''"
  by (simp add: sendgrid_delete_blocks_def json_object_def)

text \<open>
  Claim C6, amended. A bulk delete tool called with neither the array of ids or emails
  nor a true \<^verbatim>\<open>deleteAll\<close> sends no request and returns an error response whose
  payload is \<^verbatim>\<open>{ error: message }\<close>. The message is
  \<^verbatim>\<open>Either ids or deleteAll must be provided\<close> for contacts,
  \<^verbatim>\<open>Either emails or deleteAll must be provided\<close> for bounces, and
  \<^verbatim>\<open>Either emails or deleteAll required\<close> for blocks, spam reports and invalid emails.
\<close>

theorem bulk_delete_guard:
  assumes "deleteAll \<noteq> Some True"
  shows "sendgrid_delete_contacts es c None deleteAll
           = ([], \<lparr>payload = JObj [(''error'', JStr ''Either ids or deleteAll must be provided'')],
                   isError = Some True\<rparr>)
       \<and> sendgrid_delete_bounces es c None deleteAll
           = ([], \<lparr>payload = JObj [(''error'', JStr ''Either emails or deleteAll must be provided'')],
                   isError = Some True\<rparr>)
       \<and> sendgrid_delete_blocks es c None deleteAll
           = ([], \<lparr>payload = JObj [(''error'', JStr ''Either emails or deleteAll required'')],
                   isError = Some True\<rparr>)
       \<and> sendgrid_delete_spam_reports es c None deleteAll
           = ([], \<lparr>payload = JObj [(''error'', JStr ''Either emails or deleteAll required'')],
                   isError = Some True\<rparr>)
       \<and> sendgrid_delete_invalid_emails es c None deleteAll
           = ([], \<lparr>payload = JObj [(''error'', JStr ''Either emails or deleteAll required'')],
                   isError = Some True\<rparr>)"
  using assms
  by (simp add: sendgrid_delete_contacts_def sendgrid_delete_bounces_def sendgrid_delete_blocks_def
        sendgrid_delete_spam_reports_def sendgrid_delete_invalid_emails_def json_object_def)

theorem bulk_delete_guard_witness:
  "(None :: bool option) \<noteq> Some True
   \<and> fst (sendgrid_delete_bounces plain_errors
            (fixed_upstream (Some ''SG.key'') \<lparr>status = 204, retry_after = None, text_of = []\<rparr> [])
            None None) = []
   \<and> isError (snd (sendgrid_delete_contacts plain_errors
            (fixed_upstream (Some ''SG.key'') \<lparr>status = 204, retry_after = None, text_of = []\<rparr> [])
            None None)) = Some True"
proof -
  have flag: "(None :: bool option) \<noteq> Some True"
    by simp
  note guard = bulk_delete_guard [OF flag, of plain_errors
      "fixed_upstream (Some ''SG.key'') \<lparr>status = 204, retry_after = None, text_of = []\<rparr> []"]
  from guard flag show ?thesis
    by (elim conjE) (simp only: fst_conv snd_conv tool_response.simps simp_thms)
qed

section \<open>Field names of outbound payloads\<close>

text \<open>
  Claim C3 at \<^verbatim>\<open>inviteTeammate\<close> with \<^verbatim>\<open>isAdmin: true\<close>. The input is serialised under
  its own property names: the request body carries the key \<^verbatim>\<open>isAdmin\<close>, which is not
  lower-snake-case, where \<^verbatim>\<open>updateTeammatePermissions\<close> sends \<^verbatim>\<open>is_admin\<close>. Likewise
  \<^verbatim>\<open>sendEmail\<close> sends a \<^verbatim>\<open>SendEmailInput\<close> with a \<^verbatim>\<open>templateId\<close> under that name.
\<close>

theorem inviteTeammate_sends_camel_case_key:
  "map body (fst (inviteTeammate
      (fixed_upstream (Some ''SG.key'') \<lparr>status = 201, retry_after = None, text_of = ''{}''\<rparr>
         [(''{}'', JObj [])])
      \<lparr>email = ''a@example.com'', scopes = [''mail.send''], isAdmin = Some True\<rparr>))
     = [Some (JObj [(''email'', JStr ''a@example.com''),
                    (''scopes'', JArr [JStr ''mail.send'']),
                    (''isAdmin'', JBool True)])]
   \<and> \<not> lower_snake_case ''isAdmin'' \<and> camel_style ''isAdmin''
   \<and> map (map_option keys_of \<circ> body) (fst (updateTeammatePermissions
      (fixed_upstream (Some ''SG.key'') \<lparr>status = 200, retry_after = None, text_of = ''{}''\<rparr>
         [(''{}'', JObj [])])
      ''teammate1'' [''mail.send''] (Some True)))
     = [Some [''scopes'', ''is_admin'']]
   \<and> lower_snake_case ''is_admin''
   \<and> map body (fst (sendEmail
      (fixed_upstream (Some ''SG.key'') \<lparr>status = 202, retry_after = None, text_of = []\<rparr> [])
      (JObj [(''personalizations'', JArr [JObj [(''to'', JArr [JObj [(''email'', JStr ''a@example.com'')]])]]),
             (''from'', JObj [(''email'', JStr ''b@example.com'')]),
             (''templateId'', JStr ''d-1'')])))
     = [Some (JObj [(''personalizations'', JArr [JObj [(''to'', JArr [JObj [(''email'', JStr ''a@example.com'')]])]]),
                    (''from'', JObj [(''email'', JStr ''b@example.com'')]),
                    (''templateId'', JStr ''d-1'')])]
   \<and> \<not> lower_snake_case ''templateId''"
  by (simp add: inviteTeammate_def updateTeammatePermissions_def sendEmail_def fst_request TeammateInput_json_def
        json_object_def str_array_def lower_snake_case_def camel_style_def keys_of_def)

section \<open>Rate limits\<close>

lemma digit_cases:
  "d < (10::nat) \<Longrightarrow>
     d = 0 \<or> d = 1 \<or> d = 2 \<or> d = 3 \<or> d = 4 \<or> d = 5 \<or> d = 6 \<or> d = 7 \<or> d = 8 \<or> d = 9"
  by arith

lemma digit_char_props:
  assumes "d < 10"
  shows "is_digit (digit_char d)" and "digit_val (digit_char d) = int d"
    and "\<not> is_js_space (digit_char d)" and "digit_char d \<noteq> CHR ''-''" and "digit_char d \<noteq> CHR ''+''"
  using digit_cases [OF assms]
  by (elim disjE; simp add: digit_char_def is_digit_def digit_val_def is_js_space_def)+

lemma show_nat_digits: "list_all is_digit (show_nat n)"
proof (induction n rule: show_nat.induct)
  case (1 n)
  show ?case
  proof (cases "n < 10")
    case True
    then show ?thesis by (subst show_nat.simps) (simp add: digit_char_props)
  next
    case False
    with 1 show ?thesis by (subst show_nat.simps) (simp add: digit_char_props)
  qed
qed

lemma digits_value_snoc: "digits_value (ds @ [ch]) = 10 * digits_value ds + digit_val ch"
  by (simp add: digits_value_def)

lemma digits_value_show_nat: "digits_value (show_nat n) = int n"
proof (induction n rule: show_nat.induct)
  case (1 n)
  show ?case
  proof (cases "n < 10")
    case True
    then show ?thesis
      by (subst show_nat.simps) (simp add: digits_value_def digit_char_props)
  next
    case False
    with 1 have "digits_value (show_nat (n div 10)) = int (n div 10)" by simp
    with False show ?thesis
      by (subst show_nat.simps) (simp add: digits_value_snoc digit_char_props zdiv_int zmod_int)
  qed
qed

lemma show_nat_first: "\<exists>d rest. d < 10 \<and> show_nat n = digit_char d # rest"
proof (induction n rule: show_nat.induct)
  case (1 n)
  show ?case
  proof (cases "n < 10")
    case True
    then show ?thesis by (subst show_nat.simps) auto
  next
    case False
    with 1 obtain d rest where "d < 10" "show_nat (n div 10) = digit_char d # rest" by auto
    with False show ?thesis by (subst show_nat.simps) auto
  qed
qed

text \<open>
  The decimal text of a natural number up to \<open>2^53\<close> parses back to that number; beyond,
  to the nearest double.
\<close>

lemma parseInt_digits: "parseInt (show_nat n) = to_double (int n)"
proof -
  obtain d rest where d: "d < 10" and s: "show_nat n = digit_char d # rest"
    using show_nat_first by blast
  have all: "list_all is_digit (digit_char d # rest)"
    using show_nat_digits [of n] s by simp
  then have tw: "takeWhile is_digit rest = rest"
    by (simp add: list_all_iff)
  have "parseInt (digit_char d # rest) = to_double (digits_value (digit_char d # rest))"
    using d by (simp add: parseInt_def digit_char_props Let_def tw del: takeWhile_eq_all_conv)
  with s show ?thesis by (simp add: digits_value_show_nat [symmetric])
qed

lemma parseInt_show_nat: "n \<le> 2 ^ 53 \<Longrightarrow> parseInt (show_nat n) = Finite (int n)"
proof -
  assume "n \<le> 2 ^ 53"
  then have "int n \<le> 2 ^ 53" by (metis of_nat_le_iff of_nat_numeral of_nat_power)
  then have "\<bar>int n\<bar> \<le> 2 ^ 53" by simp
  then show ?thesis by (simp add: parseInt_digits to_double_exact)
qed

lemma show_nat_beyond: "show_nat 9007199254740993 = ''9007199254740993''"
  by (simp add: show_nat.simps digit_char_def)

lemma parseInt_beyond: "parseInt ''9007199254740993'' = Finite 9007199254740992"
proof -
  have "parseInt (show_nat 9007199254740993) = to_double (int 9007199254740993)"
    by (rule parseInt_digits)
  moreover have "to_double 9007199254740993 = Finite 9007199254740992"
    by (simp add: to_double_def round_double_def bit_count.simps Let_def)
  ultimately show ?thesis by (simp add: show_nat_beyond)
qed

text \<open>
  Claim C4, as stated, at a 429 response whose \<^verbatim>\<open>Retry-After\<close> header is present with
  the empty value: the retry-after is 60, and the header has no integer value.
\<close>

theorem rate_limit_empty_header:
  "handle_response (map_of []) \<lparr>status = 429, retry_after = Some [], text_of = []\<rparr>
     = Inl (RateLimitError ''Rate limit exceeded'' (Finite 60))
   \<and> claimed_retry_after \<lparr>status = 429, retry_after = Some [], text_of = []\<rparr> = NaN"
  by (simp add: handle_response_def claimed_retry_after_def parseInt_def)

text \<open>
  Claim C4, amended. A response with status 429 raises a \<^verbatim>\<open>RateLimitError\<close> whose
  retry-after is \<^verbatim>\<open>parseInt\<close> of the \<^verbatim>\<open>Retry-After\<close> header when the header is present
  and not empty, and 60 when the header is absent or empty. For a header that is the
  decimal text of a natural number \<open>n\<close> the retry-after is the double nearest to \<open>n\<close>,
  which is \<open>n\<close> itself up to \<open>2^53\<close>. No other status raises a \<^verbatim>\<open>RateLimitError\<close>.
\<close>

theorem rate_limit_retry_after:
  "(status r = 429 \<longrightarrow>
      handle_response parse r
        = Inl (RateLimitError ''Rate limit exceeded''
                 (if retry_after r = None \<or> retry_after r = Some [] then Finite 60
                  else claimed_retry_after r)))
   \<and> (status r = 429 \<and> retry_after r = Some (show_nat n) \<longrightarrow>
        handle_response parse r = Inl (RateLimitError ''Rate limit exceeded'' (to_double (int n))))
   \<and> (status r = 429 \<and> retry_after r = Some (show_nat n) \<and> n \<le> 2 ^ 53 \<longrightarrow>
        handle_response parse r = Inl (RateLimitError ''Rate limit exceeded'' (Finite (int n))))
   \<and> (handle_response parse r = Inl (RateLimitError msg secs) \<longrightarrow> status r = 429)"
proof (intro conjI impI)
  assume "status r = 429"
  then show "handle_response parse r
        = Inl (RateLimitError ''Rate limit exceeded''
                 (if retry_after r = None \<or> retry_after r = Some [] then Finite 60
                  else claimed_retry_after r))"
    by (simp add: handle_response_def claimed_retry_after_def split: option.splits)
next
  assume a: "status r = 429 \<and> retry_after r = Some (show_nat n)"
  obtain d rest where "show_nat n = digit_char d # rest"
    using show_nat_first by blast
  then have "show_nat n \<noteq> []" by simp
  with a show "handle_response parse r
        = Inl (RateLimitError ''Rate limit exceeded'' (to_double (int n)))"
    by (simp add: handle_response_def parseInt_digits)
next
  assume a: "status r = 429 \<and> retry_after r = Some (show_nat n) \<and> n \<le> 2 ^ 53"
  obtain d rest where "show_nat n = digit_char d # rest"
    using show_nat_first by blast
  then have "show_nat n \<noteq> []" by simp
  with a show "handle_response parse r = Inl (RateLimitError ''Rate limit exceeded'' (Finite (int n)))"
    by (simp add: handle_response_def parseInt_show_nat)
next
  assume "handle_response parse r = Inl (RateLimitError msg secs)"
  then show "status r = 429"
    by (simp add: handle_response_def split: if_splits option.splits)
qed

theorem rate_limit_retry_after_witness:
  "status \<lparr>status = 429, retry_after = Some ''120'', text_of = []\<rparr> = 429
   \<and> retry_after \<lparr>status = 429, retry_after = Some ''120'', text_of = []\<rparr> = Some (show_nat 120)
   \<and> (120 :: nat) \<le> 2 ^ 53
   \<and> handle_response (map_of []) \<lparr>status = 429, retry_after = Some ''120'', text_of = []\<rparr>
       = Inl (RateLimitError ''Rate limit exceeded'' (Finite 120))
   \<and> retry_after \<lparr>status = 429, retry_after = Some ''9007199254740993'', text_of = []\<rparr>
       = Some (show_nat 9007199254740993)
   \<and> handle_response (map_of []) \<lparr>status = 429, retry_after = Some ''9007199254740993'', text_of = []\<rparr>
       = Inl (RateLimitError ''Rate limit exceeded'' (Finite 9007199254740992))"
proof -
  let ?r = "\<lparr>status = 429, retry_after = Some ''120'', text_of = []\<rparr>"
  let ?s = "\<lparr>status = 429, retry_after = Some ''9007199254740993'', text_of = []\<rparr>"
  have st: "status ?r = 429" and st': "status ?s = 429" by simp_all
  have dec: "show_nat 120 = ''120''" by (simp add: show_nat.simps digit_char_def)
  then have hdr: "retry_after ?r = Some (show_nat 120)" by simp
  have small: "(120 :: nat) \<le> 2 ^ 53" by simp
  have hdr': "retry_after ?s = Some (show_nat 9007199254740993)"
    by (simp add: show_nat_beyond)
  have near: "to_double (int 9007199254740993) = Finite 9007199254740992"
    by (simp add: to_double_def round_double_def bit_count.simps Let_def)
  from rate_limit_retry_after [of ?r "map_of []" 120] st hdr small
  have one: "handle_response (map_of []) ?r = Inl (RateLimitError ''Rate limit exceeded'' (Finite (int 120)))"
    by blast
  from rate_limit_retry_after [of ?s "map_of []" 9007199254740993] st' hdr'
  have "handle_response (map_of []) ?s
          = Inl (RateLimitError ''Rate limit exceeded'' (to_double (int 9007199254740993)))"
    by blast
  with near have two: "handle_response (map_of []) ?s
          = Inl (RateLimitError ''Rate limit exceeded'' (Finite 9007199254740992))"
    by simp
  from st hdr small one hdr' two show ?thesis by simp
qed

section \<open>Generic API errors\<close>

lemma error_message_refines:
  "error_message parse r
     = (if message_usable parse r then claimed_error_message parse r
        else JStr (''API error: '' @ show_int (status r)))"
proof (cases "parse (text_of r)")
  case None
  then show ?thesis
    by (simp add: error_message_def message_usable_def claimed_error_message_def)
next
  case (Some j)
  show ?thesis
  proof (cases "j = JNull")
    case True
    with Some show ?thesis
      by (simp add: error_message_def message_usable_def claimed_error_message_def)
  next
    case False
    with Some show ?thesis
      by (simp add: error_message_def message_usable_def claimed_error_message_def Let_def
            split: option.splits json.splits sum.splits)
  qed
qed

text \<open>The status codes of the examples below, as \<^verbatim>\<open>String\<close> prints them.\<close>

lemma show_int_400: "show_int 400 = ''400''"
  by (simp add: show_int_def to_double_exact double_text_def round_double_exact
        show_nat.simps digit_char_def Let_def)

lemma show_int_500: "show_int 500 = ''500''"
  by (simp add: show_int_def to_double_exact double_text_def round_double_exact
        show_nat.simps digit_char_def Let_def)

text \<open>
  Claim C5, as stated, at a 500 response whose body is an object with an empty
  top-level \<^verbatim>\<open>message\<close>: the error carries \<^verbatim>\<open>API error: 500\<close>, not that field.
\<close>

theorem generic_error_empty_message:
  \<open>handle_response (map_of [(''{"message":""}'', JObj [(''message'', JStr [])])])
     \<lparr>status = 500, retry_after = None, text_of = ''{"message":""}''\<rparr>
     = Inl (SendGridApiError (JStr ''API error: 500'') 500)
   \<and> claimed_error_message (map_of [(''{"message":""}'', JObj [(''message'', JStr [])])])
       \<lparr>status = 500, retry_after = None, text_of = ''{"message":""}''\<rparr>
     = JStr []\<close>
  by (simp add: handle_response_def response_ok_def error_message_def claimed_error_message_def
        show_int_500)

text \<open>
  Claim C5, amended. A response whose status is not 2xx, 429, 401 or 403 raises a
  generic API error carrying the status. Its message is the one the specification
  states (the \<^verbatim>\<open>message\<close> fields of the \<^verbatim>\<open>errors\<close> entries joined with a comma and a
  space; else the top-level \<^verbatim>\<open>message\<close>; else \<^verbatim>\<open>API error: <status>\<close>), except that
  a null entry in \<^verbatim>\<open>errors\<close>, an entry whose \<^verbatim>\<open>message\<close> has no string form (an
  object with a \<^verbatim>\<open>toString\<close> member of its own, also inside an array), or a top-level
  \<^verbatim>\<open>message\<close> that is null, false, 0 or empty, gives \<^verbatim>\<open>API error: <status>\<close>.
\<close>

theorem generic_api_error_message:
  assumes "\<not> response_ok r" and "status r \<noteq> 429" and "status r \<noteq> 401" and "status r \<noteq> 403"
  shows "handle_response parse r
           = Inl (SendGridApiError
                    (if message_usable parse r then claimed_error_message parse r
                     else JStr (''API error: '' @ show_int (status r)))
                    (status r))"
  using assms by (simp add: handle_response_def error_message_refines)

theorem generic_api_error_message_witness:
  \<open>\<not> response_ok \<lparr>status = 400, retry_after = None,
                     text_of = ''{"errors":[{"message":"bad to"},{"message":"bad from"}]}''\<rparr>
   \<and> handle_response
        (map_of [(''{"errors":[{"message":"bad to"},{"message":"bad from"}]}'',
                  JObj [(''errors'', JArr [JObj [(''message'', JStr ''bad to'')],
                                          JObj [(''message'', JStr ''bad from'')]])])])
        \<lparr>status = 400, retry_after = None,
          text_of = ''{"errors":[{"message":"bad to"},{"message":"bad from"}]}''\<rparr>
       = Inl (SendGridApiError (JStr ''bad to, bad from'') 400)
   \<and> \<not> response_ok \<lparr>status = 400, retry_after = None,
                       text_of = ''{"errors":[{"message":{"toString":1}}]}''\<rparr>
   \<and> handle_response
        (map_of [(''{"errors":[{"message":{"toString":1}}]}'',
                  JObj [(''errors'', JArr [JObj [(''message'', JObj [(''toString'', JNum 1)])]])])])
        \<lparr>status = 400, retry_after = None, text_of = ''{"errors":[{"message":{"toString":1}}]}''\<rparr>
       = Inl (SendGridApiError (JStr ''API error: 400'') 400)\<close>
proof -
  let ?r = \<open>\<lparr>status = 400, retry_after = None,
              text_of = ''{"errors":[{"message":"bad to"},{"message":"bad from"}]}''\<rparr>\<close>
  let ?parse = \<open>map_of [(''{"errors":[{"message":"bad to"},{"message":"bad from"}]}'',
                  JObj [(''errors'', JArr [JObj [(''message'', JStr ''bad to'')],
                                          JObj [(''message'', JStr ''bad from'')]])])]\<close>
  let ?s = \<open>\<lparr>status = 400, retry_after = None, text_of = ''{"errors":[{"message":{"toString":1}}]}''\<rparr>\<close>
  let ?parse' = \<open>map_of [(''{"errors":[{"message":{"toString":1}}]}'',
                  JObj [(''errors'', JArr [JObj [(''message'', JObj [(''toString'', JNum 1)])]])])]\<close>
  have nok: "\<not> response_ok ?r" and s1: "status ?r \<noteq> 429" and s2: "status ?r \<noteq> 401"
    and s3: "status ?r \<noteq> 403"
    by (simp_all add: response_ok_def)
  have nok': "\<not> response_ok ?s" and s1': "status ?s \<noteq> 429" and s2': "status ?s \<noteq> 401"
    and s3': "status ?s \<noteq> 403"
    by (simp_all add: response_ok_def)
  have usable: "message_usable ?parse ?r"
    by (simp add: message_usable_def)
  have claimed: "claimed_error_message ?parse ?r = JStr ''bad to, bad from''"
    by (simp add: claimed_error_message_def)
  have unusable: "\<not> message_usable ?parse' ?s"
    by (simp add: message_usable_def)
  from generic_api_error_message [OF nok s1 s2 s3, of ?parse] usable claimed
  have one: "handle_response ?parse ?r = Inl (SendGridApiError (JStr ''bad to, bad from'') 400)"
    by simp
  from generic_api_error_message [OF nok' s1' s2' s3', of ?parse'] unusable
  have two: "handle_response ?parse' ?s = Inl (SendGridApiError (JStr ''API error: 400'') 400)"
    by (simp add: show_int_400)
  from nok one nok' two show ?thesis by simp
qed

section \<open>Paginated results\<close>

text \<open>
  The two fields \<^verbatim>\<open>items: v || []\<close> and \<^verbatim>\<open>count: v?.length || 0\<close> of one value
  \<open>v\<close>: the count is \<^verbatim>\<open>items.length || 0\<close>, whatever \<open>v\<close> is.
\<close>

lemma count_of_items:
  "or_else (opt_get v ''length'') (JNum 0)
     = or_else (get_json (or_else v (JArr [])) ''length'') (JNum 0)"
proof (cases v)
  case None
  then show ?thesis by simp
next
  case (Some j)
  then show ?thesis by (cases j) simp_all
qed

text \<open>When the items are an array, \<^verbatim>\<open>items.length || 0\<close> is the number of items.\<close>

lemma length_of_array:
  "or_else (get_json (JArr xs) ''length'') (JNum 0) = JNum (int (length xs))"
  by simp

lemma listContacts_items:
  "(snd (listContacts c tok) = Inr p \<longrightarrow>
      count p = or_else (get_json (items p) ''length'') (JNum 0)
      \<and> (\<exists>v. returned c (fst (listContacts c tok)) v
             \<and> items p = or_else (opt_get v ''result'') (JArr [])))"
  by (auto simp: listContacts_def snd_and_then_eq_Inr returned_request count_of_items split: if_splits)

lemma searchContacts_items:
  "(snd (searchContacts c q) = Inr p \<longrightarrow>
      count p = or_else (get_json (items p) ''length'') (JNum 0)
      \<and> (\<exists>v. returned c (fst (searchContacts c q)) v
             \<and> items p = or_else (opt_get v ''result'') (JArr [])))"
  by (auto simp: searchContacts_def snd_and_then_eq_Inr returned_request count_of_items split: if_splits)

lemma listContactLists_items:
  "(snd (listContactLists c) = Inr p \<longrightarrow>
      count p = or_else (get_json (items p) ''length'') (JNum 0)
      \<and> (\<exists>v. returned c (fst (listContactLists c)) v
             \<and> items p = or_else (opt_get v ''result'') (JArr [])))"
  by (auto simp: listContactLists_def snd_and_then_eq_Inr returned_request count_of_items split: if_splits)

lemma listSegments_items:
  "(snd (listSegments c ids) = Inr p \<longrightarrow>
      count p = or_else (get_json (items p) ''length'') (JNum 0)
      \<and> (\<exists>v. returned c (fst (listSegments c ids)) v
             \<and> items p = or_else (opt_get v ''results'') (JArr [])))"
  by (auto simp: listSegments_def snd_and_then_eq_Inr returned_request count_of_items split: if_splits)

lemma listTemplates_items:
  "(snd (listTemplates c g ps tok) = Inr p \<longrightarrow>
      count p = or_else (get_json (items p) ''length'') (JNum 0)
      \<and> (\<exists>v. returned c (fst (listTemplates c g ps tok)) v
             \<and> items p = or_else (opt_get v ''result'') (JArr [])))"
  by (auto simp: listTemplates_def snd_and_then_eq_Inr returned_request count_of_items split: if_splits)

lemma listSingleSends_items:
  "(snd (listSingleSends c sf) = Inr p \<longrightarrow>
      count p = or_else (get_json (items p) ''length'') (JNum 0)
      \<and> (\<exists>v. returned c (fst (listSingleSends c sf)) v
             \<and> items p = or_else (opt_get v ''result'') (JArr [])))"
  by (auto simp: listSingleSends_def snd_and_then_eq_Inr returned_request count_of_items split: if_splits)

lemma listSenderIdentities_items:
  "(snd (listSenderIdentities c) = Inr p \<longrightarrow>
      count p = or_else (get_json (items p) ''length'') (JNum 0)
      \<and> (\<exists>v. returned c (fst (listSenderIdentities c)) v
             \<and> items p = or_else (v) (JArr [])))"
  by (auto simp: listSenderIdentities_def snd_and_then_eq_Inr returned_request count_of_items)

lemma listBounces_items:
  "(snd (listBounces c st et lim off) = Inr p \<longrightarrow>
      count p = or_else (get_json (items p) ''length'') (JNum 0)
      \<and> (\<exists>v. returned c (fst (listBounces c st et lim off)) v
             \<and> items p = or_else (v) (JArr [])))"
  by (auto simp: listBounces_def snd_and_then_eq_Inr returned_request count_of_items)

lemma listBlocks_items:
  "(snd (listBlocks c st et lim off) = Inr p \<longrightarrow>
      count p = or_else (get_json (items p) ''length'') (JNum 0)
      \<and> (\<exists>v. returned c (fst (listBlocks c st et lim off)) v
             \<and> items p = or_else (v) (JArr [])))"
  by (auto simp: listBlocks_def snd_and_then_eq_Inr returned_request count_of_items)

lemma listSpamReports_items:
  "(snd (listSpamReports c st et lim off) = Inr p \<longrightarrow>
      count p = or_else (get_json (items p) ''length'') (JNum 0)
      \<and> (\<exists>v. returned c (fst (listSpamReports c st et lim off)) v
             \<and> items p = or_else (v) (JArr [])))"
  by (auto simp: listSpamReports_def snd_and_then_eq_Inr returned_request count_of_items)

lemma listInvalidEmails_items:
  "(snd (listInvalidEmails c st et lim off) = Inr p \<longrightarrow>
      count p = or_else (get_json (items p) ''length'') (JNum 0)
      \<and> (\<exists>v. returned c (fst (listInvalidEmails c st et lim off)) v
             \<and> items p = or_else (v) (JArr [])))"
  by (auto simp: listInvalidEmails_def snd_and_then_eq_Inr returned_request count_of_items)

lemma listGlobalSuppressions_items:
  "(snd (listGlobalSuppressions c st et lim off) = Inr p \<longrightarrow>
      count p = or_else (get_json (items p) ''length'') (JNum 0)
      \<and> (\<exists>v. returned c (fst (listGlobalSuppressions c st et lim off)) v
             \<and> items p = or_else (v) (JArr [])))"
  by (auto simp: listGlobalSuppressions_def snd_and_then_eq_Inr returned_request count_of_items)

lemma listApiKeys_items:
  "(snd (listApiKeys c) = Inr p \<longrightarrow>
      count p = or_else (get_json (items p) ''length'') (JNum 0)
      \<and> (\<exists>v. returned c (fst (listApiKeys c)) v
             \<and> items p = or_else (opt_get v ''result'') (JArr [])))"
  by (auto simp: listApiKeys_def snd_and_then_eq_Inr returned_request count_of_items split: if_splits)

lemma listDesigns_items:
  "(snd (listDesigns c ps tok) = Inr p \<longrightarrow>
      count p = or_else (get_json (items p) ''length'') (JNum 0)
      \<and> (\<exists>v. returned c (fst (listDesigns c ps tok)) v
             \<and> items p = or_else (opt_get v ''result'') (JArr [])))"
  by (auto simp: listDesigns_def snd_and_then_eq_Inr returned_request count_of_items split: if_splits)

text \<open>
  Claim C7, as stated, at the upstream body \<^verbatim>\<open>{"result":7}\<close>: the paginated result of
  \<^verbatim>\<open>listContacts\<close> has the items 7, which have no length, and the count 0.
\<close>

theorem listContacts_items_without_length:
  \<open>snd (listContacts (fixed_upstream (Some ''SG.key'')
                         \<lparr>status = 200, retry_after = None, text_of = ''{"result":7}''\<rparr>
                         [(''{"result":7}'', JObj [(''result'', JNum 7)])]) None)
     = Inr \<lparr>items = JNum 7, count = JNum 0, total = None, hasMore = False, nextPageToken = None\<rparr>
   \<and> get_json (JNum 7) ''length'' = None\<close>
  by (simp add: listContacts_def snd_and_then_Inr snd_request_fixed handle_response_def response_ok_def)

text \<open>
  Claim C7, amended. Every paginated result a client operation returns has the count
  \<^verbatim>\<open>items.length || 0\<close>, and its items are the upstream's result, or the empty array
  when that result is missing, null, false, 0 or empty: the \<^verbatim>\<open>result\<close> member of the
  parsed body (\<^verbatim>\<open>results\<close> for segments), or the parsed body itself for the sender
  identities and the suppression lists. So the count is the number of items whenever
  the items are an array, and 0 when the upstream's result is a value without a
  length. The fourteen operations returning a paginated result are listed.
\<close>

theorem paginated_count_is_length:
  "(snd (listContacts c tok) = Inr p \<longrightarrow>
       count p = or_else (get_json (items p) ''length'') (JNum 0)
       \<and> (\<exists>v. returned c (fst (listContacts c tok)) v
              \<and> items p = or_else (opt_get v ''result'') (JArr [])))
   \<and> (snd (searchContacts c q) = Inr p \<longrightarrow>
       count p = or_else (get_json (items p) ''length'') (JNum 0)
       \<and> (\<exists>v. returned c (fst (searchContacts c q)) v
              \<and> items p = or_else (opt_get v ''result'') (JArr [])))
   \<and> (snd (listContactLists c) = Inr p \<longrightarrow>
       count p = or_else (get_json (items p) ''length'') (JNum 0)
       \<and> (\<exists>v. returned c (fst (listContactLists c)) v
              \<and> items p = or_else (opt_get v ''result'') (JArr [])))
   \<and> (snd (listSegments c ids) = Inr p \<longrightarrow>
       count p = or_else (get_json (items p) ''length'') (JNum 0)
       \<and> (\<exists>v. returned c (fst (listSegments c ids)) v
              \<and> items p = or_else (opt_get v ''results'') (JArr [])))
   \<and> (snd (listTemplates c g ps tok) = Inr p \<longrightarrow>
       count p = or_else (get_json (items p) ''length'') (JNum 0)
       \<and> (\<exists>v. returned c (fst (listTemplates c g ps tok)) v
              \<and> items p = or_else (opt_get v ''result'') (JArr [])))
   \<and> (snd (listSingleSends c sf) = Inr p \<longrightarrow>
       count p = or_else (get_json (items p) ''length'') (JNum 0)
       \<and> (\<exists>v. returned c (fst (listSingleSends c sf)) v
              \<and> items p = or_else (opt_get v ''result'') (JArr [])))
   \<and> (snd (listSenderIdentities c) = Inr p \<longrightarrow>
       count p = or_else (get_json (items p) ''length'') (JNum 0)
       \<and> (\<exists>v. returned c (fst (listSenderIdentities c)) v
              \<and> items p = or_else (v) (JArr [])))
   \<and> (snd (listBounces c st et lim off) = Inr p \<longrightarrow>
       count p = or_else (get_json (items p) ''length'') (JNum 0)
       \<and> (\<exists>v. returned c (fst (listBounces c st et lim off)) v
              \<and> items p = or_else (v) (JArr [])))
   \<and> (snd (listBlocks c st et lim off) = Inr p \<longrightarrow>
       count p = or_else (get_json (items p) ''length'') (JNum 0)
       \<and> (\<exists>v. returned c (fst (listBlocks c st et lim off)) v
              \<and> items p = or_else (v) (JArr [])))
   \<and> (snd (listSpamReports c st et lim off) = Inr p \<longrightarrow>
       count p = or_else (get_json (items p) ''length'') (JNum 0)
       \<and> (\<exists>v. returned c (fst (listSpamReports c st et lim off)) v
              \<and> items p = or_else (v) (JArr [])))
   \<and> (snd (listInvalidEmails c st et lim off) = Inr p \<longrightarrow>
       count p = or_else (get_json (items p) ''length'') (JNum 0)
       \<and> (\<exists>v. returned c (fst (listInvalidEmails c st et lim off)) v
              \<and> items p = or_else (v) (JArr [])))
   \<and> (snd (listGlobalSuppressions c st et lim off) = Inr p \<longrightarrow>
       count p = or_else (get_json (items p) ''length'') (JNum 0)
       \<and> (\<exists>v. returned c (fst (listGlobalSuppressions c st et lim off)) v
              \<and> items p = or_else (v) (JArr [])))
   \<and> (snd (listApiKeys c) = Inr p \<longrightarrow>
       count p = or_else (get_json (items p) ''length'') (JNum 0)
       \<and> (\<exists>v. returned c (fst (listApiKeys c)) v
              \<and> items p = or_else (opt_get v ''result'') (JArr [])))
   \<and> (snd (listDesigns c ps tok) = Inr p \<longrightarrow>
       count p = or_else (get_json (items p) ''length'') (JNum 0)
       \<and> (\<exists>v. returned c (fst (listDesigns c ps tok)) v
              \<and> items p = or_else (opt_get v ''result'') (JArr [])))
   \<and> (items p = JArr xs \<longrightarrow>
        or_else (get_json (items p) ''length'') (JNum 0) = JNum (int (length xs)))"
  by (intro conjI listContacts_items searchContacts_items listContactLists_items listSegments_items
        listTemplates_items listSingleSends_items listSenderIdentities_items listBounces_items
        listBlocks_items listSpamReports_items listInvalidEmails_items listGlobalSuppressions_items
        listApiKeys_items listDesigns_items)
     simp

theorem paginated_count_is_length_witness:
  \<open>snd (listContacts (fixed_upstream (Some ''SG.key'')
                         \<lparr>status = 200, retry_after = None, text_of = ''{"result":[1,2]}''\<rparr>
                         [(''{"result":[1,2]}'', JObj [(''result'', JArr [JNum 1, JNum 2])])]) None)
     = Inr \<lparr>items = JArr [JNum 1, JNum 2], count = JNum 2, total = None, hasMore = False,
            nextPageToken = None\<rparr>
   \<and> count \<lparr>items = JArr [JNum 1, JNum 2], count = JNum 2, total = None, hasMore = False,
              nextPageToken = None\<rparr>
       = or_else (get_json (JArr [JNum 1, JNum 2]) ''length'') (JNum 0)
   \<and> or_else (get_json (JArr [JNum 1, JNum 2]) ''length'') (JNum 0) = JNum 2
   \<and> snd (listBounces (fixed_upstream (Some ''SG.key'')
                          \<lparr>status = 200, retry_after = None, text_of = ''true''\<rparr>
                          [(''true'', JBool True)]) None None None None)
       = Inr \<lparr>items = JBool True, count = JNum 0, total = None, hasMore = False,
              nextPageToken = None\<rparr>
   \<and> count \<lparr>items = JBool True, count = JNum 0, total = None, hasMore = False,
              nextPageToken = None\<rparr>
       = or_else (get_json (JBool True) ''length'') (JNum 0)\<close>
proof -
  let ?c = \<open>fixed_upstream (Some ''SG.key'')
              \<lparr>status = 200, retry_after = None, text_of = ''{"result":[1,2]}''\<rparr>
              [(''{"result":[1,2]}'', JObj [(''result'', JArr [JNum 1, JNum 2])])]\<close>
  let ?p = "\<lparr>items = JArr [JNum 1, JNum 2], count = JNum 2, total = None, hasMore = False,
             nextPageToken = None\<rparr>"
  let ?d = "fixed_upstream (Some ''SG.key'')
              \<lparr>status = 200, retry_after = None, text_of = ''true''\<rparr> [(''true'', JBool True)]"
  let ?q = "\<lparr>items = JBool True, count = JNum 0, total = None, hasMore = False,
             nextPageToken = None\<rparr>"
  have run: "snd (listContacts ?c None) = Inr ?p"
    by (simp add: listContacts_def snd_and_then_Inr snd_request_fixed handle_response_def
          response_ok_def)
  have run': "snd (listBounces ?d None None None None) = Inr ?q"
    by (simp add: listBounces_def snd_and_then_Inr snd_request_fixed handle_response_def
          response_ok_def strict_eq_num_def dflt_arg_def)
  note all = paginated_count_is_length
  from all [of ?c None ?p, THEN conjunct1] run
  have one: "count ?p = or_else (get_json (items ?p) ''length'') (JNum 0)"
    by blast
  from all [of ?d None ?q, THEN conjunct2, THEN conjunct2, THEN conjunct2, THEN conjunct2,
            THEN conjunct2, THEN conjunct2, THEN conjunct2, THEN conjunct1,
            of None None None None] run'
  have two: "count ?q = or_else (get_json (items ?q) ''length'') (JNum 0)"
    by blast
  from all [of ?c None ?p, THEN conjunct2, THEN conjunct2, THEN conjunct2, THEN conjunct2,
            THEN conjunct2, THEN conjunct2, THEN conjunct2, THEN conjunct2, THEN conjunct2,
            THEN conjunct2, THEN conjunct2, THEN conjunct2, THEN conjunct2, THEN conjunct2,
            of "[JNum 1, JNum 2]"]
  have three: "or_else (get_json (items ?p) ''length'') (JNum 0) = JNum (int (length [JNum 1, JNum 2]))"
    by simp
  from run one three run' two show ?thesis by simp
qed

section \<open>Error propagation\<close>

text \<open>
  An operation without \<^verbatim>\<open>try\<close> ends in the error the executor raised on the request
  that this call of the operation sent. The lemmas take the operations in the order of
  the client's source.
\<close>

lemma raises_group_1:
  shows
    "raised c (fst (sendEmail c input)) e \<Longrightarrow> snd (sendEmail c input) = Inl e"
    "raised c (fst (listContacts c tok)) e \<Longrightarrow> snd (listContacts c tok) = Inl e"
    "raised c (fst (getContact c ident)) e \<Longrightarrow> snd (getContact c ident) = Inl e"
    "raised c (fst (addOrUpdateContacts c contacts listIds)) e \<Longrightarrow> snd (addOrUpdateContacts c contacts listIds) = Inl e"
    "raised c (fst (deleteContacts c ids flag)) e \<Longrightarrow> snd (deleteContacts c ids flag) = Inl e"
    "raised c (fst (searchContacts c q)) e \<Longrightarrow> snd (searchContacts c q) = Inl e"
    "raised c (fst (getContactCount c)) e \<Longrightarrow> snd (getContactCount c) = Inl e"
    "raised c (fst (listContactLists c)) e \<Longrightarrow> snd (listContactLists c) = Inl e"
    "raised c (fst (getContactList c ident)) e \<Longrightarrow> snd (getContactList c ident) = Inl e"
    "raised c (fst (createContactList c input)) e \<Longrightarrow> snd (createContactList c input) = Inl e"
    "raised c (fst (updateContactList c ident input)) e \<Longrightarrow> snd (updateContactList c ident input) = Inl e"
    "raised c (fst (deleteContactList c ident withContacts)) e \<Longrightarrow> snd (deleteContactList c ident withContacts) = Inl e"
  by (simp_all add: and_then_def raised_request raised_branch
        sendEmail_def listContacts_def getContact_def addOrUpdateContacts_def deleteContacts_def
        searchContacts_def getContactCount_def listContactLists_def getContactList_def
        createContactList_def updateContactList_def deleteContactList_def)

lemma raises_group_2:
  shows
    "raised c (fst (getContactListCount c ident)) e \<Longrightarrow> snd (getContactListCount c ident) = Inl e"
    "raised c (fst (addContactsToList c listId contactIds)) e \<Longrightarrow> snd (addContactsToList c listId contactIds) = Inl e"
    "raised c (fst (removeContactsFromList c listId contactIds)) e \<Longrightarrow> snd (removeContactsFromList c listId contactIds) = Inl e"
    "raised c (fst (listSegments c pids)) e \<Longrightarrow> snd (listSegments c pids) = Inl e"
    "raised c (fst (getSegment c ident)) e \<Longrightarrow> snd (getSegment c ident) = Inl e"
    "raised c (fst (createSegment c seg)) e \<Longrightarrow> snd (createSegment c seg) = Inl e"
    "raised c (fst (updateSegment c ident nm_opt qd)) e \<Longrightarrow> snd (updateSegment c ident nm_opt qd) = Inl e"
    "raised c (fst (deleteSegment c ident)) e \<Longrightarrow> snd (deleteSegment c ident) = Inl e"
    "raised c (fst (listCustomFields c)) e \<Longrightarrow> snd (listCustomFields c) = Inl e"
    "raised c (fst (createCustomField c nm fieldType)) e \<Longrightarrow> snd (createCustomField c nm fieldType) = Inl e"
    "raised c (fst (updateCustomField c ident nm)) e \<Longrightarrow> snd (updateCustomField c ident nm) = Inl e"
    "raised c (fst (deleteCustomField c ident)) e \<Longrightarrow> snd (deleteCustomField c ident) = Inl e"
  by (simp_all add: and_then_def raised_request raised_branch
        getContactListCount_def addContactsToList_def removeContactsFromList_def
        listSegments_def getSegment_def createSegment_def updateSegment_def deleteSegment_def
        listCustomFields_def createCustomField_def updateCustomField_def deleteCustomField_def)

lemma raises_group_3:
  shows
    "raised c (fst (listTemplates c gen ps tok)) e \<Longrightarrow> snd (listTemplates c gen ps tok) = Inl e"
    "raised c (fst (getTemplate c ident)) e \<Longrightarrow> snd (getTemplate c ident) = Inl e"
    "raised c (fst (createTemplate c input)) e \<Longrightarrow> snd (createTemplate c input) = Inl e"
    "raised c (fst (updateTemplate c ident nm)) e \<Longrightarrow> snd (updateTemplate c ident nm) = Inl e"
    "raised c (fst (deleteTemplate c ident)) e \<Longrightarrow> snd (deleteTemplate c ident) = Inl e"
    "raised c (fst (duplicateTemplate c ident nm_opt)) e \<Longrightarrow> snd (duplicateTemplate c ident nm_opt) = Inl e"
    "raised c (fst (createTemplateVersion c templateId nm subj htmlContent plainContent active editor generatePlainContent testData)) e \<Longrightarrow> snd (createTemplateVersion c templateId nm subj htmlContent plainContent active editor generatePlainContent testData) = Inl e"
    "raised c (fst (getTemplateVersion c templateId versionId)) e \<Longrightarrow> snd (getTemplateVersion c templateId versionId) = Inl e"
    "raised c (fst (updateTemplateVersion c templateId versionId nm_opt subj htmlContent plainContent active editor generatePlainContent)) e \<Longrightarrow> snd (updateTemplateVersion c templateId versionId nm_opt subj htmlContent plainContent active editor generatePlainContent) = Inl e"
    "raised c (fst (deleteTemplateVersion c templateId versionId)) e \<Longrightarrow> snd (deleteTemplateVersion c templateId versionId) = Inl e"
    "raised c (fst (activateTemplateVersion c templateId versionId)) e \<Longrightarrow> snd (activateTemplateVersion c templateId versionId) = Inl e"
    "raised c (fst (listSingleSends c sf)) e \<Longrightarrow> snd (listSingleSends c sf) = Inl e"
  by (simp_all add: and_then_def raised_request raised_branch
        listTemplates_def getTemplate_def createTemplate_def updateTemplate_def
        deleteTemplate_def duplicateTemplate_def createTemplateVersion_def
        getTemplateVersion_def updateTemplateVersion_def deleteTemplateVersion_def
        activateTemplateVersion_def listSingleSends_def)

lemma raises_group_4:
  shows
    "raised c (fst (getSingleSend c ident)) e \<Longrightarrow> snd (getSingleSend c ident) = Inl e"
    "raised c (fst (createSingleSend c input)) e \<Longrightarrow> snd (createSingleSend c input) = Inl e"
    "raised c (fst (updateSingleSend c ident input)) e \<Longrightarrow> snd (updateSingleSend c ident input) = Inl e"
    "raised c (fst (deleteSingleSend c ident)) e \<Longrightarrow> snd (deleteSingleSend c ident) = Inl e"
    "raised c (fst (scheduleSingleSend c ident sendAt)) e \<Longrightarrow> snd (scheduleSingleSend c ident sendAt) = Inl e"
    "raised c (fst (cancelScheduledSingleSend c ident)) e \<Longrightarrow> snd (cancelScheduledSingleSend c ident) = Inl e"
    "raised c (fst (sendSingleSendNow c ident)) e \<Longrightarrow> snd (sendSingleSendNow c ident) = Inl e"
    "raised c (fst (listSenderIdentities c)) e \<Longrightarrow> snd (listSenderIdentities c) = Inl e"
    "raised c (fst (getSenderIdentity c ident_num)) e \<Longrightarrow> snd (getSenderIdentity c ident_num) = Inl e"
    "raised c (fst (createSenderIdentity c input)) e \<Longrightarrow> snd (createSenderIdentity c input) = Inl e"
    "raised c (fst (updateSenderIdentity c ident_num input)) e \<Longrightarrow> snd (updateSenderIdentity c ident_num input) = Inl e"
    "raised c (fst (deleteSenderIdentity c ident_num)) e \<Longrightarrow> snd (deleteSenderIdentity c ident_num) = Inl e"
  by (simp_all add: and_then_def raised_request raised_branch
        getSingleSend_def createSingleSend_def updateSingleSend_def deleteSingleSend_def
        scheduleSingleSend_def cancelScheduledSingleSend_def sendSingleSendNow_def
        listSenderIdentities_def getSenderIdentity_def createSenderIdentity_def
        updateSenderIdentity_def deleteSenderIdentity_def)

lemma raises_group_5:
  shows
    "raised c (fst (resendSenderVerification c ident_num)) e \<Longrightarrow> snd (resendSenderVerification c ident_num) = Inl e"
    "raised c (fst (getGlobalStats c startDate endDate aggregatedBy)) e \<Longrightarrow> snd (getGlobalStats c startDate endDate aggregatedBy) = Inl e"
    "raised c (fst (getCategoryStats c categories startDate endDate aggregatedBy)) e \<Longrightarrow> snd (getCategoryStats c categories startDate endDate aggregatedBy) = Inl e"
    "raised c (fst (getMailboxProviderStats c startDate endDate mailboxProviders)) e \<Longrightarrow> snd (getMailboxProviderStats c startDate endDate mailboxProviders) = Inl e"
    "raised c (fst (getBrowserStats c startDate endDate)) e \<Longrightarrow> snd (getBrowserStats c startDate endDate) = Inl e"
    "raised c (fst (getDeviceStats c startDate endDate)) e \<Longrightarrow> snd (getDeviceStats c startDate endDate) = Inl e"
    "raised c (fst (getGeographyStats c startDate endDate country)) e \<Longrightarrow> snd (getGeographyStats c startDate endDate country) = Inl e"
    "raised c (fst (listBounces c st et lim off)) e \<Longrightarrow> snd (listBounces c st et lim off) = Inl e"
    "raised c (fst (getBounce c addr)) e \<Longrightarrow> snd (getBounce c addr) = Inl e"
    "raised c (fst (deleteBounce c addr)) e \<Longrightarrow> snd (deleteBounce c addr) = Inl e"
    "raised c (fst (deleteBounces c emails flag)) e \<Longrightarrow> snd (deleteBounces c emails flag) = Inl e"
    "raised c (fst (listBlocks c st et lim off)) e \<Longrightarrow> snd (listBlocks c st et lim off) = Inl e"
  by (simp_all add: and_then_def raised_request raised_branch
        resendSenderVerification_def getGlobalStats_def getCategoryStats_def
        getMailboxProviderStats_def getBrowserStats_def getDeviceStats_def getGeographyStats_def
        listBounces_def getBounce_def deleteBounce_def deleteBounces_def listBlocks_def)

lemma raises_group_6:
  shows
    "raised c (fst (getBlock c addr)) e \<Longrightarrow> snd (getBlock c addr) = Inl e"
    "raised c (fst (deleteBlock c addr)) e \<Longrightarrow> snd (deleteBlock c addr) = Inl e"
    "raised c (fst (deleteBlocks c emails flag)) e \<Longrightarrow> snd (deleteBlocks c emails flag) = Inl e"
    "raised c (fst (listSpamReports c st et lim off)) e \<Longrightarrow> snd (listSpamReports c st et lim off) = Inl e"
    "raised c (fst (getSpamReport c addr)) e \<Longrightarrow> snd (getSpamReport c addr) = Inl e"
    "raised c (fst (deleteSpamReport c addr)) e \<Longrightarrow> snd (deleteSpamReport c addr) = Inl e"
    "raised c (fst (deleteSpamReports c emails flag)) e \<Longrightarrow> snd (deleteSpamReports c emails flag) = Inl e"
    "raised c (fst (listInvalidEmails c st et lim off)) e \<Longrightarrow> snd (listInvalidEmails c st et lim off) = Inl e"
    "raised c (fst (getInvalidEmail c addr)) e \<Longrightarrow> snd (getInvalidEmail c addr) = Inl e"
    "raised c (fst (deleteInvalidEmail c addr)) e \<Longrightarrow> snd (deleteInvalidEmail c addr) = Inl e"
    "raised c (fst (deleteInvalidEmails c emails flag)) e \<Longrightarrow> snd (deleteInvalidEmails c emails flag) = Inl e"
    "raised c (fst (listGlobalSuppressions c st et lim off)) e \<Longrightarrow> snd (listGlobalSuppressions c st et lim off) = Inl e"
  by (simp_all add: and_then_def raised_request raised_branch
        getBlock_def deleteBlock_def deleteBlocks_def listSpamReports_def getSpamReport_def
        deleteSpamReport_def deleteSpamReports_def listInvalidEmails_def getInvalidEmail_def
        deleteInvalidEmail_def deleteInvalidEmails_def listGlobalSuppressions_def)

lemma raises_group_7:
  shows
    "raised c (fst (addGlobalSuppression c emails)) e \<Longrightarrow> snd (addGlobalSuppression c emails) = Inl e"
    "raised c (fst (deleteGlobalSuppression c addr)) e \<Longrightarrow> snd (deleteGlobalSuppression c addr) = Inl e"
    "raised c (fst (listUnsubscribeGroups c)) e \<Longrightarrow> snd (listUnsubscribeGroups c) = Inl e"
    "raised c (fst (getUnsubscribeGroup c ident_num)) e \<Longrightarrow> snd (getUnsubscribeGroup c ident_num) = Inl e"
    "raised c (fst (createUnsubscribeGroup c input)) e \<Longrightarrow> snd (createUnsubscribeGroup c input) = Inl e"
    "raised c (fst (updateUnsubscribeGroup c ident_num input)) e \<Longrightarrow> snd (updateUnsubscribeGroup c ident_num input) = Inl e"
    "raised c (fst (deleteUnsubscribeGroup c ident_num)) e \<Longrightarrow> snd (deleteUnsubscribeGroup c ident_num) = Inl e"
    "raised c (fst (listGroupSuppressions c groupId)) e \<Longrightarrow> snd (listGroupSuppressions c groupId) = Inl e"
    "raised c (fst (addGroupSuppressions c groupId emails)) e \<Longrightarrow> snd (addGroupSuppressions c groupId emails) = Inl e"
    "raised c (fst (deleteGroupSuppression c groupId addr)) e \<Longrightarrow> snd (deleteGroupSuppression c groupId addr) = Inl e"
    "raised c (fst (searchGroupSuppressions c addr)) e \<Longrightarrow> snd (searchGroupSuppressions c addr) = Inl e"
    "raised c (fst (listApiKeys c)) e \<Longrightarrow> snd (listApiKeys c) = Inl e"
  by (simp_all add: and_then_def raised_request raised_branch
        addGlobalSuppression_def deleteGlobalSuppression_def listUnsubscribeGroups_def
        getUnsubscribeGroup_def createUnsubscribeGroup_def updateUnsubscribeGroup_def
        deleteUnsubscribeGroup_def listGroupSuppressions_def addGroupSuppressions_def
        deleteGroupSuppression_def searchGroupSuppressions_def listApiKeys_def)

lemma raises_group_8:
  shows
    "raised c (fst (getApiKey c ident)) e \<Longrightarrow> snd (getApiKey c ident) = Inl e"
    "raised c (fst (createApiKey c input)) e \<Longrightarrow> snd (createApiKey c input) = Inl e"
    "raised c (fst (updateApiKey c ident nm scs_opt)) e \<Longrightarrow> snd (updateApiKey c ident nm scs_opt) = Inl e"
    "raised c (fst (deleteApiKey c ident)) e \<Longrightarrow> snd (deleteApiKey c ident) = Inl e"
    "raised c (fst (getEventWebhook c)) e \<Longrightarrow> snd (getEventWebhook c) = Inl e"
    "raised c (fst (updateEventWebhook c input)) e \<Longrightarrow> snd (updateEventWebhook c input) = Inl e"
    "raised c (fst (testEventWebhook c url)) e \<Longrightarrow> snd (testEventWebhook c url) = Inl e"
    "raised c (fst (listAuthenticatedDomains c)) e \<Longrightarrow> snd (listAuthenticatedDomains c) = Inl e"
    "raised c (fst (getAuthenticatedDomain c ident_num)) e \<Longrightarrow> snd (getAuthenticatedDomain c ident_num) = Inl e"
    "raised c (fst (authenticateDomain c input)) e \<Longrightarrow> snd (authenticateDomain c input) = Inl e"
    "raised c (fst (deleteAuthenticatedDomain c ident_num)) e \<Longrightarrow> snd (deleteAuthenticatedDomain c ident_num) = Inl e"
    "raised c (fst (validateDomain c ident_num)) e \<Longrightarrow> snd (validateDomain c ident_num) = Inl e"
  by (simp_all add: and_then_def raised_request raised_branch
        getApiKey_def createApiKey_def updateApiKey_def deleteApiKey_def getEventWebhook_def
        updateEventWebhook_def testEventWebhook_def listAuthenticatedDomains_def
        getAuthenticatedDomain_def authenticateDomain_def deleteAuthenticatedDomain_def
        validateDomain_def)

lemma raises_group_9:
  shows
    "raised c (fst (listBrandedLinks c)) e \<Longrightarrow> snd (listBrandedLinks c) = Inl e"
    "raised c (fst (getBrandedLink c ident_num)) e \<Longrightarrow> snd (getBrandedLink c ident_num) = Inl e"
    "raised c (fst (createBrandedLink c input)) e \<Longrightarrow> snd (createBrandedLink c input) = Inl e"
    "raised c (fst (deleteBrandedLink c ident_num)) e \<Longrightarrow> snd (deleteBrandedLink c ident_num) = Inl e"
    "raised c (fst (validateBrandedLink c ident_num)) e \<Longrightarrow> snd (validateBrandedLink c ident_num) = Inl e"
    "raised c (fst (listIpAddresses c)) e \<Longrightarrow> snd (listIpAddresses c) = Inl e"
    "raised c (fst (getIpAddress c ip)) e \<Longrightarrow> snd (getIpAddress c ip) = Inl e"
    "raised c (fst (listIpPools c)) e \<Longrightarrow> snd (listIpPools c) = Inl e"
    "raised c (fst (getIpPool c nm)) e \<Longrightarrow> snd (getIpPool c nm) = Inl e"
    "raised c (fst (createIpPool c input)) e \<Longrightarrow> snd (createIpPool c input) = Inl e"
    "raised c (fst (updateIpPool c nm newName)) e \<Longrightarrow> snd (updateIpPool c nm newName) = Inl e"
    "raised c (fst (deleteIpPool c nm)) e \<Longrightarrow> snd (deleteIpPool c nm) = Inl e"
  by (simp_all add: and_then_def raised_request raised_branch
        listBrandedLinks_def getBrandedLink_def createBrandedLink_def deleteBrandedLink_def
        validateBrandedLink_def listIpAddresses_def getIpAddress_def listIpPools_def
        getIpPool_def createIpPool_def updateIpPool_def deleteIpPool_def)

lemma raises_group_10:
  shows
    "raised c (fst (addIpToPool c poolName ip)) e \<Longrightarrow> snd (addIpToPool c poolName ip) = Inl e"
    "raised c (fst (removeIpFromPool c poolName ip)) e \<Longrightarrow> snd (removeIpFromPool c poolName ip) = Inl e"
    "raised c (fst (listIpWarmup c)) e \<Longrightarrow> snd (listIpWarmup c) = Inl e"
    "raised c (fst (startIpWarmup c ip)) e \<Longrightarrow> snd (startIpWarmup c ip) = Inl e"
    "raised c (fst (stopIpWarmup c ip)) e \<Longrightarrow> snd (stopIpWarmup c ip) = Inl e"
    "raised c (fst (listSubusers c lim off)) e \<Longrightarrow> snd (listSubusers c lim off) = Inl e"
    "raised c (fst (getSubuser c username)) e \<Longrightarrow> snd (getSubuser c username) = Inl e"
    "raised c (fst (createSubuser c input)) e \<Longrightarrow> snd (createSubuser c input) = Inl e"
    "raised c (fst (deleteSubuser c username)) e \<Longrightarrow> snd (deleteSubuser c username) = Inl e"
    "raised c (fst (enableSubuser c username)) e \<Longrightarrow> snd (enableSubuser c username) = Inl e"
    "raised c (fst (disableSubuser c username)) e \<Longrightarrow> snd (disableSubuser c username) = Inl e"
    "raised c (fst (listTeammates c lim off)) e \<Longrightarrow> snd (listTeammates c lim off) = Inl e"
  by (simp_all add: and_then_def raised_request raised_branch
        addIpToPool_def removeIpFromPool_def listIpWarmup_def startIpWarmup_def stopIpWarmup_def
        listSubusers_def getSubuser_def createSubuser_def deleteSubuser_def enableSubuser_def
        disableSubuser_def listTeammates_def)

lemma raises_group_11:
  shows
    "raised c (fst (getTeammate c username)) e \<Longrightarrow> snd (getTeammate c username) = Inl e"
    "raised c (fst (inviteTeammate c tm)) e \<Longrightarrow> snd (inviteTeammate c tm) = Inl e"
    "raised c (fst (updateTeammatePermissions c username scs adm)) e \<Longrightarrow> snd (updateTeammatePermissions c username scs adm) = Inl e"
    "raised c (fst (deleteTeammate c username)) e \<Longrightarrow> snd (deleteTeammate c username) = Inl e"
    "raised c (fst (listInboundParseWebhooks c)) e \<Longrightarrow> snd (listInboundParseWebhooks c) = Inl e"
    "raised c (fst (getInboundParseWebhook c hostname)) e \<Longrightarrow> snd (getInboundParseWebhook c hostname) = Inl e"
    "raised c (fst (createInboundParseWebhook c input)) e \<Longrightarrow> snd (createInboundParseWebhook c input) = Inl e"
    "raised c (fst (updateInboundParseWebhook c hostname input)) e \<Longrightarrow> snd (updateInboundParseWebhook c hostname input) = Inl e"
    "raised c (fst (deleteInboundParseWebhook c hostname)) e \<Longrightarrow> snd (deleteInboundParseWebhook c hostname) = Inl e"
    "raised c (fst (validateEmail c addr src)) e \<Longrightarrow> snd (validateEmail c addr src) = Inl e"
    "raised c (fst (createBatchId c)) e \<Longrightarrow> snd (createBatchId c) = Inl e"
    "raised c (fst (listScheduledSends c)) e \<Longrightarrow> snd (listScheduledSends c) = Inl e"
  by (simp_all add: and_then_def raised_request raised_branch
        getTeammate_def inviteTeammate_def updateTeammatePermissions_def deleteTeammate_def
        listInboundParseWebhooks_def getInboundParseWebhook_def createInboundParseWebhook_def
        updateInboundParseWebhook_def deleteInboundParseWebhook_def validateEmail_def
        createBatchId_def listScheduledSends_def)

lemma raises_group_12:
  shows
    "raised c (fst (getScheduledSend c batchId)) e \<Longrightarrow> snd (getScheduledSend c batchId) = Inl e"
    "raised c (fst (cancelScheduledSend c batchId)) e \<Longrightarrow> snd (cancelScheduledSend c batchId) = Inl e"
    "raised c (fst (pauseScheduledSend c batchId)) e \<Longrightarrow> snd (pauseScheduledSend c batchId) = Inl e"
    "raised c (fst (listAlerts c)) e \<Longrightarrow> snd (listAlerts c) = Inl e"
    "raised c (fst (getAlert c ident_num)) e \<Longrightarrow> snd (getAlert c ident_num) = Inl e"
    "raised c (fst (createAlert c input)) e \<Longrightarrow> snd (createAlert c input) = Inl e"
    "raised c (fst (updateAlert c ident_num input)) e \<Longrightarrow> snd (updateAlert c ident_num input) = Inl e"
    "raised c (fst (deleteAlert c ident_num)) e \<Longrightarrow> snd (deleteAlert c ident_num) = Inl e"
    "raised c (fst (listDesigns c ps tok)) e \<Longrightarrow> snd (listDesigns c ps tok) = Inl e"
    "raised c (fst (getDesign c ident)) e \<Longrightarrow> snd (getDesign c ident) = Inl e"
    "raised c (fst (createDesign c input)) e \<Longrightarrow> snd (createDesign c input) = Inl e"
    "raised c (fst (updateDesign c ident input)) e \<Longrightarrow> snd (updateDesign c ident input) = Inl e"
  by (simp_all add: and_then_def raised_request raised_branch
        getScheduledSend_def cancelScheduledSend_def pauseScheduledSend_def listAlerts_def
        getAlert_def createAlert_def updateAlert_def deleteAlert_def listDesigns_def
        getDesign_def createDesign_def updateDesign_def)

lemma raises_group_13:
  shows
    "raised c (fst (deleteDesign c ident)) e \<Longrightarrow> snd (deleteDesign c ident) = Inl e"
    "raised c (fst (duplicateDesign c ident nm_opt)) e \<Longrightarrow> snd (duplicateDesign c ident nm_opt) = Inl e"
  by (simp_all add: and_then_def raised_request raised_branch
        deleteDesign_def duplicateDesign_def)

lemma catch_all_returns:
  shows "raised c (fst (testConnection c)) e \<Longrightarrow> snd (testConnection c) = Inr False"
    "raised c (fst (getContactByEmail c addr)) e \<Longrightarrow> snd (getContactByEmail c addr) = Inr (Some JNull)"
    "raised c (fst (getGlobalSuppression c addr)) e \<Longrightarrow> snd (getGlobalSuppression c addr) = Inr (Some JNull)"
    "raised c (fst (validateBatchId c batchId)) e \<Longrightarrow> snd (validateBatchId c batchId) = Inr False"
  by (simp_all add: testConnection_def getContactByEmail_def getGlobalSuppression_def
        validateBatchId_def and_then_def or_catch_def raised_request)

text \<open>
  Claim C2, as stated, at \<^verbatim>\<open>getContactByEmail\<close> against an upstream that answers 401:
  the executor raises an authentication error and the operation returns null.
\<close>

theorem getContactByEmail_swallows_authentication_error:
  "snd (request (fixed_upstream (Some ''SG.key'') \<lparr>status = 401, retry_after = None, text_of = []\<rparr> [])
          ''/marketing/contacts/search/emails'' [] ''POST''
          (Some (json_object [(''emails'', Some (str_array [''a@example.com'']))])))
     = Inl (AuthenticationError ''Authentication failed. Check your API key.'')
   \<and> snd (getContactByEmail
            (fixed_upstream (Some ''SG.key'') \<lparr>status = 401, retry_after = None, text_of = []\<rparr> [])
            ''a@example.com'')
     = Inr (Some JNull)"
  by (simp add: getContactByEmail_def and_then_def or_catch_def snd_request_fixed
        handle_response_def)

text \<open>
  Claim C2, amended. An error is raised in a call of an operation when the executor
  raises it on the request that this call sent (or before sending, for want of an API
  key); for the executor itself that is the error it ends in. The four operations with
  a catch-all, \<^verbatim>\<open>testConnection\<close>, \<^verbatim>\<open>getContactByEmail\<close>, \<^verbatim>\<open>getGlobalSuppression\<close> and
  \<^verbatim>\<open>validateBatchId\<close>, turn an error raised in their call, classified or not, into a
  result: not connected, null, null, not valid. Each of the other 146 client
  operations ends in the error raised in its own call, whatever the upstream answers
  to any other request.
\<close>

theorem errors_propagate_except_catch_all:
  "(raised c (fst (request c pth qs mth bd)) e \<longleftrightarrow> snd (request c pth qs mth bd) = Inl e)
   \<and> (raised c (fst (testConnection c)) e \<longrightarrow>
       snd (testConnection c) = Inr False)
   \<and> (raised c (fst (getContactByEmail c addr)) e \<longrightarrow>
       snd (getContactByEmail c addr) = Inr (Some JNull))
   \<and> (raised c (fst (getGlobalSuppression c addr)) e \<longrightarrow>
       snd (getGlobalSuppression c addr) = Inr (Some JNull))
   \<and> (raised c (fst (validateBatchId c batchId)) e \<longrightarrow>
       snd (validateBatchId c batchId) = Inr False)
   \<and> (raised c (fst (sendEmail c input)) e \<longrightarrow>
       snd (sendEmail c input) = Inl e)
   \<and> (raised c (fst (listContacts c tok)) e \<longrightarrow>
       snd (listContacts c tok) = Inl e)
   \<and> (raised c (fst (getContact c ident)) e \<longrightarrow>
       snd (getContact c ident) = Inl e)
   \<and> (raised c (fst (addOrUpdateContacts c contacts listIds)) e \<longrightarrow>
       snd (addOrUpdateContacts c contacts listIds) = Inl e)
   \<and> (raised c (fst (deleteContacts c ids flag)) e \<longrightarrow>
       snd (deleteContacts c ids flag) = Inl e)
   \<and> (raised c (fst (searchContacts c q)) e \<longrightarrow>
       snd (searchContacts c q) = Inl e)
   \<and> (raised c (fst (getContactCount c)) e \<longrightarrow>
       snd (getContactCount c) = Inl e)
   \<and> (raised c (fst (listContactLists c)) e \<longrightarrow>
       snd (listContactLists c) = Inl e)
   \<and> (raised c (fst (getContactList c ident)) e \<longrightarrow>
       snd (getContactList c ident) = Inl e)
   \<and> (raised c (fst (createContactList c input)) e \<longrightarrow>
       snd (createContactList c input) = Inl e)
   \<and> (raised c (fst (updateContactList c ident input)) e \<longrightarrow>
       snd (updateContactList c ident input) = Inl e)
   \<and> (raised c (fst (deleteContactList c ident withContacts)) e \<longrightarrow>
       snd (deleteContactList c ident withContacts) = Inl e)
   \<and> (raised c (fst (getContactListCount c ident)) e \<longrightarrow>
       snd (getContactListCount c ident) = Inl e)
   \<and> (raised c (fst (addContactsToList c listId contactIds)) e \<longrightarrow>
       snd (addContactsToList c listId contactIds) = Inl e)
   \<and> (raised c (fst (removeContactsFromList c listId contactIds)) e \<longrightarrow>
       snd (removeContactsFromList c listId contactIds) = Inl e)
   \<and> (raised c (fst (listSegments c pids)) e \<longrightarrow>
       snd (listSegments c pids) = Inl e)
   \<and> (raised c (fst (getSegment c ident)) e \<longrightarrow>
       snd (getSegment c ident) = Inl e)
   \<and> (raised c (fst (createSegment c seg)) e \<longrightarrow>
       snd (createSegment c seg) = Inl e)
   \<and> (raised c (fst (updateSegment c ident nm_opt qd)) e \<longrightarrow>
       snd (updateSegment c ident nm_opt qd) = Inl e)
   \<and> (raised c (fst (deleteSegment c ident)) e \<longrightarrow>
       snd (deleteSegment c ident) = Inl e)
   \<and> (raised c (fst (listCustomFields c)) e \<longrightarrow>
       snd (listCustomFields c) = Inl e)
   \<and> (raised c (fst (createCustomField c nm fieldType)) e \<longrightarrow>
       snd (createCustomField c nm fieldType) = Inl e)
   \<and> (raised c (fst (updateCustomField c ident nm)) e \<longrightarrow>
       snd (updateCustomField c ident nm) = Inl e)
   \<and> (raised c (fst (deleteCustomField c ident)) e \<longrightarrow>
       snd (deleteCustomField c ident) = Inl e)
   \<and> (raised c (fst (listTemplates c gen ps tok)) e \<longrightarrow>
       snd (listTemplates c gen ps tok) = Inl e)
   \<and> (raised c (fst (getTemplate c ident)) e \<longrightarrow>
       snd (getTemplate c ident) = Inl e)
   \<and> (raised c (fst (createTemplate c input)) e \<longrightarrow>
       snd (createTemplate c input) = Inl e)
   \<and> (raised c (fst (updateTemplate c ident nm)) e \<longrightarrow>
       snd (updateTemplate c ident nm) = Inl e)
   \<and> (raised c (fst (deleteTemplate c ident)) e \<longrightarrow>
       snd (deleteTemplate c ident) = Inl e)
   \<and> (raised c (fst (duplicateTemplate c ident nm_opt)) e \<longrightarrow>
       snd (duplicateTemplate c ident nm_opt) = Inl e)
   \<and> (raised c (fst (createTemplateVersion c templateId nm subj htmlContent plainContent active editor generatePlainContent testData)) e \<longrightarrow>
       snd (createTemplateVersion c templateId nm subj htmlContent plainContent active editor generatePlainContent testData) = Inl e)
   \<and> (raised c (fst (getTemplateVersion c templateId versionId)) e \<longrightarrow>
       snd (getTemplateVersion c templateId versionId) = Inl e)
   \<and> (raised c (fst (updateTemplateVersion c templateId versionId nm_opt subj htmlContent plainContent active editor generatePlainContent)) e \<longrightarrow>
       snd (updateTemplateVersion c templateId versionId nm_opt subj htmlContent plainContent active editor generatePlainContent) = Inl e)
   \<and> (raised c (fst (deleteTemplateVersion c templateId versionId)) e \<longrightarrow>
       snd (deleteTemplateVersion c templateId versionId) = Inl e)
   \<and> (raised c (fst (activateTemplateVersion c templateId versionId)) e \<longrightarrow>
       snd (activateTemplateVersion c templateId versionId) = Inl e)
   \<and> (raised c (fst (listSingleSends c sf)) e \<longrightarrow>
       snd (listSingleSends c sf) = Inl e)
   \<and> (raised c (fst (getSingleSend c ident)) e \<longrightarrow>
       snd (getSingleSend c ident) = Inl e)
   \<and> (raised c (fst (createSingleSend c input)) e \<longrightarrow>
       snd (createSingleSend c input) = Inl e)
   \<and> (raised c (fst (updateSingleSend c ident input)) e \<longrightarrow>
       snd (updateSingleSend c ident input) = Inl e)
   \<and> (raised c (fst (deleteSingleSend c ident)) e \<longrightarrow>
       snd (deleteSingleSend c ident) = Inl e)
   \<and> (raised c (fst (scheduleSingleSend c ident sendAt)) e \<longrightarrow>
       snd (scheduleSingleSend c ident sendAt) = Inl e)
   \<and> (raised c (fst (cancelScheduledSingleSend c ident)) e \<longrightarrow>
       snd (cancelScheduledSingleSend c ident) = Inl e)
   \<and> (raised c (fst (sendSingleSendNow c ident)) e \<longrightarrow>
       snd (sendSingleSendNow c ident) = Inl e)
   \<and> (raised c (fst (listSenderIdentities c)) e \<longrightarrow>
       snd (listSenderIdentities c) = Inl e)
   \<and> (raised c (fst (getSenderIdentity c ident_num)) e \<longrightarrow>
       snd (getSenderIdentity c ident_num) = Inl e)
   \<and> (raised c (fst (createSenderIdentity c input)) e \<longrightarrow>
       snd (createSenderIdentity c input) = Inl e)
   \<and> (raised c (fst (updateSenderIdentity c ident_num input)) e \<longrightarrow>
       snd (updateSenderIdentity c ident_num input) = Inl e)
   \<and> (raised c (fst (deleteSenderIdentity c ident_num)) e \<longrightarrow>
       snd (deleteSenderIdentity c ident_num) = Inl e)
   \<and> (raised c (fst (resendSenderVerification c ident_num)) e \<longrightarrow>
       snd (resendSenderVerification c ident_num) = Inl e)
   \<and> (raised c (fst (getGlobalStats c startDate endDate aggregatedBy)) e \<longrightarrow>
       snd (getGlobalStats c startDate endDate aggregatedBy) = Inl e)
   \<and> (raised c (fst (getCategoryStats c categories startDate endDate aggregatedBy)) e \<longrightarrow>
       snd (getCategoryStats c categories startDate endDate aggregatedBy) = Inl e)
   \<and> (raised c (fst (getMailboxProviderStats c startDate endDate mailboxProviders)) e \<longrightarrow>
       snd (getMailboxProviderStats c startDate endDate mailboxProviders) = Inl e)
   \<and> (raised c (fst (getBrowserStats c startDate endDate)) e \<longrightarrow>
       snd (getBrowserStats c startDate endDate) = Inl e)
   \<and> (raised c (fst (getDeviceStats c startDate endDate)) e \<longrightarrow>
       snd (getDeviceStats c startDate endDate) = Inl e)
   \<and> (raised c (fst (getGeographyStats c startDate endDate country)) e \<longrightarrow>
       snd (getGeographyStats c startDate endDate country) = Inl e)
   \<and> (raised c (fst (listBounces c st et lim off)) e \<longrightarrow>
       snd (listBounces c st et lim off) = Inl e)
   \<and> (raised c (fst (getBounce c addr)) e \<longrightarrow>
       snd (getBounce c addr) = Inl e)
   \<and> (raised c (fst (deleteBounce c addr)) e \<longrightarrow>
       snd (deleteBounce c addr) = Inl e)
   \<and> (raised c (fst (deleteBounces c emails flag)) e \<longrightarrow>
       snd (deleteBounces c emails flag) = Inl e)
   \<and> (raised c (fst (listBlocks c st et lim off)) e \<longrightarrow>
       snd (listBlocks c st et lim off) = Inl e)
   \<and> (raised c (fst (getBlock c addr)) e \<longrightarrow>
       snd (getBlock c addr) = Inl e)
   \<and> (raised c (fst (deleteBlock c addr)) e \<longrightarrow>
       snd (deleteBlock c addr) = Inl e)
   \<and> (raised c (fst (deleteBlocks c emails flag)) e \<longrightarrow>
       snd (deleteBlocks c emails flag) = Inl e)
   \<and> (raised c (fst (listSpamReports c st et lim off)) e \<longrightarrow>
       snd (listSpamReports c st et lim off) = Inl e)
   \<and> (raised c (fst (getSpamReport c addr)) e \<longrightarrow>
       snd (getSpamReport c addr) = Inl e)
   \<and> (raised c (fst (deleteSpamReport c addr)) e \<longrightarrow>
       snd (deleteSpamReport c addr) = Inl e)
   \<and> (raised c (fst (deleteSpamReports c emails flag)) e \<longrightarrow>
       snd (deleteSpamReports c emails flag) = Inl e)
   \<and> (raised c (fst (listInvalidEmails c st et lim off)) e \<longrightarrow>
       snd (listInvalidEmails c st et lim off) = Inl e)
   \<and> (raised c (fst (getInvalidEmail c addr)) e \<longrightarrow>
       snd (getInvalidEmail c addr) = Inl e)
   \<and> (raised c (fst (deleteInvalidEmail c addr)) e \<longrightarrow>
       snd (deleteInvalidEmail c addr) = Inl e)
   \<and> (raised c (fst (deleteInvalidEmails c emails flag)) e \<longrightarrow>
       snd (deleteInvalidEmails c emails flag) = Inl e)
   \<and> (raised c (fst (listGlobalSuppressions c st et lim off)) e \<longrightarrow>
       snd (listGlobalSuppressions c st et lim off) = Inl e)
   \<and> (raised c (fst (addGlobalSuppression c emails)) e \<longrightarrow>
       snd (addGlobalSuppression c emails) = Inl e)
   \<and> (raised c (fst (deleteGlobalSuppression c addr)) e \<longrightarrow>
       snd (deleteGlobalSuppression c addr) = Inl e)
   \<and> (raised c (fst (listUnsubscribeGroups c)) e \<longrightarrow>
       snd (listUnsubscribeGroups c) = Inl e)
   \<and> (raised c (fst (getUnsubscribeGroup c ident_num)) e \<longrightarrow>
       snd (getUnsubscribeGroup c ident_num) = Inl e)
   \<and> (raised c (fst (createUnsubscribeGroup c input)) e \<longrightarrow>
       snd (createUnsubscribeGroup c input) = Inl e)
   \<and> (raised c (fst (updateUnsubscribeGroup c ident_num input)) e \<longrightarrow>
       snd (updateUnsubscribeGroup c ident_num input) = Inl e)
   \<and> (raised c (fst (deleteUnsubscribeGroup c ident_num)) e \<longrightarrow>
       snd (deleteUnsubscribeGroup c ident_num) = Inl e)
   \<and> (raised c (fst (listGroupSuppressions c groupId)) e \<longrightarrow>
       snd (listGroupSuppressions c groupId) = Inl e)
   \<and> (raised c (fst (addGroupSuppressions c groupId emails)) e \<longrightarrow>
       snd (addGroupSuppressions c groupId emails) = Inl e)
   \<and> (raised c (fst (deleteGroupSuppression c groupId addr)) e \<longrightarrow>
       snd (deleteGroupSuppression c groupId addr) = Inl e)
   \<and> (raised c (fst (searchGroupSuppressions c addr)) e \<longrightarrow>
       snd (searchGroupSuppressions c addr) = Inl e)
   \<and> (raised c (fst (listApiKeys c)) e \<longrightarrow>
       snd (listApiKeys c) = Inl e)
   \<and> (raised c (fst (getApiKey c ident)) e \<longrightarrow>
       snd (getApiKey c ident) = Inl e)
   \<and> (raised c (fst (createApiKey c input)) e \<longrightarrow>
       snd (createApiKey c input) = Inl e)
   \<and> (raised c (fst (updateApiKey c ident nm scs_opt)) e \<longrightarrow>
       snd (updateApiKey c ident nm scs_opt) = Inl e)
   \<and> (raised c (fst (deleteApiKey c ident)) e \<longrightarrow>
       snd (deleteApiKey c ident) = Inl e)
   \<and> (raised c (fst (getEventWebhook c)) e \<longrightarrow>
       snd (getEventWebhook c) = Inl e)
   \<and> (raised c (fst (updateEventWebhook c input)) e \<longrightarrow>
       snd (updateEventWebhook c input) = Inl e)
   \<and> (raised c (fst (testEventWebhook c url)) e \<longrightarrow>
       snd (testEventWebhook c url) = Inl e)
   \<and> (raised c (fst (listAuthenticatedDomains c)) e \<longrightarrow>
       snd (listAuthenticatedDomains c) = Inl e)
   \<and> (raised c (fst (getAuthenticatedDomain c ident_num)) e \<longrightarrow>
       snd (getAuthenticatedDomain c ident_num) = Inl e)
   \<and> (raised c (fst (authenticateDomain c input)) e \<longrightarrow>
       snd (authenticateDomain c input) = Inl e)
   \<and> (raised c (fst (deleteAuthenticatedDomain c ident_num)) e \<longrightarrow>
       snd (deleteAuthenticatedDomain c ident_num) = Inl e)
   \<and> (raised c (fst (validateDomain c ident_num)) e \<longrightarrow>
       snd (validateDomain c ident_num) = Inl e)
   \<and> (raised c (fst (listBrandedLinks c)) e \<longrightarrow>
       snd (listBrandedLinks c) = Inl e)
   \<and> (raised c (fst (getBrandedLink c ident_num)) e \<longrightarrow>
       snd (getBrandedLink c ident_num) = Inl e)
   \<and> (raised c (fst (createBrandedLink c input)) e \<longrightarrow>
       snd (createBrandedLink c input) = Inl e)
   \<and> (raised c (fst (deleteBrandedLink c ident_num)) e \<longrightarrow>
       snd (deleteBrandedLink c ident_num) = Inl e)
   \<and> (raised c (fst (validateBrandedLink c ident_num)) e \<longrightarrow>
       snd (validateBrandedLink c ident_num) = Inl e)
   \<and> (raised c (fst (listIpAddresses c)) e \<longrightarrow>
       snd (listIpAddresses c) = Inl e)
   \<and> (raised c (fst (getIpAddress c ip)) e \<longrightarrow>
       snd (getIpAddress c ip) = Inl e)
   \<and> (raised c (fst (listIpPools c)) e \<longrightarrow>
       snd (listIpPools c) = Inl e)
   \<and> (raised c (fst (getIpPool c nm)) e \<longrightarrow>
       snd (getIpPool c nm) = Inl e)
   \<and> (raised c (fst (createIpPool c input)) e \<longrightarrow>
       snd (createIpPool c input) = Inl e)
   \<and> (raised c (fst (updateIpPool c nm newName)) e \<longrightarrow>
       snd (updateIpPool c nm newName) = Inl e)
   \<and> (raised c (fst (deleteIpPool c nm)) e \<longrightarrow>
       snd (deleteIpPool c nm) = Inl e)
   \<and> (raised c (fst (addIpToPool c poolName ip)) e \<longrightarrow>
       snd (addIpToPool c poolName ip) = Inl e)
   \<and> (raised c (fst (removeIpFromPool c poolName ip)) e \<longrightarrow>
       snd (removeIpFromPool c poolName ip) = Inl e)
   \<and> (raised c (fst (listIpWarmup c)) e \<longrightarrow>
       snd (listIpWarmup c) = Inl e)
   \<and> (raised c (fst (startIpWarmup c ip)) e \<longrightarrow>
       snd (startIpWarmup c ip) = Inl e)
   \<and> (raised c (fst (stopIpWarmup c ip)) e \<longrightarrow>
       snd (stopIpWarmup c ip) = Inl e)
   \<and> (raised c (fst (listSubusers c lim off)) e \<longrightarrow>
       snd (listSubusers c lim off) = Inl e)
   \<and> (raised c (fst (getSubuser c username)) e \<longrightarrow>
       snd (getSubuser c username) = Inl e)
   \<and> (raised c (fst (createSubuser c input)) e \<longrightarrow>
       snd (createSubuser c input) = Inl e)
   \<and> (raised c (fst (deleteSubuser c username)) e \<longrightarrow>
       snd (deleteSubuser c username) = Inl e)
   \<and> (raised c (fst (enableSubuser c username)) e \<longrightarrow>
       snd (enableSubuser c username) = Inl e)
   \<and> (raised c (fst (disableSubuser c username)) e \<longrightarrow>
       snd (disableSubuser c username) = Inl e)
   \<and> (raised c (fst (listTeammates c lim off)) e \<longrightarrow>
       snd (listTeammates c lim off) = Inl e)
   \<and> (raised c (fst (getTeammate c username)) e \<longrightarrow>
       snd (getTeammate c username) = Inl e)
   \<and> (raised c (fst (inviteTeammate c tm)) e \<longrightarrow>
       snd (inviteTeammate c tm) = Inl e)
   \<and> (raised c (fst (updateTeammatePermissions c username scs adm)) e \<longrightarrow>
       snd (updateTeammatePermissions c username scs adm) = Inl e)
   \<and> (raised c (fst (deleteTeammate c username)) e \<longrightarrow>
       snd (deleteTeammate c username) = Inl e)
   \<and> (raised c (fst (listInboundParseWebhooks c)) e \<longrightarrow>
       snd (listInboundParseWebhooks c) = Inl e)
   \<and> (raised c (fst (getInboundParseWebhook c hostname)) e \<longrightarrow>
       snd (getInboundParseWebhook c hostname) = Inl e)
   \<and> (raised c (fst (createInboundParseWebhook c input)) e \<longrightarrow>
       snd (createInboundParseWebhook c input) = Inl e)
   \<and> (raised c (fst (updateInboundParseWebhook c hostname input)) e \<longrightarrow>
       snd (updateInboundParseWebhook c hostname input) = Inl e)
   \<and> (raised c (fst (deleteInboundParseWebhook c hostname)) e \<longrightarrow>
       snd (deleteInboundParseWebhook c hostname) = Inl e)
   \<and> (raised c (fst (validateEmail c addr src)) e \<longrightarrow>
       snd (validateEmail c addr src) = Inl e)
   \<and> (raised c (fst (createBatchId c)) e \<longrightarrow>
       snd (createBatchId c) = Inl e)
   \<and> (raised c (fst (listScheduledSends c)) e \<longrightarrow>
       snd (listScheduledSends c) = Inl e)
   \<and> (raised c (fst (getScheduledSend c batchId)) e \<longrightarrow>
       snd (getScheduledSend c batchId) = Inl e)
   \<and> (raised c (fst (cancelScheduledSend c batchId)) e \<longrightarrow>
       snd (cancelScheduledSend c batchId) = Inl e)
   \<and> (raised c (fst (pauseScheduledSend c batchId)) e \<longrightarrow>
       snd (pauseScheduledSend c batchId) = Inl e)
   \<and> (raised c (fst (listAlerts c)) e \<longrightarrow>
       snd (listAlerts c) = Inl e)
   \<and> (raised c (fst (getAlert c ident_num)) e \<longrightarrow>
       snd (getAlert c ident_num) = Inl e)
   \<and> (raised c (fst (createAlert c input)) e \<longrightarrow>
       snd (createAlert c input) = Inl e)
   \<and> (raised c (fst (updateAlert c ident_num input)) e \<longrightarrow>
       snd (updateAlert c ident_num input) = Inl e)
   \<and> (raised c (fst (deleteAlert c ident_num)) e \<longrightarrow>
       snd (deleteAlert c ident_num) = Inl e)
   \<and> (raised c (fst (listDesigns c ps tok)) e \<longrightarrow>
       snd (listDesigns c ps tok) = Inl e)
   \<and> (raised c (fst (getDesign c ident)) e \<longrightarrow>
       snd (getDesign c ident) = Inl e)
   \<and> (raised c (fst (createDesign c input)) e \<longrightarrow>
       snd (createDesign c input) = Inl e)
   \<and> (raised c (fst (updateDesign c ident input)) e \<longrightarrow>
       snd (updateDesign c ident input) = Inl e)
   \<and> (raised c (fst (deleteDesign c ident)) e \<longrightarrow>
       snd (deleteDesign c ident) = Inl e)
   \<and> (raised c (fst (duplicateDesign c ident nm_opt)) e \<longrightarrow>
       snd (duplicateDesign c ident nm_opt) = Inl e)"
  by (intro conjI impI raised_request)
     (erule catch_all_returns
        raises_group_1
        raises_group_2
        raises_group_3
        raises_group_4
        raises_group_5
        raises_group_6
        raises_group_7
        raises_group_8
        raises_group_9
        raises_group_10
        raises_group_11
        raises_group_12
        raises_group_13)+

theorem errors_propagate_except_catch_all_witness:
  "raised \<lparr>apiKey = Some ''SG.key'',
            fetch = post_fails \<lparr>status = 400, retry_after = None, text_of = []\<rparr>
                               \<lparr>status = 200, retry_after = None, text_of = ''{}''\<rparr>,
            json_parse = map_of [(''{}'', JObj [])]\<rparr>
     (fst (sendEmail \<lparr>apiKey = Some ''SG.key'',
                       fetch = post_fails \<lparr>status = 400, retry_after = None, text_of = []\<rparr>
                                          \<lparr>status = 200, retry_after = None, text_of = ''{}''\<rparr>,
                       json_parse = map_of [(''{}'', JObj [])]\<rparr> (JObj [])))
     (SendGridApiError (JStr ''API error: 400'') 400)
   \<and> snd (sendEmail \<lparr>apiKey = Some ''SG.key'',
                       fetch = post_fails \<lparr>status = 400, retry_after = None, text_of = []\<rparr>
                                          \<lparr>status = 200, retry_after = None, text_of = ''{}''\<rparr>,
                       json_parse = map_of [(''{}'', JObj [])]\<rparr> (JObj []))
       = Inl (SendGridApiError (JStr ''API error: 400'') 400)
   \<and> raised \<lparr>apiKey = Some ''SG.key'',
              fetch = post_fails \<lparr>status = 400, retry_after = None, text_of = []\<rparr>
                                 \<lparr>status = 200, retry_after = None, text_of = ''{}''\<rparr>,
              json_parse = map_of [(''{}'', JObj [])]\<rparr>
       (fst (getContactByEmail \<lparr>apiKey = Some ''SG.key'',
                       fetch = post_fails \<lparr>status = 400, retry_after = None, text_of = []\<rparr>
                                          \<lparr>status = 200, retry_after = None, text_of = ''{}''\<rparr>,
                       json_parse = map_of [(''{}'', JObj [])]\<rparr> ''a@example.com''))
       (SendGridApiError (JStr ''API error: 400'') 400)
   \<and> snd (getContactByEmail \<lparr>apiKey = Some ''SG.key'',
                       fetch = post_fails \<lparr>status = 400, retry_after = None, text_of = []\<rparr>
                                          \<lparr>status = 200, retry_after = None, text_of = ''{}''\<rparr>,
                       json_parse = map_of [(''{}'', JObj [])]\<rparr> ''a@example.com'')
       = Inr (Some JNull)
   \<and> snd (getContactCount \<lparr>apiKey = Some ''SG.key'',
                       fetch = post_fails \<lparr>status = 400, retry_after = None, text_of = []\<rparr>
                                          \<lparr>status = 200, retry_after = None, text_of = ''{}''\<rparr>,
                       json_parse = map_of [(''{}'', JObj [])]\<rparr>)
       = Inr (None, None)"
proof -
  let ?c = "\<lparr>apiKey = Some ''SG.key'',
             fetch = post_fails \<lparr>status = 400, retry_after = None, text_of = []\<rparr>
                                \<lparr>status = 200, retry_after = None, text_of = ''{}''\<rparr>,
             json_parse = map_of [(''{}'', JObj [])]\<rparr>"
  let ?e = "SendGridApiError (JStr ''API error: 400'') 400"
  have four_hundred: "show_int 400 = ''400''"
    by (simp add: show_int_def to_double_exact double_text_def round_double_exact
          show_nat.simps digit_char_def Let_def)
  have post: "sent_outcome ?c \<lparr>http_method = ''POST'', path = pth, query = qs, headers = hs, body = bd\<rparr>
                = Inl ?e" for pth qs hs bd
    by (simp add: sent_outcome_def post_fails_def handle_response_def response_ok_def
          error_message_def four_hundred)
  have send: "raised ?c (fst (sendEmail ?c (JObj []))) ?e"
    using post by (simp add: sendEmail_def request_outcome getAuthHeaders_def raised_def)
  have look: "raised ?c (fst (getContactByEmail ?c ''a@example.com'')) ?e"
    using post by (simp add: getContactByEmail_def request_outcome getAuthHeaders_def raised_def)
  have get: "snd (getContactCount ?c) = Inr (None, None)"
    by (simp add: getContactCount_def request_outcome getAuthHeaders_def sent_outcome_def
          post_fails_def handle_response_def response_ok_def and_then_def)
  note all = errors_propagate_except_catch_all [of ?c _ _ _ _ ?e]
  have "snd (sendEmail ?c (JObj [])) = Inl ?e"
    using all [THEN conjunct2, THEN conjunct2, THEN conjunct2, THEN conjunct2, THEN conjunct2,
               THEN conjunct1] send
    by blast
  moreover have "snd (getContactByEmail ?c ''a@example.com'') = Inr (Some JNull)"
    using all [THEN conjunct2, THEN conjunct2, THEN conjunct1] look
    by blast
  ultimately show ?thesis using send look get by simp
qed

end
